theory Spec2Isabelle
  imports Main "HOL-Library.Sublist" "HOL-Library.AList"
begin

section \<open>Go strings and paths\<close>

text \<open>
  Go strings are byte sequences; they are modelled as \<open>string\<close> (a list of \<open>char\<close>, one
  per byte). The helpers of the standard \<open>strings\<close> package that the detection code calls are
  written out here for ASCII text: \<open>unicode.IsSpace\<close> is taken on the six ASCII white-space
  bytes and \<open>strings.ToLower\<close> on the letters \<open>A\<close> to \<open>Z\<close>.
\<close>

definition isSpace :: "char \<Rightarrow> bool" where
  "isSpace c = (c = CHR 0x09 \<or> c = CHR 0x0A \<or> c = CHR 0x0B \<or> c = CHR 0x0C
                 \<or> c = CHR 0x0D \<or> c = CHR '' '')"

definition isDigit :: "char \<Rightarrow> bool" where
  "isDigit c = (48 \<le> (of_char c :: nat) \<and> (of_char c :: nat) \<le> 57)"

definition TrimSpace :: "string \<Rightarrow> string" where
  "TrimSpace s = rev (dropWhile isSpace (rev (dropWhile isSpace s)))"

definition HasPrefix :: "string \<Rightarrow> string \<Rightarrow> bool" where
  "HasPrefix s p = (take (length p) s = p)"

definition TrimPrefix :: "string \<Rightarrow> string \<Rightarrow> string" where
  "TrimPrefix s p = (if HasPrefix s p then drop (length p) s else s)"

definition toLowerChar :: "char \<Rightarrow> char" where
  "toLowerChar c =
     (if 65 \<le> (of_char c :: nat) \<and> (of_char c :: nat) \<le> 90
      then char_of ((of_char c :: nat) + 32) else c)"

definition ToLower :: "string \<Rightarrow> string" where
  "ToLower s = map toLowerChar s"

text \<open>\<open>strings.Split s sep\<close> for a one-byte separator: never empty, \<open>Split "" sep = [""]\<close>.\<close>

fun Split :: "string \<Rightarrow> char \<Rightarrow> string list" where
  "Split [] sep = [[]]"
| "Split (c # cs) sep =
     (if c = sep then [] # Split cs sep
      else (case Split cs sep of
              [] \<Rightarrow> [[c]]
            | y # ys \<Rightarrow> (c # y) # ys))"

text \<open>
  \<open>strings.SplitN s sep 2\<close>: the text before the first separator and, when there is a
  separator, the text after it.
\<close>

definition SplitN2 :: "string \<Rightarrow> char \<Rightarrow> string list" where
  "SplitN2 s sep =
     (if sep \<in> set s
      then [takeWhile (\<lambda>c. c \<noteq> sep) s, tl (dropWhile (\<lambda>c. c \<noteq> sep) s)]
      else [s])"

text \<open>\<open>strings.Fields\<close>: the maximal runs of non-space bytes, \<open>cur\<close> being the run read so far.\<close>

fun fieldsFrom :: "string \<Rightarrow> string \<Rightarrow> string list" where
  "fieldsFrom cur [] = (if cur = [] then [] else [cur])"
| "fieldsFrom cur (c # cs) =
     (if isSpace c
      then (if cur = [] then fieldsFrom [] cs else cur # fieldsFrom [] cs)
      else fieldsFrom (cur @ [c]) cs)"

definition Fields :: "string \<Rightarrow> string list" where
  "Fields s = fieldsFrom [] s"

text \<open>
  \<open>filepath.Clean\<close> and \<open>filepath.Join\<close> on slash-separated paths. \<open>Clean\<close> works on the
  components of the path: empty components and \<open>.\<close> are dropped, \<open>..\<close> removes the component
  before it, is dropped at the root of a rooted path, and is kept at the front of a relative
  one. \<open>out\<close> is the list of components kept so far.
\<close>

fun cleanComps :: "bool \<Rightarrow> string list \<Rightarrow> string list \<Rightarrow> string list" where
  "cleanComps rooted out [] = out"
| "cleanComps rooted out (c # cs) =
     (if c = [] \<or> c = ''.'' then cleanComps rooted out cs
      else if c = ''..'' then
        (if out \<noteq> [] \<and> last out \<noteq> ''..'' then cleanComps rooted (butlast out) cs
         else if rooted then cleanComps rooted out cs
         else cleanComps rooted (out @ [c]) cs)
      else cleanComps rooted (out @ [c]) cs)"

fun joinSlash :: "string list \<Rightarrow> string" where
  "joinSlash [] = []"
| "joinSlash [x] = x"
| "joinSlash (x # y # ys) = x @ ''/'' @ joinSlash (y # ys)"

definition Clean :: "string \<Rightarrow> string" where
  "Clean p =
     (if p = [] then ''.''
      else let rooted = (hd p = CHR ''/'');
               out = cleanComps rooted [] (Split p (CHR ''/''))
           in if rooted then ''/'' @ joinSlash out
              else if out = [] then ''.'' else joinSlash out)"

text \<open>\<open>filepath.Join\<close>: leading empty elements are skipped, the rest is joined and cleaned.\<close>

fun Join :: "string list \<Rightarrow> string" where
  "Join [] = []"
| "Join (e # es) = (if e = [] then Join es else Clean (joinSlash (e # es)))"

section \<open>The plan\<close>

text \<open>
  The values a plan's metadata holds behind Go's empty interface: the strings, booleans and
  string slices the provider stores, and the slices and maps a JSON decoder produces. A Go map
  is an association list with distinct keys; \<open>plan.Metadata[k] = v\<close> is \<open>AList.update\<close>.
\<close>

datatype gvalue =
  GString string
  | GBool bool
  | GStrings "string list"
  | GSlice "gvalue list"
  | GMap "(string \<times> gvalue) list"

record Plan =
  Provider :: string
  Language :: string
  LanguageVersion :: string
  Framework :: string
  FrameworkVersion :: string
  PackageManager :: string
  PackageManagerVersion :: string
  InstallCommand :: string
  BuildCommand :: string
  StartCommand :: string
  DetectedFiles :: "string list"
  Metadata :: "(string \<times> gvalue) list"
  BuildEnv :: "(string \<times> string) list"
  Env :: "(string \<times> string) list"

section \<open>The evidence view\<close>

text \<open>
  The file system the context reads is a map from path to entry. \<open>os.Stat\<close> succeeds on
  every entry; \<open>os.ReadFile\<close> succeeds on a regular file only.
\<close>

datatype fsentry = File string | Dir

type_synonym filesystem = "string \<rightharpoonup> fsentry"

text \<open>
  Errors are values: a missing file, a failed read, a failed parse, and \<open>fmt.Errorf\<close> wrapping
  an error with a message.
\<close>

datatype error = NotExist | ReadError | ParseError | Errorf string error

record Context =
  Path :: string
  Env :: "string \<rightharpoonup> string"

definition NewContext :: "string \<Rightarrow> Context" where
  "NewContext path = \<lparr>Path = path, Env = Map.empty\<rparr>"

text \<open>Reading a Go map at a missing key gives the zero value, the empty string.\<close>

definition mapGet :: "(string \<rightharpoonup> string) \<Rightarrow> string \<Rightarrow> string" where
  "mapGet m k = (case m k of None \<Rightarrow> [] | Some v \<Rightarrow> v)"

definition HasFile :: "filesystem \<Rightarrow> Context \<Rightarrow> string \<Rightarrow> bool" where
  "HasFile fs ctx name = (fs (Join [Path ctx, name]) \<noteq> None)"

definition ReadFile :: "filesystem \<Rightarrow> Context \<Rightarrow> string \<Rightarrow> error + string" where
  "ReadFile fs ctx name =
     (case fs (Join [Path ctx, name]) of
        None \<Rightarrow> Inl NotExist
      | Some Dir \<Rightarrow> Inl ReadError
      | Some (File data) \<Rightarrow> Inr data)"

text \<open>
  \<open>ListFiles\<close>. \<open>filepath.Glob\<close> and \<open>filepath.Rel\<close> belong to the standard library and are
  parameters: \<open>Glob\<close> gives the paths that match a pattern on the file system at hand, \<open>Rel\<close>
  makes a path relative to a base. A match that cannot be made relative is left out.
\<close>

definition ListFiles :: "(string \<Rightarrow> error + string list) \<Rightarrow> (string \<Rightarrow> string \<Rightarrow> error + string)
    \<Rightarrow> Context \<Rightarrow> string \<Rightarrow> error + string list" where
  "ListFiles Glob Rel ctx pattern =
     (case Glob (Join [Path ctx, pattern]) of
        Inl err \<Rightarrow> Inl err
      | Inr matches \<Rightarrow>
          Inr (concat (map (\<lambda>m. case Rel (Path ctx) m of Inl err \<Rightarrow> [] | Inr rel \<Rightarrow> [rel])
                         matches)))"

text \<open>
  A path lies within a root when it is the root or continues it after a separator. A root
  is taken to be an absolute path in clean form.
\<close>

definition within :: "string \<Rightarrow> string \<Rightarrow> bool" where
  "within root p = (p = root \<or> prefix (if root = ''/'' then root else root @ ''/'') p)"

definition cleanRoot :: "string \<Rightarrow> bool" where
  "cleanRoot root = (root \<noteq> [] \<and> hd root = CHR ''/'' \<and> Clean root = root)"

text \<open>
  \<open>filepath.Glob\<close> on a pattern with no metacharacter: the pattern itself when it exists.
\<close>

definition literalGlob :: "filesystem \<Rightarrow> string \<Rightarrow> error + string list" where
  "literalGlob fs pattern = (if fs pattern \<noteq> None then Inr [pattern] else Inr [])"

section \<open>The manifest\<close>

record Engines =
  Node :: string
  NPM :: string
  Yarn :: string
  PNPM :: string
  Bun :: string

record Workspaces =
  Packages :: "string list"

record PackageJSON =
  Name :: string
  Version :: string
  Main :: string
  Type :: string
  Scripts :: "string \<rightharpoonup> string"
  Dependencies :: "string \<rightharpoonup> string"
  DevDependencies :: "string \<rightharpoonup> string"
  Engines :: Engines
  PackageManager :: string
  Workspaces :: Workspaces
  CacheDirectories :: "string list"

text \<open>A nil Go map and an empty one answer every lookup alike; both are the empty map.\<close>

definition HasScript :: "PackageJSON \<Rightarrow> string \<Rightarrow> bool" where
  "HasScript p name = (Scripts p name \<noteq> None)"

definition GetScript :: "PackageJSON \<Rightarrow> string \<Rightarrow> string" where
  "GetScript p name = mapGet (Scripts p) name"

definition HasDependency :: "PackageJSON \<Rightarrow> string \<Rightarrow> bool" where
  "HasDependency p name = (Dependencies p name \<noteq> None \<or> DevDependencies p name \<noteq> None)"

definition GetDependencyVersion :: "PackageJSON \<Rightarrow> string \<Rightarrow> string" where
  "GetDependencyVersion p name =
     (case Dependencies p name of
        Some v \<Rightarrow> v
      | None \<Rightarrow> (case DevDependencies p name of Some v \<Rightarrow> v | None \<Rightarrow> []))"

definition GetPackageManagerInfo :: "PackageJSON \<Rightarrow> string \<times> string" where
  "GetPackageManagerInfo p =
     (if PackageManager p = [] then ([], [])
      else (case SplitN2 (PackageManager p) (CHR ''@'') of
              [name] \<Rightarrow> (name, [])
            | name # rest # _ \<Rightarrow> (name, hd (Split rest (CHR ''+'')))
            | [] \<Rightarrow> ([], [])))"

definition IsMonorepo :: "PackageJSON \<Rightarrow> bool" where
  "IsMonorepo p = (length (Packages (Workspaces p)) > 0)"

section \<open>Package manager resolution\<close>

datatype PackageManager =
  PackageManagerNPM | PackageManagerYarn1 | PackageManagerYarnBerry
  | PackageManagerPNPM | PackageManagerBun

fun pmString :: "PackageManager \<Rightarrow> string" where
  "pmString PackageManagerNPM = ''npm''"
| "pmString PackageManagerYarn1 = ''yarn''"
| "pmString PackageManagerYarnBerry = ''yarnberry''"
| "pmString PackageManagerPNPM = ''pnpm''"
| "pmString PackageManagerBun = ''bun''"

record PackageManagerInfo =
  pmName :: PackageManager
  pmVersion :: string

definition isYarnBerry :: "string \<Rightarrow> bool" where
  "isYarnBerry version =
     (case version of
        [] \<Rightarrow> False
      | c # _ \<Rightarrow> (of_char (CHR ''2'') :: nat) \<le> of_char c
                 \<and> (of_char c :: nat) \<le> of_char (CHR ''9''))"

definition DetectPackageManager :: "filesystem \<Rightarrow> Context \<Rightarrow> PackageJSON \<Rightarrow> PackageManagerInfo" where
  "DetectPackageManager fs ctx pkg =
     (let info = \<lparr>pmName = PackageManagerNPM, pmVersion = []\<rparr>;
          (pmn, pmv) = GetPackageManagerInfo pkg
      in if pmn \<noteq> [] \<and> pmn = ''pnpm'' then info\<lparr>pmName := PackageManagerPNPM, pmVersion := pmv\<rparr>
         else if pmn \<noteq> [] \<and> pmn = ''yarn'' then
           info\<lparr>pmName := (if isYarnBerry pmv then PackageManagerYarnBerry
                             else PackageManagerYarn1),
                 pmVersion := pmv\<rparr>
         else if pmn \<noteq> [] \<and> pmn = ''bun'' then info\<lparr>pmName := PackageManagerBun, pmVersion := pmv\<rparr>
         else if pmn \<noteq> [] \<and> pmn = ''npm'' then info\<lparr>pmName := PackageManagerNPM, pmVersion := pmv\<rparr>
         else if HasFile fs ctx ''pnpm-lock.yaml'' then info\<lparr>pmName := PackageManagerPNPM\<rparr>
         else if HasFile fs ctx ''bun.lockb'' \<or> HasFile fs ctx ''bun.lock''
           then info\<lparr>pmName := PackageManagerBun\<rparr>
         else if HasFile fs ctx ''.yarnrc.yml'' \<or> HasFile fs ctx ''.yarnrc.yaml''
           then info\<lparr>pmName := PackageManagerYarnBerry\<rparr>
         else if HasFile fs ctx ''yarn.lock'' then info\<lparr>pmName := PackageManagerYarn1\<rparr>
         else if HasFile fs ctx ''package-lock.json'' then info\<lparr>pmName := PackageManagerNPM\<rparr>
         else if PNPM (Engines pkg) \<noteq> [] then info\<lparr>pmName := PackageManagerPNPM\<rparr>
         else if Bun (Engines pkg) \<noteq> [] then info\<lparr>pmName := PackageManagerBun\<rparr>
         else if Yarn (Engines pkg) \<noteq> [] then info\<lparr>pmName := PackageManagerYarn1\<rparr>
         else info)"

fun GetInstallCommand :: "PackageManagerInfo \<Rightarrow> string" where
  "GetInstallCommand pm =
     (case pmName pm of
        PackageManagerPNPM \<Rightarrow> ''pnpm install --frozen-lockfile''
      | PackageManagerYarnBerry \<Rightarrow> ''yarn install --immutable''
      | PackageManagerYarn1 \<Rightarrow> ''yarn install --frozen-lockfile''
      | PackageManagerBun \<Rightarrow> ''bun install --frozen-lockfile''
      | PackageManagerNPM \<Rightarrow> ''npm ci'')"

fun GetRunCommand :: "PackageManagerInfo \<Rightarrow> string" where
  "GetRunCommand pm =
     (case pmName pm of
        PackageManagerPNPM \<Rightarrow> ''pnpm''
      | PackageManagerYarnBerry \<Rightarrow> ''yarn''
      | PackageManagerYarn1 \<Rightarrow> ''yarn''
      | PackageManagerBun \<Rightarrow> ''bun run''
      | PackageManagerNPM \<Rightarrow> ''npm run'')"

fun GetLockFile :: "PackageManagerInfo \<Rightarrow> string" where
  "GetLockFile pm =
     (case pmName pm of
        PackageManagerPNPM \<Rightarrow> ''pnpm-lock.yaml''
      | PackageManagerYarnBerry \<Rightarrow> ''yarn.lock''
      | PackageManagerYarn1 \<Rightarrow> ''yarn.lock''
      | PackageManagerBun \<Rightarrow> ''bun.lockb''
      | PackageManagerNPM \<Rightarrow> ''package-lock.json'')"

text \<open>
  The priority order of the resolver written as a table, after the specification: three rules,
  tried in order by a generic first-match interpreter, with npm as the default.
\<close>

definition lockFileTable :: "(string \<times> PackageManager) list" where
  "lockFileTable =
     [(''pnpm-lock.yaml'', PackageManagerPNPM),
      (''bun.lockb'', PackageManagerBun),
      (''bun.lock'', PackageManagerBun),
      (''.yarnrc.yml'', PackageManagerYarnBerry),
      (''.yarnrc.yaml'', PackageManagerYarnBerry),
      (''yarn.lock'', PackageManagerYarn1),
      (''package-lock.json'', PackageManagerNPM)]"

definition ruleFromField :: "PackageJSON \<Rightarrow> PackageManagerInfo option" where
  "ruleFromField pkg =
     (let (n, v) = GetPackageManagerInfo pkg
      in if n = ''pnpm'' then Some \<lparr>pmName = PackageManagerPNPM, pmVersion = v\<rparr>
         else if n = ''yarn'' then
           Some \<lparr>pmName = (if isYarnBerry v then PackageManagerYarnBerry else PackageManagerYarn1),
                 pmVersion = v\<rparr>
         else if n = ''bun'' then Some \<lparr>pmName = PackageManagerBun, pmVersion = v\<rparr>
         else if n = ''npm'' then Some \<lparr>pmName = PackageManagerNPM, pmVersion = v\<rparr>
         else None)"

definition ruleFromLockFiles :: "filesystem \<Rightarrow> Context \<Rightarrow> PackageManagerInfo option" where
  "ruleFromLockFiles fs ctx =
     map_option (\<lambda>(f, pm). \<lparr>pmName = pm, pmVersion = []\<rparr>)
       (find (\<lambda>(f, pm). HasFile fs ctx f) lockFileTable)"

definition ruleFromEngines :: "PackageJSON \<Rightarrow> PackageManagerInfo option" where
  "ruleFromEngines pkg =
     map_option (\<lambda>(v, pm). \<lparr>pmName = pm, pmVersion = []\<rparr>)
       (find (\<lambda>(v, pm). v \<noteq> [])
          [(PNPM (Engines pkg), PackageManagerPNPM),
           (Bun (Engines pkg), PackageManagerBun),
           (Yarn (Engines pkg), PackageManagerYarn1)])"

fun firstMatch :: "'a option list \<Rightarrow> 'a \<Rightarrow> 'a" where
  "firstMatch [] d = d"
| "firstMatch (None # rs) d = firstMatch rs d"
| "firstMatch (Some x # rs) d = x"

definition resolveByPriority :: "filesystem \<Rightarrow> Context \<Rightarrow> PackageJSON \<Rightarrow> PackageManagerInfo" where
  "resolveByPriority fs ctx pkg =
     firstMatch [ruleFromField pkg, ruleFromLockFiles fs ctx, ruleFromEngines pkg]
       \<lparr>pmName = PackageManagerNPM, pmVersion = []\<rparr>"

section \<open>Runtime version resolution\<close>

definition DefaultNodeVersion :: string where
  "DefaultNodeVersion = ''24''"

definition normalizeVersion :: "string \<Rightarrow> string" where
  "normalizeVersion v = TrimPrefix (TrimSpace v) ''v''"

definition parseVersionFile :: "string \<Rightarrow> string" where
  "parseVersionFile content =
     (let v = TrimPrefix (TrimSpace content) ''v''
      in if HasPrefix (ToLower v) ''lts'' then DefaultNodeVersion
         else if v \<noteq> [] then v
         else [])"

text \<open>
  \<open>parseEngineVersion\<close> takes the first match of \<open>(\d+)(?:\.(\d+))?(?:\.(\d+))?\<close> and returns
  its first group: the first maximal run of digits of the constraint, or nothing when the
  constraint has no digit.
\<close>

definition parseEngineVersion :: "string \<Rightarrow> string" where
  "parseEngineVersion constraint =
     (let c = TrimSpace constraint;
          fromDigit = dropWhile (\<lambda>x. \<not> isDigit x) c
      in if fromDigit = [] then [] else takeWhile isDigit fromDigit)"

fun firstToolLine :: "string list \<Rightarrow> string \<Rightarrow> string" where
  "firstToolLine [] tool = []"
| "firstToolLine (line # lines) tool =
     (case Fields (TrimSpace line) of
        p0 # p1 # _ \<Rightarrow> (if p0 = tool then normalizeVersion p1 else firstToolLine lines tool)
      | _ \<Rightarrow> firstToolLine lines tool)"

definition parseToolVersions :: "string \<Rightarrow> string \<Rightarrow> string" where
  "parseToolVersions content tool = firstToolLine (Split content (CHR 0x0A)) tool"

text \<open>
  \<open>parseMiseToml\<close> searches for \<open>(?:node|nodejs)\s*=\s*"([^"]+)"\<close>. \<open>miseAfterKey\<close> matches
  what follows the key at one position, \<open>miseMatchAt\<close> tries the two keys in the order of the
  alternation, and \<open>miseFind\<close> takes the leftmost position that matches. The class \<open>\s\<close> of Go
  regular expressions is tab, newline, form feed, carriage return and space.
\<close>

definition isReSpace :: "char \<Rightarrow> bool" where
  "isReSpace c = (c = CHR 0x09 \<or> c = CHR 0x0A \<or> c = CHR 0x0C \<or> c = CHR 0x0D \<or> c = CHR '' '')"

definition miseAfterKey :: "string \<Rightarrow> string option" where
  "miseAfterKey t =
     (case dropWhile isReSpace t of
        [] \<Rightarrow> None
      | c # t2 \<Rightarrow>
          if c \<noteq> CHR ''='' then None
          else (case dropWhile isReSpace t2 of
                  [] \<Rightarrow> None
                | q # t4 \<Rightarrow>
                    if q \<noteq> CHR 0x22 then None
                    else let v = takeWhile (\<lambda>x. x \<noteq> CHR 0x22) t4;
                             r = dropWhile (\<lambda>x. x \<noteq> CHR 0x22) t4
                         in if v \<noteq> [] \<and> r \<noteq> [] then Some v else None))"

definition miseMatchAt :: "string \<Rightarrow> string option" where
  "miseMatchAt s =
     (case (if HasPrefix s ''node'' then miseAfterKey (drop 4 s) else None) of
        Some v \<Rightarrow> Some v
      | None \<Rightarrow> (if HasPrefix s ''nodejs'' then miseAfterKey (drop 6 s) else None))"

fun miseFind :: "string \<Rightarrow> string option" where
  "miseFind [] = None"
| "miseFind (c # cs) =
     (case miseMatchAt (c # cs) of
        Some v \<Rightarrow> Some v
      | None \<Rightarrow> miseFind cs)"

definition parseMiseToml :: "string \<Rightarrow> string" where
  "parseMiseToml content =
     (case miseFind content of
        Some v \<Rightarrow> normalizeVersion v
      | None \<Rightarrow> [])"

text \<open>
  One file-based source of \<open>DetectNodeVersion\<close>: the file must exist, be readable, and parse
  to a non-empty version; otherwise the source gives nothing (the empty string).
\<close>

definition versionFromFile :: "filesystem \<Rightarrow> Context \<Rightarrow> string \<Rightarrow> (string \<Rightarrow> string) \<Rightarrow> string" where
  "versionFromFile fs ctx name parse =
     (if HasFile fs ctx name
      then (case ReadFile fs ctx name of
              Inr data \<Rightarrow> parse data
            | Inl _ \<Rightarrow> [])
      else [])"

text \<open>The manifest argument may be nil in the source; it is an option here.\<close>

definition DetectNodeVersion :: "filesystem \<Rightarrow> Context \<Rightarrow> PackageJSON option \<Rightarrow> string" where
  "DetectNodeVersion fs ctx pkg =
     (if mapGet (Env ctx) ''COOLPACK_NODE_VERSION'' \<noteq> []
        then normalizeVersion (mapGet (Env ctx) ''COOLPACK_NODE_VERSION'')
      else if mapGet (Env ctx) ''NODE_VERSION'' \<noteq> []
        then normalizeVersion (mapGet (Env ctx) ''NODE_VERSION'')
      else if (case pkg of None \<Rightarrow> False
               | Some p \<Rightarrow> Node (Engines p) \<noteq> [] \<and> parseEngineVersion (Node (Engines p)) \<noteq> [])
        then parseEngineVersion (Node (Engines (the pkg)))
      else if versionFromFile fs ctx ''.nvmrc'' parseVersionFile \<noteq> []
        then versionFromFile fs ctx ''.nvmrc'' parseVersionFile
      else if versionFromFile fs ctx ''.node-version'' parseVersionFile \<noteq> []
        then versionFromFile fs ctx ''.node-version'' parseVersionFile
      else if versionFromFile fs ctx ''.tool-versions'' (\<lambda>d. parseToolVersions d ''nodejs'') \<noteq> []
        then versionFromFile fs ctx ''.tool-versions'' (\<lambda>d. parseToolVersions d ''nodejs'')
      else if versionFromFile fs ctx ''mise.toml'' parseMiseToml \<noteq> []
        then versionFromFile fs ctx ''mise.toml'' parseMiseToml
      else DefaultNodeVersion)"

text \<open>
  The sources of the runtime version as a table, after the specification: the two override
  variables, the engines constraint and the four version files, tried in this order; a source
  gives a value or nothing.
\<close>

definition nonEmpty :: "string \<Rightarrow> string option" where
  "nonEmpty v = (if v \<noteq> [] then Some v else None)"

definition envSource :: "Context \<Rightarrow> string \<Rightarrow> string option" where
  "envSource ctx k =
     (if mapGet (Env ctx) k \<noteq> [] then Some (normalizeVersion (mapGet (Env ctx) k)) else None)"

definition enginesSource :: "PackageJSON option \<Rightarrow> string option" where
  "enginesSource pkg =
     (case pkg of None \<Rightarrow> None | Some p \<Rightarrow> nonEmpty (parseEngineVersion (Node (Engines p))))"

definition fileSource :: "filesystem \<Rightarrow> Context \<Rightarrow> string \<Rightarrow> (string \<Rightarrow> string) \<Rightarrow> string option" where
  "fileSource fs ctx name parse = nonEmpty (versionFromFile fs ctx name parse)"

definition versionSources :: "filesystem \<Rightarrow> Context \<Rightarrow> PackageJSON option \<Rightarrow> string option list" where
  "versionSources fs ctx pkg =
     [envSource ctx ''COOLPACK_NODE_VERSION'',
      envSource ctx ''NODE_VERSION'',
      enginesSource pkg,
      fileSource fs ctx ''.nvmrc'' parseVersionFile,
      fileSource fs ctx ''.node-version'' parseVersionFile,
      fileSource fs ctx ''.tool-versions'' (\<lambda>d. parseToolVersions d ''nodejs''),
      fileSource fs ctx ''mise.toml'' parseMiseToml]"

text \<open>Example inputs: a context rooted at \<open>/app\<close> with no override, and the zero manifest.\<close>

definition ctxApp :: Context where
  "ctxApp = \<lparr>Path = ''/app'', Env = Map.empty\<rparr>"

definition emptyEngines :: Engines where
  "emptyEngines = \<lparr>Node = [], NPM = [], Yarn = [], PNPM = [], Bun = []\<rparr>"

definition emptyPackageJSON :: PackageJSON where
  "emptyPackageJSON =
     \<lparr>Name = [], Version = [], Main = [], Type = [], Scripts = Map.empty,
      Dependencies = Map.empty, DevDependencies = Map.empty, Engines = emptyEngines,
      PackageManager = [], Workspaces = \<lparr>Packages = []\<rparr>, CacheDirectories = []\<rparr>"

section \<open>Native dependencies\<close>

record NativeDependency =
  Package :: string
  AptPackages :: "string list"
  Description :: string

definition NativeDependencies :: "NativeDependency list" where
  "NativeDependencies =
     [\<lparr>Package = ''sharp'', AptPackages = [''libvips-dev''],
       Description = ''Image processing library''\<rparr>,
      \<lparr>Package = ''@prisma/client'', AptPackages = [''openssl''],
       Description = ''Database ORM''\<rparr>,
      \<lparr>Package = ''prisma'', AptPackages = [''openssl''],
       Description = ''Database ORM CLI''\<rparr>,
      \<lparr>Package = ''puppeteer'',
       AptPackages = [''chromium'', ''libnss3'', ''libatk1.0-0'', ''libatk-bridge2.0-0'',
         ''libcups2'', ''libdrm2'', ''libxkbcommon0'', ''libxcomposite1'', ''libxdamage1'',
         ''libxfixes3'', ''libxrandr2'', ''libgbm1'', ''libasound2'', ''libpango-1.0-0'',
         ''libcairo2''],
       Description = ''Headless Chrome automation''\<rparr>,
      \<lparr>Package = ''playwright'',
       AptPackages = [''libnss3'', ''libatk1.0-0'', ''libatk-bridge2.0-0'',
         ''libcups2'', ''libdrm2'', ''libxkbcommon0'', ''libxcomposite1'', ''libxdamage1'',
         ''libxfixes3'', ''libxrandr2'', ''libgbm1'', ''libasound2'', ''libpango-1.0-0'',
         ''libcairo2''],
       Description = ''Browser automation''\<rparr>,
      \<lparr>Package = ''canvas'',
       AptPackages = [''libcairo2-dev'', ''libjpeg-dev'', ''libpango1.0-dev'', ''libgif-dev'',
         ''librsvg2-dev''],
       Description = ''Canvas rendering''\<rparr>,
      \<lparr>Package = ''bcrypt'', AptPackages = [''build-essential'', ''python3''],
       Description = ''Password hashing''\<rparr>,
      \<lparr>Package = ''argon2'', AptPackages = [''build-essential''],
       Description = ''Password hashing''\<rparr>,
      \<lparr>Package = ''sqlite3'', AptPackages = [''build-essential'', ''python3''],
       Description = ''SQLite database''\<rparr>,
      \<lparr>Package = ''better-sqlite3'', AptPackages = [''build-essential'', ''python3''],
       Description = ''SQLite database''\<rparr>,
      \<lparr>Package = ''node-gyp'', AptPackages = [''build-essential'', ''python3''],
       Description = ''Native addon build tool''\<rparr>,
      \<lparr>Package = ''cpu-features'', AptPackages = [''build-essential''],
       Description = ''CPU feature detection''\<rparr>,
      \<lparr>Package = ''ssh2'', AptPackages = [''build-essential''],
       Description = ''SSH client''\<rparr>,
      \<lparr>Package = ''libsql'', AptPackages = [''build-essential''],
       Description = ''LibSQL database''\<rparr>,
      \<lparr>Package = ''@libsql/client'', AptPackages = [''build-essential''],
       Description = ''LibSQL client''\<rparr>]"

definition DetectNativeDependencies :: "PackageJSON \<Rightarrow> NativeDependency list" where
  "DetectNativeDependencies pkg =
     filter (\<lambda>dep. HasDependency pkg (Package dep)) NativeDependencies"

text \<open>
  The two loops of \<open>GetRequiredAptPackages\<close>, with the \<open>seen\<close> map and the \<open>packages\<close> slice
  as the state: \<open>addAptPackages\<close> is the inner loop over one entry's packages,
  \<open>collectAptPackages\<close> the outer loop over the entries.
\<close>

fun addAptPackages :: "string list \<Rightarrow> (string \<Rightarrow> bool) \<times> string list
    \<Rightarrow> (string \<Rightarrow> bool) \<times> string list" where
  "addAptPackages [] st = st"
| "addAptPackages (p # ps) (seen, packages) =
     (if \<not> seen p then addAptPackages ps (seen(p := True), packages @ [p])
      else addAptPackages ps (seen, packages))"

fun collectAptPackages :: "NativeDependency list \<Rightarrow> (string \<Rightarrow> bool) \<times> string list
    \<Rightarrow> (string \<Rightarrow> bool) \<times> string list" where
  "collectAptPackages [] st = st"
| "collectAptPackages (dep # deps) st = collectAptPackages deps (addAptPackages (AptPackages dep) st)"

definition GetRequiredAptPackages :: "NativeDependency list \<Rightarrow> string list" where
  "GetRequiredAptPackages deps = snd (collectAptPackages deps (\<lambda>_. False, []))"

text \<open>
  First-seen de-duplication, after the specification: of the occurrences of an item, the
  first is kept, and the kept items stay in their order.
\<close>

definition firstSeen :: "'a list \<Rightarrow> 'a list" where
  "firstSeen xs = rev (remdups (rev xs))"

definition puppeteerAptPackages :: "string list" where
  "puppeteerAptPackages =
     [''chromium'', ''libnss3'', ''libatk1.0-0'', ''libatk-bridge2.0-0'',
      ''libcups2'', ''libdrm2'', ''libxkbcommon0'', ''libxcomposite1'', ''libxdamage1'',
      ''libxfixes3'', ''libxrandr2'', ''libgbm1'', ''libasound2'', ''libpango-1.0-0'',
      ''libcairo2'']"

text \<open>
  Example manifests: the zero manifest with the dependencies sharp and puppeteer, and the
  same two packages as development dependencies.
\<close>

definition pkgSharpPuppeteer :: PackageJSON where
  "pkgSharpPuppeteer =
     emptyPackageJSON\<lparr>Dependencies := [''sharp'' \<mapsto> ''^0.33.0'', ''puppeteer'' \<mapsto> ''^22.0.0'']\<rparr>"

definition pkgSharpPuppeteerDev :: PackageJSON where
  "pkgSharpPuppeteerDev =
     emptyPackageJSON\<lparr>DevDependencies := [''puppeteer'' \<mapsto> ''21.0.0'', ''sharp'' \<mapsto> ''0.32.0'']\<rparr>"

section \<open>The syntax-tree property resolver\<close>

text \<open>
  The tree-sitter parsers are an external library: a syntax tree is data here and the parsers
  are parameters. A node carries its type, the field name it has in its parent (empty when it
  has none), its byte range in the source, and its children. Slicing the source by a range
  that is out of order panics in Go; the panic is a value of the model.
\<close>

datatype node =
  SyntaxNode (nodeType: string) (fieldName: string) (StartByte: nat) (EndByte: nat)
    (children: "node list")

datatype panic = SliceBoundsOutOfRange

fun ChildByFieldName :: "node \<Rightarrow> string \<Rightarrow> node option" where
  "ChildByFieldName n name = find (\<lambda>c. fieldName c = name) (children n)"

definition getNodeText :: "node \<Rightarrow> string \<Rightarrow> panic + string" where
  "getNodeText n source =
     (let start = StartByte n;
          end = (if EndByte n > length source then length source else EndByte n)
      in if start \<le> end then Inr (take (end - start) (drop start source))
         else Inl SliceBoundsOutOfRange)"

definition trimQuotes :: "string \<Rightarrow> string" where
  "trimQuotes s =
     (if length s \<ge> 2
         \<and> ((hd s = CHR 0x22 \<and> last s = CHR 0x22) \<or> (hd s = CHR 0x27 \<and> last s = CHR 0x27))
      then take (length s - 2) (drop 1 s)
      else s)"

text \<open>
  \<open>findPropertyObjectNode\<close> on a node, and its loop over the children of a node
  (\<open>findPropertyObjectNodes\<close>). The result \<open>None\<close> is the nil node.
\<close>

fun findPropertyObjectNode :: "node \<Rightarrow> string \<Rightarrow> string \<Rightarrow> panic + node option"
  and findPropertyObjectNodes :: "node list \<Rightarrow> string \<Rightarrow> string \<Rightarrow> panic + node option" where
  "findPropertyObjectNode (SyntaxNode t f s e cs) source propertyName =
     (if t = ''pair'' \<or> t = ''property_assignment'' then
        (case (find (\<lambda>c. fieldName c = ''key'') cs, find (\<lambda>c. fieldName c = ''value'') cs) of
           (Some keyNode, Some valueNode) \<Rightarrow>
             (case getNodeText keyNode source of
                Inl p \<Rightarrow> Inl p
              | Inr key \<Rightarrow>
                  if trimQuotes key = propertyName then Inr (Some valueNode)
                  else findPropertyObjectNodes cs source propertyName)
         | _ \<Rightarrow> findPropertyObjectNodes cs source propertyName)
      else findPropertyObjectNodes cs source propertyName)"
| "findPropertyObjectNodes [] source propertyName = Inr None"
| "findPropertyObjectNodes (c # cs) source propertyName =
     (case findPropertyObjectNode c source propertyName of
        Inl p \<Rightarrow> Inl p
      | Inr (Some result) \<Rightarrow> Inr (Some result)
      | Inr None \<Rightarrow> findPropertyObjectNodes cs source propertyName)"

fun FindNestedPropertyValue :: "node option \<Rightarrow> string \<Rightarrow> string list \<Rightarrow> panic + string" where
  "FindNestedPropertyValue None source path = Inr []"
| "FindNestedPropertyValue (Some n) source [] = Inr []"
| "FindNestedPropertyValue (Some n) source (p # ps) =
     (case findPropertyObjectNode n source p of
        Inl e \<Rightarrow> Inl e
      | Inr None \<Rightarrow> Inr []
      | Inr (Some objectNode) \<Rightarrow>
          if ps = [] then
            (case getNodeText objectNode source of
               Inl e \<Rightarrow> Inl e
             | Inr text \<Rightarrow> Inr (trimQuotes text))
          else FindNestedPropertyValue (Some objectNode) source ps)"

text \<open>
  \<open>findPropertyInNode\<close> takes the node together with its next sibling, which the source reads
  with \<open>NextSibling\<close>; \<open>findPropertyInNodes\<close> is its loop over the children of a node, where the
  next sibling of a child is the child after it.
\<close>

fun findPropertyInNode :: "node \<Rightarrow> node option \<Rightarrow> string \<Rightarrow> string \<Rightarrow> panic + string"
  and findPropertyInNodes :: "node list \<Rightarrow> string \<Rightarrow> string \<Rightarrow> panic + string" where
  "findPropertyInNode (SyntaxNode t f s e cs) sibling source propertyName =
     (let shorthand =
            (if t = ''property_identifier'' \<or> t = ''identifier'' then
               (case getNodeText (SyntaxNode t f s e cs) source of
                  Inl p \<Rightarrow> Inl p
                | Inr text \<Rightarrow>
                    (case (text = propertyName, sibling) of
                       (True, Some sib) \<Rightarrow>
                         (case getNodeText sib source of
                            Inl p \<Rightarrow> Inl p
                          | Inr sibText \<Rightarrow> Inr (trimQuotes sibText))
                     | _ \<Rightarrow> findPropertyInNodes cs source propertyName))
             else findPropertyInNodes cs source propertyName)
      in if t = ''pair'' \<or> t = ''property_assignment'' then
           (case (find (\<lambda>c. fieldName c = ''key'') cs, find (\<lambda>c. fieldName c = ''value'') cs) of
              (Some keyNode, Some valueNode) \<Rightarrow>
                (case getNodeText keyNode source of
                   Inl p \<Rightarrow> Inl p
                 | Inr key \<Rightarrow>
                     if trimQuotes key = propertyName
                     then (case getNodeText valueNode source of
                             Inl p \<Rightarrow> Inl p
                           | Inr value \<Rightarrow> Inr (trimQuotes value))
                     else shorthand)
            | _ \<Rightarrow> shorthand)
         else shorthand)"
| "findPropertyInNodes [] source propertyName = Inr []"
| "findPropertyInNodes (c # cs) source propertyName =
     (case findPropertyInNode c (case cs of [] \<Rightarrow> None | d # _ \<Rightarrow> Some d) source propertyName of
        Inl p \<Rightarrow> Inl p
      | Inr result \<Rightarrow>
          if result \<noteq> [] then Inr result
          else findPropertyInNodes cs source propertyName)"

definition FindPropertyValue :: "node option \<Rightarrow> string \<Rightarrow> string \<Rightarrow> panic + string" where
  "FindPropertyValue node source propertyName =
     (case node of
        None \<Rightarrow> Inr []
      | Some n \<Rightarrow> findPropertyInNode n None source propertyName)"

text \<open>
  A tree is consistent with a source when every node starts inside the source and no later
  than it ends; the trees a parser returns for a source are.
\<close>

fun wfNode :: "string \<Rightarrow> node \<Rightarrow> bool" where
  "wfNode source (SyntaxNode t f s e cs) =
     (s \<le> e \<and> s \<le> length source \<and> (\<forall>c \<in> set cs. wfNode source c))"

text \<open>
  The path of value nodes that nested resolution follows, after the specification: each
  segment is resolved to its value node inside the node the segments before it led to.
\<close>

fun resolvePath :: "node \<Rightarrow> string \<Rightarrow> string list \<Rightarrow> panic + node option" where
  "resolvePath n source [] = Inr (Some n)"
| "resolvePath n source (p # ps) =
     (case findPropertyObjectNode n source p of
        Inl e \<Rightarrow> Inl e
      | Inr None \<Rightarrow> Inr None
      | Inr (Some v) \<Rightarrow> resolvePath v source ps)"

text \<open>
  The syntax tree of the JavaScript source \<open>export default { server: { preset: "static" } }\<close>,
  as the tree-sitter grammar for JavaScript lays it out.
\<close>

definition presetSource :: string where
  "presetSource = ''export default { server: { preset: \"static\" } }''"

definition presetServerObject :: node where
  "presetServerObject =
     SyntaxNode ''object'' ''value'' 25 45
      [SyntaxNode ''{'' [] 25 26 [],
       SyntaxNode ''pair'' [] 27 43
        [SyntaxNode ''property_identifier'' ''key'' 27 33 [],
         SyntaxNode '':'' [] 33 34 [],
         SyntaxNode ''string'' ''value'' 35 43
          [SyntaxNode [CHR 0x22] [] 35 36 [],
           SyntaxNode ''string_fragment'' [] 36 42 [],
           SyntaxNode [CHR 0x22] [] 42 43 []]],
       SyntaxNode ''}'' [] 44 45 []]"

definition presetTree :: node where
  "presetTree =
     SyntaxNode ''program'' [] 0 47
      [SyntaxNode ''export_statement'' [] 0 47
        [SyntaxNode ''export'' [] 0 6 [],
         SyntaxNode ''default'' [] 7 14 [],
         SyntaxNode ''object'' ''value'' 15 47
          [SyntaxNode ''{'' [] 15 16 [],
           SyntaxNode ''pair'' [] 17 45
            [SyntaxNode ''property_identifier'' ''key'' 17 23 [],
             SyntaxNode '':'' [] 23 24 [],
             presetServerObject],
           SyntaxNode ''}'' [] 46 47 []]]]"

section \<open>Framework classification\<close>

datatype Framework =
  FrameworkNone | FrameworkNextJS | FrameworkRemix | FrameworkNuxt | FrameworkAstro
  | FrameworkVite | FrameworkCRA | FrameworkAngular | FrameworkSvelteKit | FrameworkSolidStart
  | FrameworkExpress | FrameworkFastify | FrameworkNestJS | FrameworkAdonisJS
  | FrameworkReactRouter | FrameworkTanStack | FrameworkGatsby | FrameworkEleventy

fun frameworkString :: "Framework \<Rightarrow> string" where
  "frameworkString FrameworkNone = []"
| "frameworkString FrameworkNextJS = ''nextjs''"
| "frameworkString FrameworkRemix = ''remix''"
| "frameworkString FrameworkNuxt = ''nuxt''"
| "frameworkString FrameworkAstro = ''astro''"
| "frameworkString FrameworkVite = ''vite''"
| "frameworkString FrameworkCRA = ''create-react-app''"
| "frameworkString FrameworkAngular = ''angular''"
| "frameworkString FrameworkSvelteKit = ''sveltekit''"
| "frameworkString FrameworkSolidStart = ''solid-start''"
| "frameworkString FrameworkExpress = ''express''"
| "frameworkString FrameworkFastify = ''fastify''"
| "frameworkString FrameworkNestJS = ''nestjs''"
| "frameworkString FrameworkAdonisJS = ''adonisjs''"
| "frameworkString FrameworkReactRouter = ''react-router''"
| "frameworkString FrameworkTanStack = ''tanstack-start''"
| "frameworkString FrameworkGatsby = ''gatsby''"
| "frameworkString FrameworkEleventy = ''eleventy''"

datatype OutputType = OutputTypeNone | OutputTypeStatic | OutputTypeServer

fun outputTypeString :: "OutputType \<Rightarrow> string" where
  "outputTypeString OutputTypeNone = []"
| "outputTypeString OutputTypeStatic = ''static''"
| "outputTypeString OutputTypeServer = ''server''"

record FrameworkInfo =
  fwName :: Framework
  fwVersion :: string
  fwOutputType :: OutputType

text \<open>The two tree-sitter parsers of a \<open>ConfigParser\<close>, as functions from a source to its tree.\<close>

record ConfigParser =
  ParseTS :: "string \<Rightarrow> error + node"
  ParseJS :: "string \<Rightarrow> error + node"

text \<open>
  Every mode check reads its configuration files the same way: when the file exists, can be
  read and parses, the property is looked up in its tree; otherwise the file says nothing,
  which is the empty string here. \<open>anyConfigSays\<close> goes through the files of a check in
  order and stops at the first whose value passes the test.
\<close>

definition configValue :: "filesystem \<Rightarrow> Context \<Rightarrow> (string \<Rightarrow> error + node) \<Rightarrow> string
    \<Rightarrow> (node option \<Rightarrow> string \<Rightarrow> panic + string) \<Rightarrow> panic + string" where
  "configValue fs ctx parse configFile lookup =
     (if HasFile fs ctx configFile then
        (case ReadFile fs ctx configFile of
           Inl err \<Rightarrow> Inr []
         | Inr data \<Rightarrow>
             (case parse data of
                Inl err \<Rightarrow> Inr []
              | Inr root \<Rightarrow> lookup (Some root) data))
      else Inr [])"

fun anyConfigSays :: "filesystem \<Rightarrow> Context \<Rightarrow> (string \<times> (string \<Rightarrow> error + node)) list
    \<Rightarrow> (node option \<Rightarrow> string \<Rightarrow> panic + string) \<Rightarrow> (string \<Rightarrow> bool) \<Rightarrow> panic + bool" where
  "anyConfigSays fs ctx [] lookup accept = Inr False"
| "anyConfigSays fs ctx ((configFile, parse) # rest) lookup accept =
     (case configValue fs ctx parse configFile lookup of
        Inl p \<Rightarrow> Inl p
      | Inr v \<Rightarrow> if accept v then Inr True else anyConfigSays fs ctx rest lookup accept)"

definition isNextJSStaticExport :: "filesystem \<Rightarrow> ConfigParser \<Rightarrow> Context \<Rightarrow> panic + bool" where
  "isNextJSStaticExport fs parser ctx =
     anyConfigSays fs ctx
       [(''next.config.ts'', ParseTS parser),
        (''next.config.mjs'', ParseJS parser),
        (''next.config.js'', ParseJS parser)]
       (\<lambda>root data. FindPropertyValue root data ''output'')
       (\<lambda>v. v = ''export'')"

definition isAstroSSRMode :: "filesystem \<Rightarrow> ConfigParser \<Rightarrow> Context \<Rightarrow> panic + bool" where
  "isAstroSSRMode fs parser ctx =
     anyConfigSays fs ctx
       [(''astro.config.ts'', ParseTS parser),
        (''astro.config.mjs'', ParseJS parser),
        (''astro.config.js'', ParseJS parser)]
       (\<lambda>root data. FindPropertyValue root data ''output'')
       (\<lambda>v. v = ''server'' \<or> v = ''hybrid'')"

definition isNuxtSPAMode :: "filesystem \<Rightarrow> ConfigParser \<Rightarrow> Context \<Rightarrow> panic + bool" where
  "isNuxtSPAMode fs parser ctx =
     anyConfigSays fs ctx
       [(''nuxt.config.ts'', ParseTS parser),
        (''nuxt.config.js'', ParseJS parser),
        (''nuxt.config.mjs'', ParseJS parser)]
       (\<lambda>root data. FindPropertyValue root data ''ssr'')
       (\<lambda>v. v = ''false'')"

definition isReactRouterSPAMode :: "filesystem \<Rightarrow> ConfigParser \<Rightarrow> Context \<Rightarrow> panic + bool" where
  "isReactRouterSPAMode fs parser ctx =
     anyConfigSays fs ctx
       [(''react-router.config.ts'', ParseTS parser),
        (''react-router.config.js'', ParseJS parser)]
       (\<lambda>root data. FindPropertyValue root data ''ssr'')
       (\<lambda>v. v = ''false'')"

definition isSolidStartSPAMode :: "filesystem \<Rightarrow> ConfigParser \<Rightarrow> Context \<Rightarrow> panic + bool" where
  "isSolidStartSPAMode fs parser ctx =
     anyConfigSays fs ctx
       [(''app.config.ts'', ParseTS parser),
        (''app.config.js'', ParseJS parser)]
       (\<lambda>root data. FindPropertyValue root data ''ssr'')
       (\<lambda>v. v = ''false'')"

definition isTanStackStartStaticMode :: "filesystem \<Rightarrow> ConfigParser \<Rightarrow> Context \<Rightarrow> panic + bool" where
  "isTanStackStartStaticMode fs parser ctx =
     anyConfigSays fs ctx
       [(''app.config.ts'', ParseTS parser),
        (''app.config.js'', ParseJS parser)]
       (\<lambda>root data. FindNestedPropertyValue root data [''server'', ''preset''])
       (\<lambda>v. v = ''static'')"

definition isConstraintChar :: "char \<Rightarrow> bool" where
  "isConstraintChar c =
     (c = CHR ''^'' \<or> c = CHR ''~'' \<or> c = CHR ''>'' \<or> c = CHR ''<'' \<or> c = CHR ''='')"

definition cleanVersion :: "string \<Rightarrow> string" where
  "cleanVersion v =
     (if v \<noteq> [] \<and> isConstraintChar (hd v)
      then dropWhile (\<lambda>c. isConstraintChar c \<or> c = CHR '' '') v
      else v)"

text \<open>
  A rule of \<open>DetectFramework\<close> whose output type hangs on a mode check: the check may panic,
  otherwise it picks one of two output types.
\<close>

definition byMode :: "Framework \<Rightarrow> string \<Rightarrow> panic + bool \<Rightarrow> OutputType \<Rightarrow> OutputType
    \<Rightarrow> panic + FrameworkInfo" where
  "byMode name version check whenTrue whenFalse =
     (case check of
        Inl p \<Rightarrow> Inl p
      | Inr b \<Rightarrow>
          Inr \<lparr>fwName = name, fwVersion = version,
               fwOutputType = (if b then whenTrue else whenFalse)\<rparr>)"

definition DetectFramework :: "filesystem \<Rightarrow> ConfigParser \<Rightarrow> Context \<Rightarrow> PackageJSON option
    \<Rightarrow> panic + FrameworkInfo" where
  "DetectFramework fs parser ctx pkgOpt =
     (case pkgOpt of
        None \<Rightarrow> Inr \<lparr>fwName = FrameworkNone, fwVersion = [], fwOutputType = OutputTypeNone\<rparr>
      | Some pkg \<Rightarrow>
        if HasDependency pkg ''next'' then
          byMode FrameworkNextJS (cleanVersion (GetDependencyVersion pkg ''next''))
            (isNextJSStaticExport fs parser ctx) OutputTypeStatic OutputTypeServer
        else if HasDependency pkg ''@remix-run/react'' \<or> HasDependency pkg ''@remix-run/node'' then
          Inr \<lparr>fwName = FrameworkRemix,
               fwVersion = cleanVersion (GetDependencyVersion pkg ''@remix-run/react''),
               fwOutputType = OutputTypeServer\<rparr>
        else if HasDependency pkg ''nuxt'' \<or> HasDependency pkg ''nuxt3'' then
          byMode FrameworkNuxt (cleanVersion (GetDependencyVersion pkg ''nuxt''))
            (isNuxtSPAMode fs parser ctx) OutputTypeStatic OutputTypeServer
        else if HasDependency pkg ''astro'' \<or> HasFile fs ctx ''astro.config.mjs''
                \<or> HasFile fs ctx ''astro.config.js'' \<or> HasFile fs ctx ''astro.config.ts'' then
          byMode FrameworkAstro (cleanVersion (GetDependencyVersion pkg ''astro''))
            (isAstroSSRMode fs parser ctx) OutputTypeServer OutputTypeStatic
        else if HasDependency pkg ''@sveltejs/kit'' then
          Inr \<lparr>fwName = FrameworkSvelteKit,
               fwVersion = cleanVersion (GetDependencyVersion pkg ''@sveltejs/kit''),
               fwOutputType = (if HasDependency pkg ''@sveltejs/adapter-static''
                               then OutputTypeStatic else OutputTypeServer)\<rparr>
        else if HasDependency pkg ''solid-start'' \<or> HasDependency pkg ''@solidjs/start'' then
          byMode FrameworkSolidStart
            (cleanVersion (if GetDependencyVersion pkg ''@solidjs/start'' = []
                           then GetDependencyVersion pkg ''solid-start''
                           else GetDependencyVersion pkg ''@solidjs/start''))
            (isSolidStartSPAMode fs parser ctx) OutputTypeStatic OutputTypeServer
        else if HasDependency pkg ''@tanstack/start'' \<or> HasDependency pkg ''@tanstack/react-start'' then
          byMode FrameworkTanStack (cleanVersion (GetDependencyVersion pkg ''@tanstack/start''))
            (isTanStackStartStaticMode fs parser ctx) OutputTypeStatic OutputTypeServer
        else if HasDependency pkg ''react-router''
                \<and> (HasFile fs ctx ''react-router.config.ts'' \<or> HasFile fs ctx ''react-router.config.js'') then
          byMode FrameworkRemix (cleanVersion (GetDependencyVersion pkg ''react-router''))
            (isReactRouterSPAMode fs parser ctx) OutputTypeStatic OutputTypeServer
        else if HasDependency pkg ''gatsby'' then
          Inr \<lparr>fwName = FrameworkGatsby,
               fwVersion = cleanVersion (GetDependencyVersion pkg ''gatsby''),
               fwOutputType = OutputTypeStatic\<rparr>
        else if HasDependency pkg ''@11ty/eleventy'' then
          Inr \<lparr>fwName = FrameworkEleventy,
               fwVersion = cleanVersion (GetDependencyVersion pkg ''@11ty/eleventy''),
               fwOutputType = OutputTypeStatic\<rparr>
        else if HasDependency pkg ''@angular/core'' \<or> HasFile fs ctx ''angular.json'' then
          Inr \<lparr>fwName = FrameworkAngular,
               fwVersion = cleanVersion (GetDependencyVersion pkg ''@angular/core''),
               fwOutputType = (if HasDependency pkg ''@angular/ssr''
                               then OutputTypeServer else OutputTypeStatic)\<rparr>
        else if HasDependency pkg ''@adonisjs/core'' then
          Inr \<lparr>fwName = FrameworkAdonisJS,
               fwVersion = cleanVersion (GetDependencyVersion pkg ''@adonisjs/core''),
               fwOutputType = OutputTypeServer\<rparr>
        else if HasDependency pkg ''@nestjs/core'' then
          Inr \<lparr>fwName = FrameworkNestJS,
               fwVersion = cleanVersion (GetDependencyVersion pkg ''@nestjs/core''),
               fwOutputType = OutputTypeServer\<rparr>
        else if HasDependency pkg ''fastify'' then
          Inr \<lparr>fwName = FrameworkFastify,
               fwVersion = cleanVersion (GetDependencyVersion pkg ''fastify''),
               fwOutputType = OutputTypeServer\<rparr>
        else if HasDependency pkg ''express'' then
          Inr \<lparr>fwName = FrameworkExpress,
               fwVersion = cleanVersion (GetDependencyVersion pkg ''express''),
               fwOutputType = OutputTypeServer\<rparr>
        else if HasDependency pkg ''react-scripts'' then
          Inr \<lparr>fwName = FrameworkCRA,
               fwVersion = cleanVersion (GetDependencyVersion pkg ''react-scripts''),
               fwOutputType = OutputTypeStatic\<rparr>
        else if HasDependency pkg ''vite'' \<or> HasFile fs ctx ''vite.config.js''
                \<or> HasFile fs ctx ''vite.config.ts'' \<or> HasFile fs ctx ''vite.config.mjs'' then
          Inr \<lparr>fwName = FrameworkVite,
               fwVersion = cleanVersion (GetDependencyVersion pkg ''vite''),
               fwOutputType = OutputTypeStatic\<rparr>
        else Inr \<lparr>fwName = FrameworkNone, fwVersion = [], fwOutputType = OutputTypeNone\<rparr>)"

definition GetDefaultBuildCommand :: "FrameworkInfo \<Rightarrow> PackageManagerInfo \<Rightarrow> string" where
  "GetDefaultBuildCommand f pm =
     (let run = GetRunCommand pm
      in if fwName f \<in> {FrameworkNextJS, FrameworkRemix, FrameworkNuxt, FrameworkAstro,
                         FrameworkVite, FrameworkCRA, FrameworkAngular, FrameworkSvelteKit,
                         FrameworkGatsby}
         then run @ '' build''
         else [])"

definition GetDefaultStartCommand :: "FrameworkInfo \<Rightarrow> PackageManagerInfo \<Rightarrow> string" where
  "GetDefaultStartCommand f pm =
     (let run = GetRunCommand pm
      in case fwName f of
           FrameworkNextJS \<Rightarrow> run @ '' start''
         | FrameworkRemix \<Rightarrow> run @ '' start''
         | FrameworkNuxt \<Rightarrow> ''node .output/server/index.mjs''
         | FrameworkAstro \<Rightarrow> ''node ./dist/server/entry.mjs''
         | FrameworkNestJS \<Rightarrow> run @ '' start''
         | FrameworkExpress \<Rightarrow> run @ '' start''
         | FrameworkFastify \<Rightarrow> run @ '' start''
         | _ \<Rightarrow> [])"


text \<open>
  The syntax tree of the source \<open>export default { output: "export" }\<close>, a parser that knows
  this source and the one of \<open>presetSource\<close>, and a manifest that depends on next.
\<close>

definition exportSource :: string where
  "exportSource = ''export default { output: \"export\" }''"

definition exportTree :: node where
  "exportTree =
     SyntaxNode ''program'' [] 0 35
      [SyntaxNode ''export_statement'' [] 0 35
        [SyntaxNode ''export'' [] 0 6 [],
         SyntaxNode ''default'' [] 7 14 [],
         SyntaxNode ''object'' ''value'' 15 35
          [SyntaxNode ''{'' [] 15 16 [],
           SyntaxNode ''pair'' [] 17 33
            [SyntaxNode ''property_identifier'' ''key'' 17 23 [],
             SyntaxNode '':'' [] 23 24 [],
             SyntaxNode ''string'' ''value'' 25 33
              [SyntaxNode [CHR 0x22] [] 25 26 [],
               SyntaxNode ''string_fragment'' [] 26 32 [],
               SyntaxNode [CHR 0x22] [] 32 33 []]],
           SyntaxNode ''}'' [] 34 35 []]]]"

definition exampleParse :: "string \<Rightarrow> error + node" where
  "exampleParse data =
     (if data = exportSource then Inr exportTree
      else if data = presetSource then Inr presetTree
      else Inl ParseError)"

definition exampleParser :: ConfigParser where
  "exampleParser = \<lparr>ParseTS = exampleParse, ParseJS = exampleParse\<rparr>"


text \<open>
  The condition of the specification on a configuration file, in its own words: the file
  contains the property, that is, somewhere in its tree there is a key/value pair whose key,
  after stripping quotes, is the property's name and whose value, after stripping quotes, is
  the given one.
\<close>

fun containsProperty :: "node \<Rightarrow> string \<Rightarrow> string \<Rightarrow> string \<Rightarrow> bool"
  and containsPropertyIn :: "node list \<Rightarrow> string \<Rightarrow> string \<Rightarrow> string \<Rightarrow> bool" where
  "containsProperty (SyntaxNode t f s e cs) source propertyName v =
     (((t = ''pair'' \<or> t = ''property_assignment'')
       \<and> (case (find (\<lambda>c. fieldName c = ''key'') cs, find (\<lambda>c. fieldName c = ''value'') cs) of
            (Some keyNode, Some valueNode) \<Rightarrow>
              (case (getNodeText keyNode source, getNodeText valueNode source) of
                 (Inr key, Inr value) \<Rightarrow> trimQuotes key = propertyName \<and> trimQuotes value = v
               | _ \<Rightarrow> False)
          | _ \<Rightarrow> False))
      \<or> containsPropertyIn cs source propertyName v)"
| "containsPropertyIn [] source propertyName v = False"
| "containsPropertyIn (c # cs) source propertyName v =
     (containsProperty c source propertyName v \<or> containsPropertyIn cs source propertyName v)"




section \<open>The Node provider\<close>

definition ProviderName :: string where
  "ProviderName = ''node''"

text \<open>The results of the provider methods have the shape of Go's paired returns.\<close>

definition ProviderDetect :: "filesystem \<Rightarrow> Context \<Rightarrow> panic + (bool \<times> error option)" where
  "ProviderDetect fs ctx = Inr (HasFile fs ctx ''package.json'', None)"

definition spaRouters :: "string list" where
  "spaRouters =
     [''vue-router'', ''react-router-dom'', ''react-router'', ''@reach/router'', ''wouter'',
      ''@tanstack/react-router'', ''svelte-navigator'', ''svelte-routing'', ''@roxi/routify'',
      ''@solidjs/router'', ''solid-app-router'', ''preact-router'', ''navigo'', ''page'']"

definition detectSPA :: "PackageJSON \<Rightarrow> FrameworkInfo \<Rightarrow> bool" where
  "detectSPA pkg fw =
     (if fwName fw \<in> {FrameworkGatsby, FrameworkEleventy} then False
      else if fwName fw \<in> {FrameworkNextJS, FrameworkNuxt, FrameworkAstro} then False
      else list_ex (HasDependency pkg) spaRouters)"

definition determineBuildCommand :: "PackageJSON \<Rightarrow> PackageManagerInfo \<Rightarrow> FrameworkInfo \<Rightarrow> string" where
  "determineBuildCommand pkg pm fw =
     (let run = GetRunCommand pm
      in if HasScript pkg ''build'' then run @ '' build''
         else if GetDefaultBuildCommand fw pm \<noteq> [] then GetDefaultBuildCommand fw pm
         else [])"

definition hasEntryPoint :: "PackageJSON \<Rightarrow> string \<Rightarrow> bool" where
  "hasEntryPoint pkg path = (if Main pkg = path then True else False)"

text \<open>The loop of \<open>determineStartCommand\<close> over the common entry points.\<close>

fun probeEntryPoints :: "PackageJSON \<Rightarrow> string list \<Rightarrow> string" where
  "probeEntryPoints pkg [] = []"
| "probeEntryPoints pkg (ep # eps) =
     (if hasEntryPoint pkg ep then ''node '' @ ep else probeEntryPoints pkg eps)"

definition entryPoints :: "string list" where
  "entryPoints = [''dist/index.js'', ''build/index.js'', ''index.js'', ''server.js'', ''app.js'']"

definition determineStartCommand :: "PackageJSON \<Rightarrow> PackageManagerInfo \<Rightarrow> FrameworkInfo \<Rightarrow> string" where
  "determineStartCommand pkg pm fw =
     (let run = GetRunCommand pm
      in if HasScript pkg ''start'' then run @ '' start''
         else if HasScript pkg ''serve'' then run @ '' serve''
         else if GetDefaultStartCommand fw pm \<noteq> [] then GetDefaultStartCommand fw pm
         else if Main pkg \<noteq> [] then ''node '' @ Main pkg
         else probeEntryPoints pkg entryPoints)"

definition versionFiles :: "string list" where
  "versionFiles = [''.nvmrc'', ''.node-version'', ''.tool-versions'', ''mise.toml'']"

definition configFiles :: "string list" where
  "configFiles =
     [''.yarnrc.yml'', ''.yarnrc.yaml'', ''.npmrc'', ''.pnpmrc'',
      ''tsconfig.json'', ''jsconfig.json'',
      ''vite.config.js'', ''vite.config.ts'', ''vite.config.mjs'',
      ''next.config.js'', ''next.config.mjs'', ''next.config.ts'',
      ''astro.config.mjs'', ''astro.config.js'', ''astro.config.ts'',
      ''angular.json'',
      ''remix.config.js'',
      ''nuxt.config.ts'', ''nuxt.config.js'']"

definition detectRelevantFiles :: "filesystem \<Rightarrow> Context \<Rightarrow> PackageManagerInfo \<Rightarrow> string list" where
  "detectRelevantFiles fs ctx pm =
     (if HasFile fs ctx (GetLockFile pm) then [GetLockFile pm] else [])
     @ filter (HasFile fs ctx) versionFiles
     @ filter (HasFile fs ctx) configFiles"

text \<open>\<open>setMeta c k v\<close> is the guarded assignment \<open>if c { plan.Metadata[k] = v }\<close>.\<close>

definition setMeta :: "bool \<Rightarrow> string \<Rightarrow> gvalue \<Rightarrow> Plan \<Rightarrow> Plan" where
  "setMeta c k v plan = (if c then plan\<lparr>Metadata := AList.update k v (Metadata plan)\<rparr> else plan)"

text \<open>
  The body of \<open>Plan\<close> after the three detections: the plan is built from the manifest, the
  package manager, the Node version and the framework, statement by statement.
\<close>

definition assemblePlan :: "filesystem \<Rightarrow> Context \<Rightarrow> PackageJSON \<Rightarrow> PackageManagerInfo \<Rightarrow> string
    \<Rightarrow> FrameworkInfo \<Rightarrow> Plan" where
  "assemblePlan fs ctx pkg pmInfo nodeVersion fwInfo =
     (let isBun = (pmName pmInfo = PackageManagerBun);
          language = (if isBun then ''bun'' else ''nodejs'');
          languageVersion =
            (if isBun then (if pmVersion pmInfo \<noteq> [] then pmVersion pmInfo else ''latest'')
             else nodeVersion);
          plan = \<lparr>Provider = ''node'', Language = language, LanguageVersion = languageVersion,
                  Framework = [], FrameworkVersion = [],
                  Plan.PackageManager = pmString (pmName pmInfo),
                  PackageManagerVersion = pmVersion pmInfo,
                  InstallCommand = [], BuildCommand = [], StartCommand = [],
                  DetectedFiles = [''package.json''], Metadata = [], BuildEnv = [],
                  Plan.Env = []\<rparr>;
          plan = setMeta isBun ''runtime'' (GString ''bun'') plan;
          plan = setMeta isBun ''runtime_note'' (GString ''Using Bun runtime (oven/bun image)'') plan;
          plan = (if fwName fwInfo \<noteq> FrameworkNone
                  then setMeta (fwOutputType fwInfo \<noteq> OutputTypeNone) ''output_type''
                         (GString (outputTypeString (fwOutputType fwInfo)))
                         (plan\<lparr>Framework := frameworkString (fwName fwInfo),
                               FrameworkVersion := fwVersion fwInfo\<rparr>)
                  else plan);
          plan = plan\<lparr>InstallCommand := GetInstallCommand pmInfo\<rparr>;
          plan = plan\<lparr>BuildCommand := determineBuildCommand pkg pmInfo fwInfo\<rparr>;
          plan = plan\<lparr>StartCommand := determineStartCommand pkg pmInfo fwInfo\<rparr>;
          plan = plan\<lparr>DetectedFiles := DetectedFiles plan @ detectRelevantFiles fs ctx pmInfo\<rparr>;
          plan = setMeta (Name pkg \<noteq> []) ''name'' (GString (Name pkg)) plan;
          plan = setMeta (Version pkg \<noteq> []) ''version'' (GString (Version pkg)) plan;
          plan = setMeta (IsMonorepo pkg) ''is_monorepo'' (GBool True) plan;
          plan = setMeta (IsMonorepo pkg) ''workspaces'' (GStrings (Packages (Workspaces pkg))) plan;
          plan = setMeta (Type pkg \<noteq> []) ''module_type'' (GString (Type pkg)) plan;
          nativeDeps = DetectNativeDependencies pkg;
          plan = setMeta (length nativeDeps > 0) ''apt_packages''
                   (GStrings (GetRequiredAptPackages nativeDeps)) plan;
          plan = setMeta (length nativeDeps > 0) ''native_packages''
                   (GStrings (map Package nativeDeps)) plan;
          plan = setMeta (mapGet (Env ctx) ''COOLPACK_BASE_IMAGE'' \<noteq> []) ''base_image''
                   (GString (mapGet (Env ctx) ''COOLPACK_BASE_IMAGE'')) plan;
          plan = setMeta (HasDependency pkg ''cypress'') ''has_cypress'' (GBool True) plan;
          plan = setMeta (HasFile fs ctx ''.moon/workspace.yml'') ''has_moon'' (GBool True) plan;
          plan = setMeta (length (CacheDirectories pkg) > 0) ''cache_directories''
                   (GStrings (CacheDirectories pkg)) plan;
          plan = setMeta (map_of (Metadata plan) ''output_type'' = Some (GString ''static'')
                          \<and> detectSPA pkg fwInfo) ''is_spa'' (GBool True) plan
      in plan)"

text \<open>
  \<open>Plan\<close> of the provider. The JSON decoder behind \<open>ParsePackageJSON\<close> is a parameter. The
  result has the shape of the paired return: a plan and no error, or no plan and an error.
\<close>

definition ProviderPlan :: "filesystem \<Rightarrow> ConfigParser \<Rightarrow> (string \<Rightarrow> error + PackageJSON) \<Rightarrow> Context
    \<Rightarrow> panic + (Plan option \<times> error option)" where
  "ProviderPlan fs parser ParsePackageJSON ctx =
     (case ReadFile fs ctx ''package.json'' of
        Inl err \<Rightarrow> Inr (None, Some (Errorf ''failed to read package.json: '' err))
      | Inr pkgData \<Rightarrow>
          (case ParsePackageJSON pkgData of
             Inl err \<Rightarrow> Inr (None, Some (Errorf ''failed to parse package.json: '' err))
           | Inr pkg \<Rightarrow>
               (case DetectFramework fs parser ctx (Some pkg) of
                  Inl p \<Rightarrow> Inl p
                | Inr fwInfo \<Rightarrow>
                    Inr (Some (assemblePlan fs ctx pkg (DetectPackageManager fs ctx pkg)
                                 (DetectNodeVersion fs ctx (Some pkg)) fwInfo),
                         None))))"

section \<open>The orchestrator\<close>

text \<open>
  A provider is its three methods. \<open>Detect\<close> and \<open>Plan\<close> read the file system and may panic;
  their results are Go's paired returns.
\<close>

record Provider =
  provName :: string
  provDetect :: "filesystem \<Rightarrow> Context \<Rightarrow> panic + (bool \<times> error option)"
  provPlan :: "filesystem \<Rightarrow> Context \<Rightarrow> panic + (Plan option \<times> error option)"

record Detector =
  path :: string
  providers :: "Provider list"

definition nodeProvider :: "ConfigParser \<Rightarrow> (string \<Rightarrow> error + PackageJSON) \<Rightarrow> Provider" where
  "nodeProvider parser ParsePackageJSON =
     \<lparr>provName = ProviderName, provDetect = ProviderDetect,
      provPlan = (\<lambda>fs ctx. ProviderPlan fs parser ParsePackageJSON ctx)\<rparr>"

definition registerProviders :: "ConfigParser \<Rightarrow> (string \<Rightarrow> error + PackageJSON) \<Rightarrow> Detector \<Rightarrow> Detector" where
  "registerProviders parser ParsePackageJSON d =
     d\<lparr>providers := providers d @ [nodeProvider parser ParsePackageJSON]\<rparr>"

definition New :: "ConfigParser \<Rightarrow> (string \<Rightarrow> error + PackageJSON) \<Rightarrow> string \<Rightarrow> Detector" where
  "New parser ParsePackageJSON p =
     registerProviders parser ParsePackageJSON \<lparr>path = p, providers = []\<rparr>"

definition envVars :: "string list" where
  "envVars =
     [''COOLPACK_INSTALL_CMD'', ''COOLPACK_BUILD_CMD'', ''COOLPACK_START_CMD'',
      ''COOLPACK_BASE_IMAGE'', ''COOLPACK_NODE_VERSION'', ''COOLPACK_SPA_OUTPUT_DIR'',
      ''COOLPACK_STATIC_SERVER'', ''NODE_VERSION'']"

text \<open>The process environment is a function from a name to its value, empty when unset.\<close>

fun loadVars :: "(string \<Rightarrow> string) \<Rightarrow> string list \<Rightarrow> (string \<rightharpoonup> string) \<Rightarrow> (string \<rightharpoonup> string)" where
  "loadVars getenv [] env = env"
| "loadVars getenv (v # vs) env =
     loadVars getenv vs (if getenv v \<noteq> [] then env(v \<mapsto> getenv v) else env)"

definition loadRelevantEnvVars :: "(string \<Rightarrow> string) \<Rightarrow> (string \<rightharpoonup> string)" where
  "loadRelevantEnvVars getenv = loadVars getenv envVars Map.empty"

text \<open>The loop of \<open>Detect\<close> over the providers, in registration order.\<close>

fun tryProviders :: "filesystem \<Rightarrow> Context \<Rightarrow> Provider list \<Rightarrow> panic + (Plan option \<times> error option)" where
  "tryProviders fs ctx [] = Inr (None, None)"
| "tryProviders fs ctx (provider # rest) =
     (case provDetect provider fs ctx of
        Inl p \<Rightarrow> Inl p
      | Inr (detected, err) \<Rightarrow>
          if err \<noteq> None then tryProviders fs ctx rest
          else if detected then provPlan provider fs ctx
          else tryProviders fs ctx rest)"

definition Detect :: "filesystem \<Rightarrow> (string \<Rightarrow> string) \<Rightarrow> Detector \<Rightarrow> panic + (Plan option \<times> error option)" where
  "Detect fs getenv d =
     (let ctx = (NewContext (path d))\<lparr>Env := loadRelevantEnvVars getenv\<rparr>
      in tryProviders fs ctx (providers d))"

text \<open>
  Start-command synthesis as the specification words it: after the start script, the serve
  script and the framework default, the candidate entry points are probed in order, and the
  first that is the manifest's main field or is present as a file wins. \<open>present\<close> says
  which files are there.
\<close>

definition specStartCommand :: "(string \<Rightarrow> bool) \<Rightarrow> PackageJSON \<Rightarrow> PackageManagerInfo \<Rightarrow> FrameworkInfo
    \<Rightarrow> string" where
  "specStartCommand present pkg pm fw =
     (if HasScript pkg ''start'' then GetRunCommand pm @ '' start''
      else if HasScript pkg ''serve'' then GetRunCommand pm @ '' serve''
      else if GetDefaultStartCommand fw pm \<noteq> [] then GetDefaultStartCommand fw pm
      else (case find (\<lambda>ep. Main pkg = ep \<or> present ep) entryPoints of
              Some ep \<Rightarrow> ''node '' @ ep
            | None \<Rightarrow> []))"

text \<open>
  Example inputs: npm with no version, no framework, a manifest whose main field is not one
  of the candidates, and the manifests behind two \<open>package.json\<close> documents.
\<close>

definition npmInfo :: PackageManagerInfo where
  "npmInfo = \<lparr>pmName = PackageManagerNPM, pmVersion = []\<rparr>"

definition noFramework :: FrameworkInfo where
  "noFramework = \<lparr>fwName = FrameworkNone, fwVersion = [], fwOutputType = OutputTypeNone\<rparr>"

definition pkgMainLib :: PackageJSON where
  "pkgMainLib = emptyPackageJSON\<lparr>Main := ''lib/server.js''\<rparr>"

definition bunManifest :: string where
  "bunManifest = ''{\"packageManager\": \"bun@1.1.0\"}''"

definition emptyManifest :: string where
  "emptyManifest = ''{}''"

definition exampleParsePackageJSON :: "string \<Rightarrow> error + PackageJSON" where
  "exampleParsePackageJSON data =
     (if data = bunManifest then Inr (emptyPackageJSON\<lparr>PackageManager := ''bun@1.1.0''\<rparr>)
      else if data = emptyManifest then Inr emptyPackageJSON
      else Inl ParseError)"

text \<open>Example providers: one whose detection fails, and one that never detects.\<close>

definition failingProvider :: Provider where
  "failingProvider =
     \<lparr>provName = ''failing'',
      provDetect = (\<lambda>fs ctx. Inr (True, Some ReadError)),
      provPlan = (\<lambda>fs ctx. Inr (None, Some ReadError))\<rparr>"

definition silentProvider :: Provider where
  "silentProvider =
     \<lparr>provName = ''silent'',
      provDetect = (\<lambda>fs ctx. Inr (False, None)),
      provPlan = (\<lambda>fs ctx. Inr (None, Some ReadError))\<rparr>"

text \<open>
  Example file systems: a project file and a file outside the project root, and the same
  without the outside file. \<open>exampleRel\<close> is \<open>filepath.Rel\<close> on the one pair of paths used.
\<close>

definition fsWithOutside :: filesystem where
  "fsWithOutside = [''/app/src/index.js'' \<mapsto> File ''main()'', ''/etc/passwd'' \<mapsto> File ''root:x:0:0'']"

definition fsProjectOnly :: filesystem where
  "fsProjectOnly = [''/app/src/index.js'' \<mapsto> File ''main()'']"

definition exampleRel :: "string \<Rightarrow> string \<Rightarrow> error + string" where
  "exampleRel base target =
     (if base = ''/app'' \<and> target = ''/etc/passwd'' then Inr ''../etc/passwd''
      else Inl ReadError)"

section \<open>The wire format of a plan\<close>

text \<open>
  A plan is written and read with \<open>encoding/json\<close>, driven by the field tags of the \<open>Plan\<close>
  struct. The model works on JSON documents as trees, not on their text: strings, booleans,
  arrays and objects, an object being the list of its members in document order and a string
  being the bytes that the decoder hands over for it. JSON numbers and \<open>null\<close> are left out
  (the provider writes neither), and member names are matched exactly.
\<close>

datatype json =
  JString string
  | JBool bool
  | JArray "json list"
  | JObject "(string \<times> json) list"

text \<open>
  A Go string is any sequence of bytes, a JSON string is text. \<open>json.Marshal\<close> reads a string
  as UTF-8 with \<open>utf8.DecodeRuneInString\<close> and writes the replacement character U+FFFD for
  every byte that does not start a valid encoding; the decoder reads it as the three bytes
  \<open>EF BF BD\<close>. \<open>runeWidth\<close> is the width that \<open>DecodeRuneInString\<close> finds at the head of a
  string, \<open>0\<close> standing for an invalid or missing encoding: the first byte fixes the width and
  the range of the second byte (\<open>acceptRange\<close>), and every byte after the second is a
  continuation byte, \<open>80\<close> to \<open>BF\<close>.
\<close>

definition byteIn :: "nat \<Rightarrow> nat \<Rightarrow> char \<Rightarrow> bool" where
  "byteIn lo hi c = (lo \<le> of_char c \<and> of_char c \<le> hi)"

definition acceptRange :: "char \<Rightarrow> (nat \<times> nat \<times> nat) option" where
  "acceptRange c =
     (if byteIn 0xC2 0xDF c then Some (2, 0x80, 0xBF)
      else if byteIn 0xE0 0xE0 c then Some (3, 0xA0, 0xBF)
      else if byteIn 0xE1 0xEC c then Some (3, 0x80, 0xBF)
      else if byteIn 0xED 0xED c then Some (3, 0x80, 0x9F)
      else if byteIn 0xEE 0xEF c then Some (3, 0x80, 0xBF)
      else if byteIn 0xF0 0xF0 c then Some (4, 0x90, 0xBF)
      else if byteIn 0xF1 0xF3 c then Some (4, 0x80, 0xBF)
      else if byteIn 0xF4 0xF4 c then Some (4, 0x80, 0x8F)
      else None)"

fun runeWidth :: "string \<Rightarrow> nat" where
  "runeWidth [] = 0"
| "runeWidth (c # cs) =
     (if byteIn 0x00 0x7F c then 1
      else case acceptRange c of
             None \<Rightarrow> 0
           | Some (sz, lo, hi) \<Rightarrow>
               if length (c # cs) < sz then 0
               else if \<not> byteIn lo hi (cs ! 0) then 0
               else if sz \<le> 2 then 2
               else if \<not> byteIn 0x80 0xBF (cs ! 1) then 0
               else if sz \<le> 3 then 3
               else if \<not> byteIn 0x80 0xBF (cs ! 2) then 0
               else 4)"

definition replacementChar :: string where
  "replacementChar = [CHR 0xEF, CHR 0xBF, CHR 0xBD]"

text \<open>
  The bytes of the JSON string that \<open>json.Marshal\<close> writes for a Go string
  (\<open>replaceInvalid\<close>), and \<open>utf8.ValidString\<close> (\<open>validUTF8\<close>).
\<close>

fun replaceInvalid :: "string \<Rightarrow> string" where
  "replaceInvalid [] = []"
| "replaceInvalid (c # cs) =
     (case runeWidth (c # cs) of
        0 \<Rightarrow> replacementChar @ replaceInvalid cs
      | Suc k \<Rightarrow> c # take k cs @ replaceInvalid (drop k cs))"

fun validUTF8 :: "string \<Rightarrow> bool" where
  "validUTF8 [] = True"
| "validUTF8 (c # cs) =
     (case runeWidth (c # cs) of
        0 \<Rightarrow> False
      | Suc k \<Rightarrow> validUTF8 (drop k cs))"

text \<open>
  Building a Go map from the members of an object: a later member with the same name
  replaces the earlier value.
\<close>

definition dedupLast :: "(string \<times> 'a) list \<Rightarrow> (string \<times> 'a) list" where
  "dedupLast ms = fold (\<lambda>(k, v) acc. AList.update k v acc) ms []"

text \<open>
  \<open>encodeValue\<close> is \<open>json.Marshal\<close> on a metadata value; \<open>decodeValue\<close> is \<open>json.Unmarshal\<close> into
  an empty interface, which yields a generic slice for every array and a generic map for
  every object. The keys of a map are written as JSON strings, like its string values.
  \<open>json.Marshal\<close> writes the entries of a map in the order of their keys; the model keeps the
  order of the association list, which makes no difference to a reader as long as the
  written keys are distinct.
\<close>

primrec encodeValue :: "gvalue \<Rightarrow> json" where
  "encodeValue (GString s) = JString (replaceInvalid s)"
| "encodeValue (GBool b) = JBool b"
| "encodeValue (GStrings xs) = JArray (map (\<lambda>x. JString (replaceInvalid x)) xs)"
| "encodeValue (GSlice vs) = JArray (map encodeValue vs)"
| "encodeValue (GMap kvs) = JObject (map (map_prod replaceInvalid encodeValue) kvs)"

primrec decodeValue :: "json \<Rightarrow> gvalue" where
  "decodeValue (JString s) = GString s"
| "decodeValue (JBool b) = GBool b"
| "decodeValue (JArray xs) = GSlice (map decodeValue xs)"
| "decodeValue (JObject ms) = GMap (dedupLast (map (map_prod id decodeValue) ms))"

text \<open>
  The members a field tag with \<open>omitempty\<close> contributes: none for an empty value. The test is
  on the Go value, before it is written.
\<close>

definition omitString :: "string \<Rightarrow> string \<Rightarrow> (string \<times> json) list" where
  "omitString k s = (if s = [] then [] else [(k, JString (replaceInvalid s))])"

definition omitStrings :: "string \<Rightarrow> string list \<Rightarrow> (string \<times> json) list" where
  "omitStrings k xs =
     (if xs = [] then [] else [(k, JArray (map (\<lambda>x. JString (replaceInvalid x)) xs))])"

definition omitStringMap :: "string \<Rightarrow> (string \<times> string) list \<Rightarrow> (string \<times> json) list" where
  "omitStringMap k m =
     (if m = [] then []
      else [(k, JObject (map (map_prod replaceInvalid (\<lambda>v. JString (replaceInvalid v))) m))])"

definition omitValueMap :: "string \<Rightarrow> (string \<times> gvalue) list \<Rightarrow> (string \<times> json) list" where
  "omitValueMap k m =
     (if m = [] then [] else [(k, JObject (map (map_prod replaceInvalid encodeValue) m))])"

definition marshalPlan :: "Plan \<Rightarrow> (string \<times> json) list" where
  "marshalPlan p =
     [(''provider'', JString (replaceInvalid (Provider p))),
      (''language'', JString (replaceInvalid (Language p)))]
     @ omitString ''language_version'' (LanguageVersion p)
     @ omitString ''framework'' (Framework p)
     @ omitString ''framework_version'' (FrameworkVersion p)
     @ omitString ''package_manager'' (Plan.PackageManager p)
     @ omitString ''package_manager_version'' (PackageManagerVersion p)
     @ omitString ''install_command'' (InstallCommand p)
     @ omitString ''build_command'' (BuildCommand p)
     @ omitString ''start_command'' (StartCommand p)
     @ omitStrings ''detected_files'' (DetectedFiles p)
     @ omitValueMap ''metadata'' (Metadata p)
     @ omitStringMap ''build_env'' (BuildEnv p)
     @ omitStringMap ''env'' (Plan.Env p)"

text \<open>
  Reading a field: the values of the members with the field's name, in document order. The
  field keeps its zero value when there is none, takes the last one, and the document is
  refused (\<open>None\<close>) when one of them has the wrong JSON type.
\<close>

definition membersNamed :: "string \<Rightarrow> (string \<times> json) list \<Rightarrow> json list" where
  "membersNamed k ms = map snd (filter (\<lambda>m. fst m = k) ms)"

fun asString :: "json \<Rightarrow> string option" where
  "asString (JString s) = Some s"
| "asString _ = None"

fun allSome :: "'a option list \<Rightarrow> 'a list option" where
  "allSome [] = Some []"
| "allSome (None # xs) = None"
| "allSome (Some x # xs) = (case allSome xs of None \<Rightarrow> None | Some ys \<Rightarrow> Some (x # ys))"

fun asStrings :: "json \<Rightarrow> string list option" where
  "asStrings (JArray xs) = allSome (map asString xs)"
| "asStrings _ = None"

fun asStringMap :: "json \<Rightarrow> (string \<times> string) list option" where
  "asStringMap (JObject ms) =
     (case allSome (map (\<lambda>m. asString (snd m)) ms) of
        None \<Rightarrow> None
      | Some vs \<Rightarrow> Some (dedupLast (zip (map fst ms) vs)))"
| "asStringMap _ = None"

fun asValueMap :: "json \<Rightarrow> (string \<times> gvalue) list option" where
  "asValueMap (JObject ms) = Some (dedupLast (map (map_prod id decodeValue) ms))"
| "asValueMap _ = None"

definition readField :: "(json \<Rightarrow> 'a option) \<Rightarrow> 'a \<Rightarrow> string \<Rightarrow> (string \<times> json) list \<Rightarrow> 'a option" where
  "readField as zero k ms =
     (case allSome (map as (membersNamed k ms)) of
        None \<Rightarrow> None
      | Some vs \<Rightarrow> Some (if vs = [] then zero else last vs))"

definition unmarshalPlan :: "(string \<times> json) list \<Rightarrow> Plan option" where
  "unmarshalPlan ms =
     Option.bind (readField asString [] ''provider'' ms) (\<lambda>provider.
     Option.bind (readField asString [] ''language'' ms) (\<lambda>language.
     Option.bind (readField asString [] ''language_version'' ms) (\<lambda>languageVersion.
     Option.bind (readField asString [] ''framework'' ms) (\<lambda>framework.
     Option.bind (readField asString [] ''framework_version'' ms) (\<lambda>frameworkVersion.
     Option.bind (readField asString [] ''package_manager'' ms) (\<lambda>packageManager.
     Option.bind (readField asString [] ''package_manager_version'' ms) (\<lambda>packageManagerVersion.
     Option.bind (readField asString [] ''install_command'' ms) (\<lambda>installCommand.
     Option.bind (readField asString [] ''build_command'' ms) (\<lambda>buildCommand.
     Option.bind (readField asString [] ''start_command'' ms) (\<lambda>startCommand.
     Option.bind (readField asStrings [] ''detected_files'' ms) (\<lambda>detectedFiles.
     Option.bind (readField asValueMap [] ''metadata'' ms) (\<lambda>metadata.
     Option.bind (readField asStringMap [] ''build_env'' ms) (\<lambda>buildEnv.
     Option.bind (readField asStringMap [] ''env'' ms) (\<lambda>env.
       Some \<lparr>Provider = provider, Language = language, LanguageVersion = languageVersion,
             Framework = framework, FrameworkVersion = frameworkVersion,
             Plan.PackageManager = packageManager,
             PackageManagerVersion = packageManagerVersion,
             InstallCommand = installCommand, BuildCommand = buildCommand,
             StartCommand = startCommand, DetectedFiles = detectedFiles,
             Metadata = metadata, BuildEnv = buildEnv, Plan.Env = env\<rparr>))))))))))))))"

text \<open>
  What a metadata value looks like after a round trip: a string slice has become a generic
  slice of strings. Go maps have distinct keys, at every depth (\<open>distinctKeys\<close>).
\<close>

primrec canonValue :: "gvalue \<Rightarrow> gvalue" where
  "canonValue (GString s) = GString s"
| "canonValue (GBool b) = GBool b"
| "canonValue (GStrings xs) = GSlice (map GString xs)"
| "canonValue (GSlice vs) = GSlice (map canonValue vs)"
| "canonValue (GMap kvs) = GMap (map (map_prod id canonValue) kvs)"

primrec distinctKeys :: "gvalue \<Rightarrow> bool" where
  "distinctKeys (GString s) = True"
| "distinctKeys (GBool b) = True"
| "distinctKeys (GStrings xs) = True"
| "distinctKeys (GSlice vs) = list_all id (map distinctKeys vs)"
| "distinctKeys (GMap kvs) =
     (distinct (map fst kvs) \<and> list_all snd (map (map_prod id distinctKeys) kvs))"

definition wfPlan :: "Plan \<Rightarrow> bool" where
  "wfPlan p =
     (distinct (map fst (Metadata p)) \<and> list_all (\<lambda>m. distinctKeys (snd m)) (Metadata p)
      \<and> distinct (map fst (BuildEnv p)) \<and> distinct (map fst (Plan.Env p)))"

text \<open>
  The strings of a plan: its string fields by wire name, and the plans all of whose strings,
  the keys of the maps included, are valid UTF-8.
\<close>

definition optionalStrings :: "Plan \<Rightarrow> (string \<times> string) list" where
  "optionalStrings p =
     [(''language_version'', LanguageVersion p),
      (''framework'', Framework p),
      (''framework_version'', FrameworkVersion p),
      (''package_manager'', Plan.PackageManager p),
      (''package_manager_version'', PackageManagerVersion p),
      (''install_command'', InstallCommand p),
      (''build_command'', BuildCommand p),
      (''start_command'', StartCommand p)]"

definition stringFields :: "Plan \<Rightarrow> (string \<times> string) list" where
  "stringFields p =
     (''provider'', Provider p) # (''language'', Language p) # optionalStrings p"

primrec validValue :: "gvalue \<Rightarrow> bool" where
  "validValue (GString s) = validUTF8 s"
| "validValue (GBool b) = True"
| "validValue (GStrings xs) = list_all validUTF8 xs"
| "validValue (GSlice vs) = list_all id (map validValue vs)"
| "validValue (GMap kvs) =
     (list_all validUTF8 (map fst kvs) \<and> list_all snd (map (map_prod id validValue) kvs))"

definition validPlan :: "Plan \<Rightarrow> bool" where
  "validPlan p =
     (list_all validUTF8 (map snd (stringFields p))
      \<and> list_all validUTF8 (DetectedFiles p)
      \<and> list_all (\<lambda>m. validUTF8 (fst m) \<and> validValue (snd m)) (Metadata p)
      \<and> list_all (\<lambda>m. validUTF8 (fst m) \<and> validUTF8 (snd m)) (BuildEnv p)
      \<and> list_all (\<lambda>m. validUTF8 (fst m) \<and> validUTF8 (snd m)) (Plan.Env p))"

text \<open>Example plans and documents.\<close>

definition planMinimal :: Plan where
  "planMinimal =
     \<lparr>Provider = ''node'', Language = ''nodejs'', LanguageVersion = [], Framework = [],
      FrameworkVersion = [], Plan.PackageManager = [], PackageManagerVersion = [],
      InstallCommand = [], BuildCommand = [], StartCommand = [], DetectedFiles = [],
      Metadata = [], BuildEnv = [], Plan.Env = []\<rparr>"

definition planWorkspaces :: Plan where
  "planWorkspaces =
     planMinimal\<lparr>LanguageVersion := ''24'', DetectedFiles := [''package.json''],
                 Metadata := [(''is_monorepo'', GBool True),
                              (''workspaces'', GStrings [''packages/a''])]\<rparr>"

definition planInvalidVersion :: Plan where
  "planInvalidVersion = planMinimal\<lparr>LanguageVersion := [CHR 0xFF]\<rparr>"

definition wireEmptyStart :: "(string \<times> json) list" where
  "wireEmptyStart =
     [(''provider'', JString ''node''), (''language'', JString ''nodejs''),
      (''start_command'', JString [])]"

definition wireNoStart :: "(string \<times> json) list" where
  "wireNoStart = [(''provider'', JString ''node''), (''language'', JString ''nodejs'')]"

section \<open>Verified properties\<close>

lemma ruleFromLockFiles_chain:
  "ruleFromLockFiles fs ctx =
     (if HasFile fs ctx ''pnpm-lock.yaml'' then Some \<lparr>pmName = PackageManagerPNPM, pmVersion = []\<rparr>
      else if HasFile fs ctx ''bun.lockb'' \<or> HasFile fs ctx ''bun.lock''
        then Some \<lparr>pmName = PackageManagerBun, pmVersion = []\<rparr>
      else if HasFile fs ctx ''.yarnrc.yml'' \<or> HasFile fs ctx ''.yarnrc.yaml''
        then Some \<lparr>pmName = PackageManagerYarnBerry, pmVersion = []\<rparr>
      else if HasFile fs ctx ''yarn.lock'' then Some \<lparr>pmName = PackageManagerYarn1, pmVersion = []\<rparr>
      else if HasFile fs ctx ''package-lock.json'' then Some \<lparr>pmName = PackageManagerNPM, pmVersion = []\<rparr>
      else None)"
  by (simp add: ruleFromLockFiles_def lockFileTable_def)

lemma ruleFromEngines_chain:
  "ruleFromEngines pkg =
     (if PNPM (Engines pkg) \<noteq> [] then Some \<lparr>pmName = PackageManagerPNPM, pmVersion = []\<rparr>
      else if Bun (Engines pkg) \<noteq> [] then Some \<lparr>pmName = PackageManagerBun, pmVersion = []\<rparr>
      else if Yarn (Engines pkg) \<noteq> [] then Some \<lparr>pmName = PackageManagerYarn1, pmVersion = []\<rparr>
      else None)"
  by (simp add: ruleFromEngines_def)

lemma detect_field_decides:
  assumes "ruleFromField pkg = Some i"
  shows "DetectPackageManager fs ctx pkg = i"
proof -
  obtain n v where nv: "GetPackageManagerInfo pkg = (n, v)"
    by (cases "GetPackageManagerInfo pkg")
  consider "n = ''pnpm''" | "n = ''yarn''" | "n = ''bun''" | "n = ''npm''"
    using assms nv by (auto simp: ruleFromField_def split: if_splits)
  then show ?thesis
  proof cases
    case 1
    with assms nv show ?thesis by (simp add: ruleFromField_def DetectPackageManager_def Let_def)
  next
    case 2
    with assms nv show ?thesis by (simp add: ruleFromField_def DetectPackageManager_def Let_def)
  next
    case 3
    with assms nv show ?thesis by (simp add: ruleFromField_def DetectPackageManager_def Let_def)
  next
    case 4
    with assms nv show ?thesis by (simp add: ruleFromField_def DetectPackageManager_def Let_def)
  qed
qed

lemma detect_no_field:
  assumes "ruleFromField pkg = None"
  shows "DetectPackageManager fs ctx pkg =
     (if HasFile fs ctx ''pnpm-lock.yaml'' then \<lparr>pmName = PackageManagerPNPM, pmVersion = []\<rparr>
      else if HasFile fs ctx ''bun.lockb'' \<or> HasFile fs ctx ''bun.lock''
        then \<lparr>pmName = PackageManagerBun, pmVersion = []\<rparr>
      else if HasFile fs ctx ''.yarnrc.yml'' \<or> HasFile fs ctx ''.yarnrc.yaml''
        then \<lparr>pmName = PackageManagerYarnBerry, pmVersion = []\<rparr>
      else if HasFile fs ctx ''yarn.lock'' then \<lparr>pmName = PackageManagerYarn1, pmVersion = []\<rparr>
      else if HasFile fs ctx ''package-lock.json'' then \<lparr>pmName = PackageManagerNPM, pmVersion = []\<rparr>
      else if PNPM (Engines pkg) \<noteq> [] then \<lparr>pmName = PackageManagerPNPM, pmVersion = []\<rparr>
      else if Bun (Engines pkg) \<noteq> [] then \<lparr>pmName = PackageManagerBun, pmVersion = []\<rparr>
      else if Yarn (Engines pkg) \<noteq> [] then \<lparr>pmName = PackageManagerYarn1, pmVersion = []\<rparr>
      else \<lparr>pmName = PackageManagerNPM, pmVersion = []\<rparr>)"
proof -
  obtain n v where nv: "GetPackageManagerInfo pkg = (n, v)"
    by (cases "GetPackageManagerInfo pkg")
  have "n \<noteq> ''pnpm''" "n \<noteq> ''yarn''" "n \<noteq> ''bun''" "n \<noteq> ''npm''"
    using assms nv by (auto simp: ruleFromField_def split: if_splits)
  with nv show ?thesis by (simp add: DetectPackageManager_def Let_def)
qed

lemma detect_refines_table: "DetectPackageManager fs ctx pkg = resolveByPriority fs ctx pkg"
proof (cases "ruleFromField pkg")
  case None
  show ?thesis
    unfolding detect_no_field [OF None] resolveByPriority_def None
      ruleFromLockFiles_chain ruleFromEngines_chain
    by simp
next
  case (Some i)
  then show ?thesis by (simp add: detect_field_decides resolveByPriority_def)
qed

lemma field_example:
  "PackageManager pkg = ''pnpm@8.6.0'' \<Longrightarrow>
     ruleFromField pkg = Some \<lparr>pmName = PackageManagerPNPM, pmVersion = ''8.6.0''\<rparr>"
  by (simp add: ruleFromField_def GetPackageManagerInfo_def SplitN2_def)

lemma firstMatch_table:
  "firstMatch (Some x # rs) d = x"
  "firstMatch (None # Some y # rs) d = y"
  "firstMatch (None # None # Some z # rs) d = z"
  "firstMatch [None, None, None] d = d"
  by simp_all

text \<open>
  Claim C1. The package manager resolver is a total function that follows the priority
  table (packageManager field, then lock files, then engines, then npm): its result is the
  result of the first rule of the table that applies, so of two signals that disagree the
  one of higher priority decides, and npm without version is the result when no rule
  applies. In particular a manifest whose packageManager field is \<open>pnpm@8.6.0\<close> resolves to
  pnpm with version 8.6.0 on every file system, also one where \<open>yarn.lock\<close> is present.
\<close>

theorem pm_priority:
  "DetectPackageManager fs ctx pkg = resolveByPriority fs ctx pkg
   \<and> (ruleFromField pkg = Some i \<longrightarrow> DetectPackageManager fs ctx pkg = i)
   \<and> (ruleFromField pkg = None \<and> ruleFromLockFiles fs ctx = Some i \<longrightarrow>
        DetectPackageManager fs ctx pkg = i)
   \<and> (ruleFromField pkg = None \<and> ruleFromLockFiles fs ctx = None
        \<and> ruleFromEngines pkg = Some i \<longrightarrow>
        DetectPackageManager fs ctx pkg = i)
   \<and> (ruleFromField pkg = None \<and> ruleFromLockFiles fs ctx = None
        \<and> ruleFromEngines pkg = None \<longrightarrow>
        DetectPackageManager fs ctx pkg = \<lparr>pmName = PackageManagerNPM, pmVersion = []\<rparr>)
   \<and> (PackageManager pkg = ''pnpm@8.6.0'' \<longrightarrow>
        DetectPackageManager fs ctx pkg = \<lparr>pmName = PackageManagerPNPM, pmVersion = ''8.6.0''\<rparr>)"
proof (intro conjI impI)
  show "DetectPackageManager fs ctx pkg = resolveByPriority fs ctx pkg"
    by (rule detect_refines_table)
next
  assume "ruleFromField pkg = Some i"
  then show "DetectPackageManager fs ctx pkg = i" by (rule detect_field_decides)
next
  assume "ruleFromField pkg = None \<and> ruleFromLockFiles fs ctx = Some i"
  then show "DetectPackageManager fs ctx pkg = i"
    by (simp add: detect_refines_table resolveByPriority_def firstMatch_table)
next
  assume "ruleFromField pkg = None \<and> ruleFromLockFiles fs ctx = None
        \<and> ruleFromEngines pkg = Some i"
  then show "DetectPackageManager fs ctx pkg = i"
    by (simp add: detect_refines_table resolveByPriority_def firstMatch_table)
next
  assume "ruleFromField pkg = None \<and> ruleFromLockFiles fs ctx = None
        \<and> ruleFromEngines pkg = None"
  then show "DetectPackageManager fs ctx pkg = \<lparr>pmName = PackageManagerNPM, pmVersion = []\<rparr>"
    by (simp add: detect_refines_table resolveByPriority_def firstMatch_table)
next
  assume "PackageManager pkg = ''pnpm@8.6.0''"
  then show "DetectPackageManager fs ctx pkg
               = \<lparr>pmName = PackageManagerPNPM, pmVersion = ''8.6.0''\<rparr>"
    using field_example detect_field_decides by blast
qed

theorem pm_priority_witness:
  "PackageManager (emptyPackageJSON\<lparr>PackageManager := ''pnpm@8.6.0''\<rparr>) = ''pnpm@8.6.0''
   \<and> HasFile [''/app/yarn.lock'' \<mapsto> File []] ctxApp ''yarn.lock''
   \<and> DetectPackageManager [''/app/yarn.lock'' \<mapsto> File []] ctxApp
         (emptyPackageJSON\<lparr>PackageManager := ''pnpm@8.6.0''\<rparr>)
       = \<lparr>pmName = PackageManagerPNPM, pmVersion = ''8.6.0''\<rparr>
   \<and> DetectPackageManager [''/app/yarn.lock'' \<mapsto> File []] ctxApp
         (emptyPackageJSON\<lparr>Engines := emptyEngines\<lparr>PNPM := ''>=8''\<rparr>\<rparr>)
       = \<lparr>pmName = PackageManagerYarn1, pmVersion = []\<rparr>
   \<and> DetectPackageManager Map.empty ctxApp
         (emptyPackageJSON\<lparr>Engines := emptyEngines\<lparr>PNPM := ''>=8''\<rparr>\<rparr>)
       = \<lparr>pmName = PackageManagerPNPM, pmVersion = []\<rparr>
   \<and> DetectPackageManager Map.empty ctxApp emptyPackageJSON
       = \<lparr>pmName = PackageManagerNPM, pmVersion = []\<rparr>"
proof -
  note t = pm_priority
  have j: "HasFile [''/app/yarn.lock'' \<mapsto> File []] ctxApp ''yarn.lock''"
    by (simp add: HasFile_def ctxApp_def Clean_def)
  have nf: "ruleFromField (emptyPackageJSON\<lparr>Engines := emptyEngines\<lparr>PNPM := ''>=8''\<rparr>\<rparr>) = None"
    "ruleFromField emptyPackageJSON = None"
    by (simp_all add: ruleFromField_def GetPackageManagerInfo_def emptyPackageJSON_def)
  have lk: "ruleFromLockFiles [''/app/yarn.lock'' \<mapsto> File []] ctxApp
              = Some \<lparr>pmName = PackageManagerYarn1, pmVersion = []\<rparr>"
    by (simp add: ruleFromLockFiles_chain HasFile_def ctxApp_def Clean_def)
  have nl: "ruleFromLockFiles Map.empty ctxApp = None"
    by (simp add: ruleFromLockFiles_chain HasFile_def)
  have en: "ruleFromEngines (emptyPackageJSON\<lparr>Engines := emptyEngines\<lparr>PNPM := ''>=8''\<rparr>\<rparr>)
              = Some \<lparr>pmName = PackageManagerPNPM, pmVersion = []\<rparr>"
    by (simp add: ruleFromEngines_chain)
  have ne: "ruleFromEngines emptyPackageJSON = None"
    by (simp add: ruleFromEngines_chain emptyPackageJSON_def emptyEngines_def)
  have a: "DetectPackageManager [''/app/yarn.lock'' \<mapsto> File []] ctxApp
         (emptyPackageJSON\<lparr>PackageManager := ''pnpm@8.6.0''\<rparr>)
       = \<lparr>pmName = PackageManagerPNPM, pmVersion = ''8.6.0''\<rparr>"
    using t [of "[''/app/yarn.lock'' \<mapsto> File []]" ctxApp
        "emptyPackageJSON\<lparr>PackageManager := ''pnpm@8.6.0''\<rparr>",
        THEN conjunct2, THEN conjunct2, THEN conjunct2, THEN conjunct2, THEN conjunct2]
    by simp
  have b: "DetectPackageManager [''/app/yarn.lock'' \<mapsto> File []] ctxApp
         (emptyPackageJSON\<lparr>Engines := emptyEngines\<lparr>PNPM := ''>=8''\<rparr>\<rparr>)
       = \<lparr>pmName = PackageManagerYarn1, pmVersion = []\<rparr>"
    using t [of "[''/app/yarn.lock'' \<mapsto> File []]" ctxApp
        "emptyPackageJSON\<lparr>Engines := emptyEngines\<lparr>PNPM := ''>=8''\<rparr>\<rparr>"
        "\<lparr>pmName = PackageManagerYarn1, pmVersion = []\<rparr>"] nf lk by blast
  have c: "DetectPackageManager Map.empty ctxApp
         (emptyPackageJSON\<lparr>Engines := emptyEngines\<lparr>PNPM := ''>=8''\<rparr>\<rparr>)
       = \<lparr>pmName = PackageManagerPNPM, pmVersion = []\<rparr>"
    using t [of Map.empty ctxApp
        "emptyPackageJSON\<lparr>Engines := emptyEngines\<lparr>PNPM := ''>=8''\<rparr>\<rparr>"
        "\<lparr>pmName = PackageManagerPNPM, pmVersion = []\<rparr>"] nf nl en by blast
  have d: "DetectPackageManager Map.empty ctxApp emptyPackageJSON
       = \<lparr>pmName = PackageManagerNPM, pmVersion = []\<rparr>"
    using t [of Map.empty ctxApp emptyPackageJSON] nf nl ne by blast
  from j a b c d show ?thesis by simp
qed

lemma parseEngineVersion_empty: "parseEngineVersion [] = []"
  by (simp add: parseEngineVersion_def TrimSpace_def)

lemma firstMatch_nonEmpty:
  "firstMatch (nonEmpty v # rs) d = (if v \<noteq> [] then v else firstMatch rs d)"
  by (simp add: nonEmpty_def)

lemma firstMatch_envSource:
  "firstMatch (envSource ctx k # rs) d =
     (if mapGet (Env ctx) k \<noteq> [] then normalizeVersion (mapGet (Env ctx) k) else firstMatch rs d)"
  by (simp add: envSource_def)

lemma firstMatch_enginesSource:
  "firstMatch (enginesSource pkg # rs) d =
     (if (case pkg of None \<Rightarrow> False
          | Some p \<Rightarrow> Node (Engines p) \<noteq> [] \<and> parseEngineVersion (Node (Engines p)) \<noteq> [])
      then parseEngineVersion (Node (Engines (the pkg))) else firstMatch rs d)"
  by (cases pkg) (auto simp: enginesSource_def nonEmpty_def parseEngineVersion_empty)

lemma version_refines_table:
  "DetectNodeVersion fs ctx pkg = firstMatch (versionSources fs ctx pkg) DefaultNodeVersion"
  unfolding versionSources_def fileSource_def firstMatch_envSource firstMatch_enginesSource
    firstMatch_nonEmpty DetectNodeVersion_def
  by simp

lemma nvmrc_example: "parseVersionFile ''v18.2.0\<newline>'' = ''18.2.0''"
  by (simp add: parseVersionFile_def TrimSpace_def TrimPrefix_def HasPrefix_def isSpace_def
      ToLower_def toLowerChar_def)

lemma engines_example: "parseEngineVersion ''>=18 <21'' = ''18''"
  by (simp add: parseEngineVersion_def TrimSpace_def isSpace_def isDigit_def)

lemma lts_collapses:
  "HasPrefix (ToLower (TrimPrefix (TrimSpace content) ''v'')) ''lts'' \<Longrightarrow>
     parseVersionFile content = DefaultNodeVersion"
  by (simp add: parseVersionFile_def)

lemma only_nvmrc:
  assumes "mapGet (Env ctx) ''COOLPACK_NODE_VERSION'' = []"
    and "mapGet (Env ctx) ''NODE_VERSION'' = []"
    and "pkg = None \<or> Node (Engines (the pkg)) = []"
    and "fs (Join [Path ctx, ''.nvmrc'']) = Some (File ''v18.2.0\<newline>'')"
  shows "DetectNodeVersion fs ctx pkg = ''18.2.0''"
proof -
  have f: "versionFromFile fs ctx ''.nvmrc'' parseVersionFile = ''18.2.0''"
    using assms(4) nvmrc_example by (simp add: versionFromFile_def HasFile_def ReadFile_def)
  have e: "\<not> (case pkg of None \<Rightarrow> False
               | Some p \<Rightarrow> Node (Engines p) \<noteq> [] \<and> parseEngineVersion (Node (Engines p)) \<noteq> [])"
    using assms(3) by (cases pkg) auto
  show ?thesis
    unfolding DetectNodeVersion_def using assms(1,2) e f by simp
qed

lemma only_engines:
  assumes "mapGet (Env ctx) ''COOLPACK_NODE_VERSION'' = []"
    and "mapGet (Env ctx) ''NODE_VERSION'' = []"
    and "pkg = Some p" and "Node (Engines p) = ''>=18 <21''"
  shows "DetectNodeVersion fs ctx pkg = ''18''"
  unfolding DetectNodeVersion_def using assms engines_example by simp

lemma no_signal:
  assumes "mapGet (Env ctx) ''COOLPACK_NODE_VERSION'' = []"
    and "mapGet (Env ctx) ''NODE_VERSION'' = []"
    and "pkg = None \<or> Node (Engines (the pkg)) = []"
    and "\<not> HasFile fs ctx ''.nvmrc''" and "\<not> HasFile fs ctx ''.node-version''"
    and "\<not> HasFile fs ctx ''.tool-versions''" and "\<not> HasFile fs ctx ''mise.toml''"
  shows "DetectNodeVersion fs ctx pkg = DefaultNodeVersion"
proof -
  have e: "\<not> (case pkg of None \<Rightarrow> False
               | Some p \<Rightarrow> Node (Engines p) \<noteq> [] \<and> parseEngineVersion (Node (Engines p)) \<noteq> [])"
    using assms(3) by (cases pkg) auto
  show ?thesis
    unfolding DetectNodeVersion_def using assms(1,2,4-7) e by (simp add: versionFromFile_def)
qed

lemma lts_from_nvmrc:
  assumes "mapGet (Env ctx) ''COOLPACK_NODE_VERSION'' = []"
    and "mapGet (Env ctx) ''NODE_VERSION'' = []"
    and "pkg = None \<or> Node (Engines (the pkg)) = []"
    and "fs (Join [Path ctx, ''.nvmrc'']) = Some (File content)"
    and "HasPrefix (ToLower (TrimPrefix (TrimSpace content) ''v'')) ''lts''"
  shows "DetectNodeVersion fs ctx pkg = DefaultNodeVersion"
proof -
  have f: "versionFromFile fs ctx ''.nvmrc'' parseVersionFile = DefaultNodeVersion"
    using assms(4) lts_collapses [OF assms(5)]
    by (simp add: versionFromFile_def HasFile_def ReadFile_def)
  have e: "\<not> (case pkg of None \<Rightarrow> False
               | Some p \<Rightarrow> Node (Engines p) \<noteq> [] \<and> parseEngineVersion (Node (Engines p)) \<noteq> [])"
    using assms(3) by (cases pkg) auto
  show ?thesis
    unfolding DetectNodeVersion_def using assms(1,2) e f by (simp add: DefaultNodeVersion_def)
qed

lemma lts_from_node_version:
  assumes "mapGet (Env ctx) ''COOLPACK_NODE_VERSION'' = []"
    and "mapGet (Env ctx) ''NODE_VERSION'' = []"
    and "pkg = None \<or> Node (Engines (the pkg)) = []"
    and "\<not> HasFile fs ctx ''.nvmrc''"
    and "fs (Join [Path ctx, ''.node-version'']) = Some (File content)"
    and "HasPrefix (ToLower (TrimPrefix (TrimSpace content) ''v'')) ''lts''"
  shows "DetectNodeVersion fs ctx pkg = DefaultNodeVersion"
proof -
  have f: "versionFromFile fs ctx ''.node-version'' parseVersionFile = DefaultNodeVersion"
    using assms(5) lts_collapses [OF assms(6)]
    by (simp add: versionFromFile_def HasFile_def ReadFile_def)
  have n: "versionFromFile fs ctx ''.nvmrc'' parseVersionFile = []"
    using assms(4) by (simp add: versionFromFile_def)
  have e: "\<not> (case pkg of None \<Rightarrow> False
               | Some p \<Rightarrow> Node (Engines p) \<noteq> [] \<and> parseEngineVersion (Node (Engines p)) \<noteq> [])"
    using assms(3) by (cases pkg) auto
  show ?thesis
    unfolding DetectNodeVersion_def using assms(1,2) e f n by (simp add: DefaultNodeVersion_def)
qed

text \<open>
  Claim C3, as amended. The runtime version is the value of the first source of the table
  that gives one, and the default constant when none does. With no override variable and no
  engines constraint, a \<open>.nvmrc\<close> file holding \<open>v18.2.0\<close> and a newline gives \<open>18.2.0\<close>; with no
  override variable, the engines constraint \<open>>=18 <21\<close> gives its major number \<open>18\<close>; with no
  signal at all the result is the default; and the content of a \<open>.nvmrc\<close> or \<open>.node-version\<close>
  file that, once trimmed and stripped of a leading \<open>v\<close>, begins with \<open>lts\<close> in any letter
  case gives the default.
\<close>

theorem node_version_cascade:
  "DetectNodeVersion fs ctx pkg = firstMatch (versionSources fs ctx pkg) DefaultNodeVersion
   \<and> (mapGet (Env ctx) ''COOLPACK_NODE_VERSION'' = [] \<and> mapGet (Env ctx) ''NODE_VERSION'' = []
        \<and> (pkg = None \<or> Node (Engines (the pkg)) = [])
        \<and> fs (Join [Path ctx, ''.nvmrc'']) = Some (File ''v18.2.0\<newline>'')
      \<longrightarrow> DetectNodeVersion fs ctx pkg = ''18.2.0'')
   \<and> (mapGet (Env ctx) ''COOLPACK_NODE_VERSION'' = [] \<and> mapGet (Env ctx) ''NODE_VERSION'' = []
        \<and> pkg = Some p \<and> Node (Engines p) = ''>=18 <21''
      \<longrightarrow> DetectNodeVersion fs ctx pkg = ''18'')
   \<and> (mapGet (Env ctx) ''COOLPACK_NODE_VERSION'' = [] \<and> mapGet (Env ctx) ''NODE_VERSION'' = []
        \<and> (pkg = None \<or> Node (Engines (the pkg)) = [])
        \<and> \<not> HasFile fs ctx ''.nvmrc'' \<and> \<not> HasFile fs ctx ''.node-version''
        \<and> \<not> HasFile fs ctx ''.tool-versions'' \<and> \<not> HasFile fs ctx ''mise.toml''
      \<longrightarrow> DetectNodeVersion fs ctx pkg = DefaultNodeVersion)
   \<and> (HasPrefix (ToLower (TrimPrefix (TrimSpace content) ''v'')) ''lts''
      \<longrightarrow> parseVersionFile content = DefaultNodeVersion)
   \<and> (mapGet (Env ctx) ''COOLPACK_NODE_VERSION'' = [] \<and> mapGet (Env ctx) ''NODE_VERSION'' = []
        \<and> (pkg = None \<or> Node (Engines (the pkg)) = [])
        \<and> fs (Join [Path ctx, ''.nvmrc'']) = Some (File content)
        \<and> HasPrefix (ToLower (TrimPrefix (TrimSpace content) ''v'')) ''lts''
      \<longrightarrow> DetectNodeVersion fs ctx pkg = DefaultNodeVersion)
   \<and> (mapGet (Env ctx) ''COOLPACK_NODE_VERSION'' = [] \<and> mapGet (Env ctx) ''NODE_VERSION'' = []
        \<and> (pkg = None \<or> Node (Engines (the pkg)) = [])
        \<and> \<not> HasFile fs ctx ''.nvmrc''
        \<and> fs (Join [Path ctx, ''.node-version'']) = Some (File content)
        \<and> HasPrefix (ToLower (TrimPrefix (TrimSpace content) ''v'')) ''lts''
      \<longrightarrow> DetectNodeVersion fs ctx pkg = DefaultNodeVersion)"
proof (intro conjI impI)
  show "DetectNodeVersion fs ctx pkg = firstMatch (versionSources fs ctx pkg) DefaultNodeVersion"
    by (rule version_refines_table)
next
  assume "mapGet (Env ctx) ''COOLPACK_NODE_VERSION'' = [] \<and> mapGet (Env ctx) ''NODE_VERSION'' = []
        \<and> (pkg = None \<or> Node (Engines (the pkg)) = [])
        \<and> fs (Join [Path ctx, ''.nvmrc'']) = Some (File ''v18.2.0\<newline>'')"
  then show "DetectNodeVersion fs ctx pkg = ''18.2.0''"
    by (intro only_nvmrc) simp_all
next
  assume "mapGet (Env ctx) ''COOLPACK_NODE_VERSION'' = [] \<and> mapGet (Env ctx) ''NODE_VERSION'' = []
        \<and> pkg = Some p \<and> Node (Engines p) = ''>=18 <21''"
  then show "DetectNodeVersion fs ctx pkg = ''18''"
    by (intro only_engines [where p = p]) simp_all
next
  assume "mapGet (Env ctx) ''COOLPACK_NODE_VERSION'' = [] \<and> mapGet (Env ctx) ''NODE_VERSION'' = []
        \<and> (pkg = None \<or> Node (Engines (the pkg)) = [])
        \<and> \<not> HasFile fs ctx ''.nvmrc'' \<and> \<not> HasFile fs ctx ''.node-version''
        \<and> \<not> HasFile fs ctx ''.tool-versions'' \<and> \<not> HasFile fs ctx ''mise.toml''"
  then show "DetectNodeVersion fs ctx pkg = DefaultNodeVersion"
    by (intro no_signal) simp_all
next
  assume "HasPrefix (ToLower (TrimPrefix (TrimSpace content) ''v'')) ''lts''"
  then show "parseVersionFile content = DefaultNodeVersion"
    by (rule lts_collapses)
next
  assume "mapGet (Env ctx) ''COOLPACK_NODE_VERSION'' = [] \<and> mapGet (Env ctx) ''NODE_VERSION'' = []
        \<and> (pkg = None \<or> Node (Engines (the pkg)) = [])
        \<and> fs (Join [Path ctx, ''.nvmrc'']) = Some (File content)
        \<and> HasPrefix (ToLower (TrimPrefix (TrimSpace content) ''v'')) ''lts''"
  then show "DetectNodeVersion fs ctx pkg = DefaultNodeVersion"
    by (intro lts_from_nvmrc [where content = content]) simp_all
next
  assume "mapGet (Env ctx) ''COOLPACK_NODE_VERSION'' = [] \<and> mapGet (Env ctx) ''NODE_VERSION'' = []
        \<and> (pkg = None \<or> Node (Engines (the pkg)) = [])
        \<and> \<not> HasFile fs ctx ''.nvmrc''
        \<and> fs (Join [Path ctx, ''.node-version'']) = Some (File content)
        \<and> HasPrefix (ToLower (TrimPrefix (TrimSpace content) ''v'')) ''lts''"
  then show "DetectNodeVersion fs ctx pkg = DefaultNodeVersion"
    by (intro lts_from_node_version [where content = content]) simp_all
qed

theorem node_version_cascade_witness:
  "DetectNodeVersion [''/app/.nvmrc'' \<mapsto> File ''v18.2.0\<newline>''] ctxApp None = ''18.2.0''
   \<and> DetectNodeVersion Map.empty ctxApp
         (Some (emptyPackageJSON\<lparr>Engines := emptyEngines\<lparr>Node := ''>=18 <21''\<rparr>\<rparr>)) = ''18''
   \<and> DetectNodeVersion Map.empty ctxApp (Some emptyPackageJSON) = ''24''
   \<and> HasPrefix (ToLower (TrimPrefix (TrimSpace '' vLTS/iron\<newline>'') ''v'')) ''lts''
   \<and> parseVersionFile '' vLTS/iron\<newline>'' = ''24''
   \<and> DetectNodeVersion [''/app/.nvmrc'' \<mapsto> File '' vLTS/iron\<newline>''] ctxApp None = ''24''
   \<and> DetectNodeVersion [''/app/.node-version'' \<mapsto> File '' vLTS/iron\<newline>''] ctxApp None = ''24''"
proof -
  note t = node_version_cascade
  have e: "mapGet (Env ctxApp) ''COOLPACK_NODE_VERSION'' = []"
    "mapGet (Env ctxApp) ''NODE_VERSION'' = []"
    by (simp_all add: ctxApp_def mapGet_def)
  have j: "Join [Path ctxApp, ''.nvmrc''] = ''/app/.nvmrc''"
    "Join [Path ctxApp, ''.node-version''] = ''/app/.node-version''"
    by (simp_all add: ctxApp_def Clean_def)
  have a: "DetectNodeVersion [''/app/.nvmrc'' \<mapsto> File ''v18.2.0\<newline>''] ctxApp None = ''18.2.0''"
    using e t [of "[''/app/.nvmrc'' \<mapsto> File ''v18.2.0\<newline>'']" ctxApp None,
        THEN conjunct2, THEN conjunct1]
    by (simp add: ctxApp_def Clean_def)
  have b: "DetectNodeVersion Map.empty ctxApp
         (Some (emptyPackageJSON\<lparr>Engines := emptyEngines\<lparr>Node := ''>=18 <21''\<rparr>\<rparr>)) = ''18''"
    using e t [of Map.empty ctxApp
        "Some (emptyPackageJSON\<lparr>Engines := emptyEngines\<lparr>Node := ''>=18 <21''\<rparr>\<rparr>)"
        "emptyPackageJSON\<lparr>Engines := emptyEngines\<lparr>Node := ''>=18 <21''\<rparr>\<rparr>",
        THEN conjunct2, THEN conjunct2, THEN conjunct1]
    by simp
  have c: "DetectNodeVersion Map.empty ctxApp (Some emptyPackageJSON) = ''24''"
    using e t [of Map.empty ctxApp "Some emptyPackageJSON",
        THEN conjunct2, THEN conjunct2, THEN conjunct2, THEN conjunct1]
    by (simp add: HasFile_def emptyPackageJSON_def emptyEngines_def DefaultNodeVersion_def)
  have l: "HasPrefix (ToLower (TrimPrefix (TrimSpace '' vLTS/iron\<newline>'') ''v'')) ''lts''"
    by code_simp
  have d: "parseVersionFile '' vLTS/iron\<newline>'' = ''24''"
    using l t [of _ _ _ _ "'' vLTS/iron\<newline>''",
        THEN conjunct2, THEN conjunct2, THEN conjunct2, THEN conjunct2, THEN conjunct1]
    by (simp add: DefaultNodeVersion_def)
  have f: "DetectNodeVersion [''/app/.nvmrc'' \<mapsto> File '' vLTS/iron\<newline>''] ctxApp None = ''24''"
    using e l t [of "[''/app/.nvmrc'' \<mapsto> File '' vLTS/iron\<newline>'']" ctxApp None _
        "'' vLTS/iron\<newline>''",
        THEN conjunct2, THEN conjunct2, THEN conjunct2, THEN conjunct2, THEN conjunct2,
        THEN conjunct1]
    unfolding j by (simp add: DefaultNodeVersion_def)
  have g: "DetectNodeVersion [''/app/.node-version'' \<mapsto> File '' vLTS/iron\<newline>''] ctxApp None = ''24''"
    using e l t [of "[''/app/.node-version'' \<mapsto> File '' vLTS/iron\<newline>'']" ctxApp None _
        "'' vLTS/iron\<newline>''",
        THEN conjunct2, THEN conjunct2, THEN conjunct2, THEN conjunct2, THEN conjunct2,
        THEN conjunct2]
    unfolding j HasFile_def by (simp add: DefaultNodeVersion_def)
  from a b c l d f g show ?thesis by simp
qed

text \<open>
  The claim as the specification states it fails for the values of the two other version
  files. The text \<open>lts\<close> begins with \<open>lts\<close>; read from a \<open>.tool-versions\<close> line or from a
  \<open>mise.toml\<close> assignment it is returned as it is, not as the default version.
\<close>

theorem node_version_lts_counterexample:
  "HasPrefix (ToLower (TrimPrefix (TrimSpace ''lts'') ''v'')) ''lts''
   \<and> parseToolVersions ''nodejs lts\<newline>'' ''nodejs'' = ''lts''
   \<and> DetectNodeVersion [''/app/.tool-versions'' \<mapsto> File ''nodejs lts\<newline>''] ctxApp None = ''lts''
   \<and> parseMiseToml ''[tools]\<newline>node = \"lts\"\<newline>'' = ''lts''
   \<and> DetectNodeVersion [''/app/mise.toml'' \<mapsto> File ''[tools]\<newline>node = \"lts\"\<newline>''] ctxApp
        None = ''lts''
   \<and> ''lts'' \<noteq> DefaultNodeVersion"
proof -
  have a: "HasPrefix (ToLower (TrimPrefix (TrimSpace ''lts'') ''v'')) ''lts''"
    by code_simp
  have b: "parseToolVersions ''nodejs lts\<newline>'' ''nodejs'' = ''lts''"
    by code_simp
  have c: "parseMiseToml ''[tools]\<newline>node = \"lts\"\<newline>'' = ''lts''"
    by code_simp
  have j: "Join [Path ctxApp, ''.nvmrc''] = ''/app/.nvmrc''"
    "Join [Path ctxApp, ''.node-version''] = ''/app/.node-version''"
    "Join [Path ctxApp, ''.tool-versions''] = ''/app/.tool-versions''"
    "Join [Path ctxApp, ''mise.toml''] = ''/app/mise.toml''"
    by (simp_all add: ctxApp_def Clean_def)
  have e: "mapGet (Env ctxApp) ''COOLPACK_NODE_VERSION'' = []"
    "mapGet (Env ctxApp) ''NODE_VERSION'' = []"
    by (simp_all add: ctxApp_def mapGet_def)
  have d: "DetectNodeVersion [''/app/.tool-versions'' \<mapsto> File ''nodejs lts\<newline>''] ctxApp None
             = ''lts''"
    unfolding DetectNodeVersion_def versionFromFile_def HasFile_def ReadFile_def j
    using e b by simp
  have f: "DetectNodeVersion [''/app/mise.toml'' \<mapsto> File ''[tools]\<newline>node = \"lts\"\<newline>'']
             ctxApp None = ''lts''"
    unfolding DetectNodeVersion_def versionFromFile_def HasFile_def ReadFile_def j
    using e c by simp
  have g: "''lts'' \<noteq> DefaultNodeVersion" by (simp add: DefaultNodeVersion_def)
  from a b c d f g show ?thesis by simp
qed


lemma remdups_skip_later:
  "p \<in> set ys \<Longrightarrow> remdups (xs @ p # ys) = remdups (xs @ ys)"
  by (induction xs) auto

lemma firstSeen_snoc_seen: "p \<in> set acc \<Longrightarrow> firstSeen (acc @ p # ps) = firstSeen (acc @ ps)"
  by (simp add: firstSeen_def remdups_skip_later)

lemma seen_update: "(\<lambda>q. q \<in> set acc)(p := True) = (\<lambda>q. q \<in> set (acc @ [p]))"
  by (rule ext) auto

lemma addAptPackages_firstSeen:
  "firstSeen acc = acc \<Longrightarrow>
     addAptPackages ps (\<lambda>q. q \<in> set acc, acc)
       = (\<lambda>q. q \<in> set (firstSeen (acc @ ps)), firstSeen (acc @ ps))"
proof (induction ps arbitrary: acc)
  case Nil
  then show ?case by simp
next
  case (Cons p ps)
  show ?case
  proof (cases "p \<in> set acc")
    case True
    then show ?thesis using Cons by (simp add: firstSeen_snoc_seen)
  next
    case False
    have "firstSeen (acc @ [p]) = acc @ [p]"
      using False Cons.prems by (simp add: firstSeen_def)
    from Cons.IH [OF this] False show ?thesis by (simp add: seen_update)
  qed
qed

lemma firstSeen_idem: "firstSeen (firstSeen xs) = firstSeen xs"
  by (simp add: firstSeen_def)

lemma firstSeen_append_left: "firstSeen (firstSeen xs @ ys) = firstSeen (xs @ ys)"
proof -
  have "remdups (rev ys @ remdups (rev xs)) = remdups (rev ys @ rev xs)"
    by (rule remdups_append2)
  then show ?thesis by (simp add: firstSeen_def)
qed

lemma collectAptPackages_firstSeen:
  "firstSeen acc = acc \<Longrightarrow>
     snd (collectAptPackages deps (\<lambda>q. q \<in> set acc, acc))
       = firstSeen (acc @ concat (map AptPackages deps))"
proof (induction deps arbitrary: acc)
  case Nil
  then show ?case by simp
next
  case (Cons dep deps)
  have "snd (collectAptPackages deps
          (\<lambda>q. q \<in> set (firstSeen (acc @ AptPackages dep)), firstSeen (acc @ AptPackages dep)))
        = firstSeen (firstSeen (acc @ AptPackages dep) @ concat (map AptPackages deps))"
    by (rule Cons.IH) (rule firstSeen_idem)
  then show ?case
    by (simp add: addAptPackages_firstSeen [OF Cons.prems] firstSeen_append_left)
qed

lemma required_is_firstSeen:
  "GetRequiredAptPackages deps = firstSeen (concat (map AptPackages deps))"
  using collectAptPackages_firstSeen [of "[]" deps]
  by (simp add: GetRequiredAptPackages_def firstSeen_def)

lemma distinct_firstSeen: "distinct (firstSeen xs)"
  by (simp add: firstSeen_def)

lemma remdups_append_filter:
  "remdups (as @ bs) = filter (\<lambda>y. y \<notin> set bs) (remdups as) @ remdups bs"
  by (induction as) auto

lemma firstSeen_append:
  "firstSeen (xs @ ys) = firstSeen xs @ filter (\<lambda>y. y \<notin> set xs) (firstSeen ys)"
proof -
  have "remdups (rev ys @ rev xs)
          = filter (\<lambda>y. y \<notin> set xs) (remdups (rev ys)) @ remdups (rev xs)"
    by (simp add: remdups_append_filter [of "rev ys"])
  then show ?thesis by (simp add: firstSeen_def rev_filter)
qed

lemma firstSeen_distinct: "distinct xs \<Longrightarrow> firstSeen xs = xs"
  by (simp add: firstSeen_def distinct_remdups_id)

lemma count_list_distinct: "distinct xs \<Longrightarrow> x \<in> set xs \<Longrightarrow> count_list xs x = 1"
  by (induction xs) auto

lemma catalog_head:
  "NativeDependencies =
     \<lparr>Package = ''sharp'', AptPackages = [''libvips-dev''],
       Description = ''Image processing library''\<rparr>
     # [\<lparr>Package = ''@prisma/client'', AptPackages = [''openssl''],
         Description = ''Database ORM''\<rparr>,
        \<lparr>Package = ''prisma'', AptPackages = [''openssl''],
         Description = ''Database ORM CLI''\<rparr>]
     @ \<lparr>Package = ''puppeteer'', AptPackages = puppeteerAptPackages,
         Description = ''Headless Chrome automation''\<rparr>
     # drop 4 NativeDependencies"
  by (simp add: NativeDependencies_def puppeteerAptPackages_def)

lemma catalog_tail_names:
  "\<forall>d \<in> set (drop 4 NativeDependencies). Package d \<noteq> ''sharp'' \<and> Package d \<noteq> ''puppeteer''"
  by (simp add: NativeDependencies_def)

lemma puppeteer_distinct: "distinct puppeteerAptPackages"
  by (simp add: puppeteerAptPackages_def)

lemma puppeteer_fresh:
  "''libvips-dev'' \<notin> set puppeteerAptPackages" "''openssl'' \<notin> set puppeteerAptPackages"
  by (simp_all add: puppeteerAptPackages_def)

lemma sharp_puppeteer_shape:
  assumes s: "HasDependency pkg ''sharp''" and p: "HasDependency pkg ''puppeteer''"
  shows "\<exists>mid rest.
           GetRequiredAptPackages (DetectNativeDependencies pkg)
             = ''libvips-dev'' # mid @ puppeteerAptPackages @ rest
           \<and> set mid \<subseteq> {''openssl''}
           \<and> (HasDependency pkg ''@prisma/client'' \<or> HasDependency pkg ''prisma'' \<or> mid = [])
           \<and> ((\<forall>d \<in> set (drop 4 NativeDependencies). \<not> HasDependency pkg (Package d))
                \<longrightarrow> rest = [])"
proof -
  define P where "P = (\<lambda>dep :: NativeDependency. HasDependency pkg (Package dep))"
  define A where "A = concat (map AptPackages (filter P
       [\<lparr>Package = ''@prisma/client'', AptPackages = [''openssl''],
         Description = ''Database ORM''\<rparr>,
        \<lparr>Package = ''prisma'', AptPackages = [''openssl''],
         Description = ''Database ORM CLI''\<rparr>]))"
  define C where "C = concat (map AptPackages (filter P (drop 4 NativeDependencies)))"
  have det: "concat (map AptPackages (DetectNativeDependencies pkg))
               = [''libvips-dev''] @ A @ puppeteerAptPackages @ C"
    unfolding DetectNativeDependencies_def P_def [symmetric]
    by (subst catalog_head) (use s p in \<open>simp add: A_def C_def P_def\<close>)
  have A_sub: "set A \<subseteq> {''openssl''}"
    by (auto simp: A_def split: if_splits)
  have A_empty: "HasDependency pkg ''@prisma/client'' \<or> HasDependency pkg ''prisma'' \<or> A = []"
    by (auto simp: A_def P_def)
  have keep: "filter (\<lambda>y. y \<noteq> ''libvips-dev'') (filter (\<lambda>y. y \<notin> set A) puppeteerAptPackages)
                = puppeteerAptPackages"
    using A_sub puppeteer_fresh by (auto simp: filter_id_conv)
  define mid where "mid = filter (\<lambda>y. y \<noteq> ''libvips-dev'') (firstSeen A)"
  define rest where "rest = filter (\<lambda>y. y \<noteq> ''libvips-dev'')
       (filter (\<lambda>y. y \<notin> set A) (filter (\<lambda>y. y \<notin> set puppeteerAptPackages) (firstSeen C)))"
  have "GetRequiredAptPackages (DetectNativeDependencies pkg)
          = firstSeen ([''libvips-dev''] @ A @ puppeteerAptPackages @ C)"
    by (simp only: required_is_firstSeen det)
  also have "\<dots> = ''libvips-dev'' # mid @ puppeteerAptPackages @ rest"
    unfolding firstSeen_append [of "[''libvips-dev'']"] firstSeen_append [of A]
      firstSeen_append [of puppeteerAptPackages] firstSeen_distinct [OF puppeteer_distinct]
    using keep by (simp add: mid_def rest_def firstSeen_def)
  finally have shape: "GetRequiredAptPackages (DetectNativeDependencies pkg)
          = ''libvips-dev'' # mid @ puppeteerAptPackages @ rest" .
  have m1: "set mid \<subseteq> {''openssl''}"
    using A_sub by (auto simp: mid_def firstSeen_def)
  have m2: "HasDependency pkg ''@prisma/client'' \<or> HasDependency pkg ''prisma'' \<or> mid = []"
    using A_empty by (auto simp: mid_def firstSeen_def)
  have r: "(\<forall>d \<in> set (drop 4 NativeDependencies). \<not> HasDependency pkg (Package d)) \<longrightarrow> rest = []"
  proof
    assume "\<forall>d \<in> set (drop 4 NativeDependencies). \<not> HasDependency pkg (Package d)"
    then have "filter P (drop 4 NativeDependencies) = []"
      by (simp add: P_def filter_empty_conv)
    then show "rest = []" by (simp add: rest_def C_def firstSeen_def)
  qed
  from shape m1 m2 r show ?thesis by blast
qed

lemma only_sharp_puppeteer:
  assumes s: "HasDependency pkg ''sharp''" and p: "HasDependency pkg ''puppeteer''"
    and o: "\<forall>d \<in> set NativeDependencies.
              HasDependency pkg (Package d) \<longrightarrow> Package d = ''sharp'' \<or> Package d = ''puppeteer''"
  shows "GetRequiredAptPackages (DetectNativeDependencies pkg)
           = ''libvips-dev'' # puppeteerAptPackages"
proof -
  have "\<lparr>Package = ''@prisma/client'', AptPackages = [''openssl''],
          Description = ''Database ORM''\<rparr> \<in> set NativeDependencies"
    by (simp add: NativeDependencies_def)
  with o have n1: "\<not> HasDependency pkg ''@prisma/client''" by fastforce
  have "\<lparr>Package = ''prisma'', AptPackages = [''openssl''],
          Description = ''Database ORM CLI''\<rparr> \<in> set NativeDependencies"
    by (simp add: NativeDependencies_def)
  with o have n2: "\<not> HasDependency pkg ''prisma''" by fastforce
  have n3: "\<forall>d \<in> set (drop 4 NativeDependencies). \<not> HasDependency pkg (Package d)"
    using o catalog_tail_names by (meson in_set_dropD)
  from sharp_puppeteer_shape [OF s p] n1 n2 n3 show ?thesis by auto
qed

lemma same_dependencies_same_packages:
  assumes "\<forall>n. HasDependency pkg n = HasDependency pkg' n"
  shows "GetRequiredAptPackages (DetectNativeDependencies pkg)
           = GetRequiredAptPackages (DetectNativeDependencies pkg')"
  using assms by (simp add: DetectNativeDependencies_def)

text \<open>
  Claim C5. The native dependency mapper returns the OS packages of the catalog entries that
  the manifest depends on, flattened and de-duplicated in first-seen order; every item of the
  result occurs exactly once, and the result depends on the manifest only through its
  dependency set. For a manifest depending on sharp and puppeteer the list starts with
  \<open>libvips-dev\<close>, which occurs once, and goes on with the puppeteer packages in their order
  (only \<open>openssl\<close> can come in between, when a prisma package is a dependency too); when no
  other catalog entry is a dependency the list is \<open>libvips-dev\<close> followed by the puppeteer
  packages.
\<close>

theorem native_packages_first_seen:
  "GetRequiredAptPackages (DetectNativeDependencies pkg)
     = firstSeen (concat (map AptPackages (DetectNativeDependencies pkg)))
   \<and> (\<forall>x \<in> set (GetRequiredAptPackages (DetectNativeDependencies pkg)).
        count_list (GetRequiredAptPackages (DetectNativeDependencies pkg)) x = 1)
   \<and> ((\<forall>n. HasDependency pkg n = HasDependency pkg' n) \<longrightarrow>
        GetRequiredAptPackages (DetectNativeDependencies pkg)
          = GetRequiredAptPackages (DetectNativeDependencies pkg'))
   \<and> (HasDependency pkg ''sharp'' \<and> HasDependency pkg ''puppeteer'' \<longrightarrow>
        count_list (GetRequiredAptPackages (DetectNativeDependencies pkg)) ''libvips-dev'' = 1
        \<and> (\<exists>mid rest.
              GetRequiredAptPackages (DetectNativeDependencies pkg)
                = ''libvips-dev'' # mid @ puppeteerAptPackages @ rest
              \<and> set mid \<subseteq> {''openssl''}))
   \<and> (HasDependency pkg ''sharp'' \<and> HasDependency pkg ''puppeteer''
        \<and> (\<forall>d \<in> set NativeDependencies.
              HasDependency pkg (Package d) \<longrightarrow> Package d = ''sharp'' \<or> Package d = ''puppeteer'')
        \<longrightarrow> GetRequiredAptPackages (DetectNativeDependencies pkg)
              = ''libvips-dev'' # puppeteerAptPackages)"
proof (intro conjI impI ballI)
  show "GetRequiredAptPackages (DetectNativeDependencies pkg)
     = firstSeen (concat (map AptPackages (DetectNativeDependencies pkg)))"
    by (rule required_is_firstSeen)
next
  fix x assume "x \<in> set (GetRequiredAptPackages (DetectNativeDependencies pkg))"
  then show "count_list (GetRequiredAptPackages (DetectNativeDependencies pkg)) x = 1"
    by (intro count_list_distinct) (simp_all add: required_is_firstSeen distinct_firstSeen)
next
  assume "\<forall>n. HasDependency pkg n = HasDependency pkg' n"
  then show "GetRequiredAptPackages (DetectNativeDependencies pkg)
          = GetRequiredAptPackages (DetectNativeDependencies pkg')"
    by (rule same_dependencies_same_packages)
next
  assume h: "HasDependency pkg ''sharp'' \<and> HasDependency pkg ''puppeteer''"
  then obtain mid rest where
    sh: "GetRequiredAptPackages (DetectNativeDependencies pkg)
           = ''libvips-dev'' # mid @ puppeteerAptPackages @ rest"
    using sharp_puppeteer_shape [of pkg] by blast
  have "distinct (GetRequiredAptPackages (DetectNativeDependencies pkg))"
    by (simp add: required_is_firstSeen distinct_firstSeen)
  moreover have "''libvips-dev'' \<in> set (GetRequiredAptPackages (DetectNativeDependencies pkg))"
    by (simp add: sh)
  ultimately show "count_list (GetRequiredAptPackages (DetectNativeDependencies pkg)) ''libvips-dev'' = 1"
    by (rule count_list_distinct)
next
  assume h: "HasDependency pkg ''sharp'' \<and> HasDependency pkg ''puppeteer''"
  then show "\<exists>mid rest.
              GetRequiredAptPackages (DetectNativeDependencies pkg)
                = ''libvips-dev'' # mid @ puppeteerAptPackages @ rest
              \<and> set mid \<subseteq> {''openssl''}"
    using sharp_puppeteer_shape [of pkg] by blast
next
  assume "HasDependency pkg ''sharp'' \<and> HasDependency pkg ''puppeteer''
        \<and> (\<forall>d \<in> set NativeDependencies.
              HasDependency pkg (Package d) \<longrightarrow> Package d = ''sharp'' \<or> Package d = ''puppeteer'')"
  then show "GetRequiredAptPackages (DetectNativeDependencies pkg)
              = ''libvips-dev'' # puppeteerAptPackages"
    by (intro only_sharp_puppeteer) simp_all
qed

theorem native_packages_first_seen_witness:
  "HasDependency pkgSharpPuppeteer ''sharp'' \<and> HasDependency pkgSharpPuppeteer ''puppeteer''
   \<and> GetRequiredAptPackages (DetectNativeDependencies pkgSharpPuppeteer)
       = [''libvips-dev'', ''chromium'', ''libnss3'', ''libatk1.0-0'', ''libatk-bridge2.0-0'',
          ''libcups2'', ''libdrm2'', ''libxkbcommon0'', ''libxcomposite1'', ''libxdamage1'',
          ''libxfixes3'', ''libxrandr2'', ''libgbm1'', ''libasound2'', ''libpango-1.0-0'',
          ''libcairo2'']
   \<and> count_list (GetRequiredAptPackages (DetectNativeDependencies pkgSharpPuppeteer))
         ''libvips-dev'' = 1
   \<and> count_list (GetRequiredAptPackages (DetectNativeDependencies pkgSharpPuppeteer))
         ''libcairo2'' = 1
   \<and> GetRequiredAptPackages (DetectNativeDependencies pkgSharpPuppeteerDev)
       = GetRequiredAptPackages (DetectNativeDependencies pkgSharpPuppeteer)"
proof -
  have s: "HasDependency pkgSharpPuppeteer ''sharp''"
    and p: "HasDependency pkgSharpPuppeteer ''puppeteer''"
    by (simp_all add: pkgSharpPuppeteer_def HasDependency_def)
  have o: "\<forall>d \<in> set NativeDependencies.
             HasDependency pkgSharpPuppeteer (Package d)
               \<longrightarrow> Package d = ''sharp'' \<or> Package d = ''puppeteer''"
    by (simp add: NativeDependencies_def pkgSharpPuppeteer_def HasDependency_def
        emptyPackageJSON_def)
  note t = native_packages_first_seen [of pkgSharpPuppeteer]
  have "GetRequiredAptPackages (DetectNativeDependencies pkgSharpPuppeteer)
          = ''libvips-dev'' # puppeteerAptPackages"
    using t s p o by blast
  then have r: "GetRequiredAptPackages (DetectNativeDependencies pkgSharpPuppeteer)
          = [''libvips-dev'', ''chromium'', ''libnss3'', ''libatk1.0-0'', ''libatk-bridge2.0-0'',
             ''libcups2'', ''libdrm2'', ''libxkbcommon0'', ''libxcomposite1'', ''libxdamage1'',
             ''libxfixes3'', ''libxrandr2'', ''libgbm1'', ''libasound2'', ''libpango-1.0-0'',
             ''libcairo2'']"
    by (simp add: puppeteerAptPackages_def)
  have c1: "count_list (GetRequiredAptPackages (DetectNativeDependencies pkgSharpPuppeteer))
         ''libvips-dev'' = 1"
    using t s p by blast
  have "''libcairo2'' \<in> set (GetRequiredAptPackages (DetectNativeDependencies pkgSharpPuppeteer))"
    by (simp add: r)
  with t have c2: "count_list (GetRequiredAptPackages (DetectNativeDependencies pkgSharpPuppeteer))
         ''libcairo2'' = 1"
    by blast
  have same: "\<forall>n. HasDependency pkgSharpPuppeteerDev n = HasDependency pkgSharpPuppeteer n"
    by (simp add: pkgSharpPuppeteer_def pkgSharpPuppeteerDev_def HasDependency_def
        emptyPackageJSON_def)
  have e: "GetRequiredAptPackages (DetectNativeDependencies pkgSharpPuppeteerDev)
       = GetRequiredAptPackages (DetectNativeDependencies pkgSharpPuppeteer)"
    using native_packages_first_seen [of pkgSharpPuppeteerDev pkgSharpPuppeteer] same by blast
  from s p r c1 c2 e show ?thesis by simp
qed

lemma getNodeText_wf: "wfNode source n \<Longrightarrow> \<exists>t. getNodeText n source = Inr t"
  by (cases n) (auto simp: getNodeText_def)

lemma find_in_set: "find P xs = Some x \<Longrightarrow> x \<in> set xs"
  by (induction xs) (auto split: if_splits)

lemma findPropertyObjectNode_wf:
  "wfNode source n \<Longrightarrow>
     \<exists>r. findPropertyObjectNode n source name = Inr r \<and> (\<forall>v. r = Some v \<longrightarrow> wfNode source v)"
  "(\<forall>c \<in> set cs. wfNode source c) \<Longrightarrow>
     \<exists>r. findPropertyObjectNodes cs source name = Inr r \<and> (\<forall>v. r = Some v \<longrightarrow> wfNode source v)"
proof (induction n source name and cs source name
    rule: findPropertyObjectNode_findPropertyObjectNodes.induct)
  case (1 t f s e cs source propertyName)
  have kids: "\<forall>c \<in> set cs. wfNode source c" using "1.prems" by simp
  show ?case
  proof (cases "t = ''pair'' \<or> t = ''property_assignment''")
    case False
    from "1.IH"(4) [OF False kids] False show ?thesis by simp
  next
    case pair: True
    show ?thesis
    proof (cases "find (\<lambda>c. fieldName c = ''key'') cs")
      case None
      from "1.IH"(1) [OF pair refl None kids] pair None show ?thesis by simp
    next
      case (Some keyNode)
      note key = this
      show ?thesis
      proof (cases "find (\<lambda>c. fieldName c = ''value'') cs")
        case None
        from "1.IH"(2) [OF pair refl key None kids] pair key None show ?thesis by simp
      next
        case (Some valueNode)
        have "wfNode source keyNode" using key kids find_in_set by fastforce
        then obtain k where k: "getNodeText keyNode source = Inr k"
          using getNodeText_wf by blast
        have wv: "wfNode source valueNode" using Some kids find_in_set by fastforce
        show ?thesis
        proof (cases "trimQuotes k = propertyName")
          case True
          then show ?thesis using pair key Some k wv by simp
        next
          case False
          from "1.IH"(3) [OF pair refl key Some k False kids]
          show ?thesis using pair key Some k False by simp
        qed
      qed
    qed
  qed
next
  case (2 source propertyName)
  then show ?case by simp
next
  case (3 c cs source propertyName)
  from "3.prems" have wc: "wfNode source c" and wcs: "\<forall>c \<in> set cs. wfNode source c" by simp_all
  from "3.IH"(1) [OF wc] obtain r where
    r: "findPropertyObjectNode c source propertyName = Inr r"
      "\<forall>v. r = Some v \<longrightarrow> wfNode source v" by blast
  show ?case
  proof (cases r)
    case None
    with "3.IH"(2) [OF _ _ wcs] r show ?thesis by simp
  next
    case (Some v)
    with r show ?thesis by simp
  qed
qed

lemma nested_never_panics:
  "wfNode source n \<Longrightarrow> \<exists>r. FindNestedPropertyValue (Some n) source segs = Inr r"
proof (induction segs arbitrary: n)
  case Nil
  then show ?case by simp
next
  case (Cons p ps)
  from findPropertyObjectNode_wf(1) [OF Cons.prems, of p] obtain r where
    r: "findPropertyObjectNode n source p = Inr r" "\<forall>v. r = Some v \<longrightarrow> wfNode source v"
    by blast
  show ?case
  proof (cases r)
    case None
    with r show ?thesis by simp
  next
    case (Some v)
    with r have wv: "wfNode source v" by simp
    obtain t where "getNodeText v source = Inr t" using getNodeText_wf [OF wv] by blast
    with Cons.IH [OF wv] r Some show ?thesis by simp
  qed
qed

lemma nested_failed_segment:
  "resolvePath n source segs = Inr None \<Longrightarrow> FindNestedPropertyValue (Some n) source segs = Inr []"
proof (induction segs arbitrary: n)
  case Nil
  then show ?case by simp
next
  case (Cons p ps)
  show ?case
  proof (cases "findPropertyObjectNode n source p")
    case (Inl e)
    with Cons.prems show ?thesis by simp
  next
    case (Inr r)
    show ?thesis
    proof (cases r)
      case None
      with Inr show ?thesis by simp
    next
      case (Some v)
      with Inr Cons.prems have rp: "resolvePath v source ps = Inr None" by simp
      then have "ps \<noteq> []" by auto
      with Cons.IH [OF rp] Inr Some show ?thesis by simp
    qed
  qed
qed

lemma nested_resolved:
  "segs \<noteq> [] \<Longrightarrow> resolvePath n source segs = Inr (Some v) \<Longrightarrow>
     FindNestedPropertyValue (Some n) source segs =
       (case getNodeText v source of Inl e \<Rightarrow> Inl e | Inr text \<Rightarrow> Inr (trimQuotes text))"
proof (induction segs arbitrary: n)
  case Nil
  then show ?case by simp
next
  case (Cons p ps)
  show ?case
  proof (cases "findPropertyObjectNode n source p")
    case (Inl e)
    with Cons.prems show ?thesis by simp
  next
    case (Inr r)
    show ?thesis
    proof (cases r)
      case None
      with Inr Cons.prems show ?thesis by simp
    next
      case (Some w)
      with Inr Cons.prems have rp: "resolvePath w source ps = Inr (Some v)" by simp
      show ?thesis
      proof (cases "ps = []")
        case True
        with rp Inr Some show ?thesis by simp
      next
        case False
        with Cons.IH [OF False rp] Inr Some show ?thesis by simp
      qed
    qed
  qed
qed

lemma preset_examples:
  "FindNestedPropertyValue (Some presetTree) presetSource [''server'', ''preset''] = Inr ''static''"
  "FindNestedPropertyValue (Some presetTree) presetSource [''server'', ''missing''] = Inr []"
  by (simp_all add: presetTree_def presetServerObject_def presetSource_def getNodeText_def
      trimQuotes_def)

text \<open>
  Claim C4. Nested property resolution resolves the first segment of the path to its value
  node and goes on in that node with the rest of the path. On the tree of
  \<open>export default { server: { preset: "static" } }\<close> the path server, preset gives \<open>static\<close>
  and the path server, missing gives no value (the empty string). A path one of whose
  segments finds no value node, at any depth, gives no value; and on a tree that is
  consistent with its source the resolver returns a value for every path, never a panic.
\<close>

theorem nested_property_resolution:
  "FindNestedPropertyValue (Some presetTree) presetSource [''server'', ''preset''] = Inr ''static''
   \<and> FindNestedPropertyValue (Some presetTree) presetSource [''server'', ''missing''] = Inr []
   \<and> (findPropertyObjectNode n source p = Inr (Some v) \<and> ps \<noteq> [] \<longrightarrow>
        FindNestedPropertyValue (Some n) source (p # ps)
          = FindNestedPropertyValue (Some v) source ps)
   \<and> (resolvePath n source segs = Inr None \<longrightarrow>
        FindNestedPropertyValue (Some n) source segs = Inr [])
   \<and> (wfNode source n \<longrightarrow> (\<exists>r. FindNestedPropertyValue (Some n) source segs = Inr r))"
proof (intro conjI impI)
  show "FindNestedPropertyValue (Some presetTree) presetSource [''server'', ''preset'']
          = Inr ''static''"
    by (rule preset_examples(1))
next
  show "FindNestedPropertyValue (Some presetTree) presetSource [''server'', ''missing''] = Inr []"
    by (rule preset_examples(2))
next
  assume "findPropertyObjectNode n source p = Inr (Some v) \<and> ps \<noteq> []"
  then show "FindNestedPropertyValue (Some n) source (p # ps)
          = FindNestedPropertyValue (Some v) source ps"
    by simp
next
  assume "resolvePath n source segs = Inr None"
  then show "FindNestedPropertyValue (Some n) source segs = Inr []"
    by (rule nested_failed_segment)
next
  assume "wfNode source n"
  then show "\<exists>r. FindNestedPropertyValue (Some n) source segs = Inr r"
    by (rule nested_never_panics)
qed

theorem nested_property_resolution_witness:
  "findPropertyObjectNode presetTree presetSource ''server'' = Inr (Some presetServerObject)
   \<and> FindNestedPropertyValue (Some presetTree) presetSource [''server'', ''preset'']
       = FindNestedPropertyValue (Some presetServerObject) presetSource [''preset'']
   \<and> resolvePath presetTree presetSource [''server'', ''missing''] = Inr None
   \<and> FindNestedPropertyValue (Some presetTree) presetSource [''server'', ''missing''] = Inr []
   \<and> wfNode presetSource presetTree
   \<and> FindNestedPropertyValue (Some presetTree) presetSource [''server'', ''preset'']
       = Inr ''static''"
proof -
  have f: "fieldName presetServerObject = ''value''"
    by (simp add: presetServerObject_def)
  have a: "findPropertyObjectNode presetTree presetSource ''server'' = Inr (Some presetServerObject)"
    by (simp add: presetTree_def presetSource_def getNodeText_def trimQuotes_def f)
  have b: "resolvePath presetTree presetSource [''server'', ''missing''] = Inr None"
    by (simp add: a) (simp add: presetServerObject_def presetSource_def getNodeText_def
        trimQuotes_def)
  have c: "wfNode presetSource presetTree"
    by (simp add: presetTree_def presetServerObject_def presetSource_def)
  note t = nested_property_resolution [of presetTree presetSource "''server''"
      presetServerObject "[''preset'']" "[''server'', ''missing'']"]
  from t a have "FindNestedPropertyValue (Some presetTree) presetSource [''server'', ''preset'']
       = FindNestedPropertyValue (Some presetServerObject) presetSource [''preset'']"
    by blast
  moreover from t b have
    "FindNestedPropertyValue (Some presetTree) presetSource [''server'', ''missing''] = Inr []"
    by blast
  moreover from t have
    "FindNestedPropertyValue (Some presetTree) presetSource [''server'', ''preset''] = Inr ''static''"
    by blast
  ultimately show ?thesis using a b c by blast
qed









lemma tryProviders_skip:
  assumes "\<forall>q \<in> set pre. \<exists>d e. provDetect q fs ctx = Inr (d, e) \<and> (e \<noteq> None \<or> \<not> d)"
  shows "tryProviders fs ctx (pre @ rest) = tryProviders fs ctx rest"
  using assms by (induction pre) auto

lemma tryProviders_none:
  assumes "\<forall>q \<in> set ps. \<exists>d e. provDetect q fs ctx = Inr (d, e) \<and> (e \<noteq> None \<or> \<not> d)"
  shows "tryProviders fs ctx ps = Inr (None, None)"
  using tryProviders_skip [OF assms, of "[]"] by simp

lemma tryProviders_first:
  assumes "\<forall>q \<in> set pre. \<exists>d e. provDetect q fs ctx = Inr (d, e) \<and> (e \<noteq> None \<or> \<not> d)"
    and "provDetect p fs ctx = Inr (True, None)"
  shows "tryProviders fs ctx (pre @ p # post) = provPlan p fs ctx"
  using tryProviders_skip [OF assms(1), of "p # post"] assms(2) by simp

lemma New_providers:
  "providers (New parser ParsePackageJSON p) = [nodeProvider parser ParsePackageJSON]"
  "path (New parser ParsePackageJSON p) = p"
  by (simp_all add: New_def registerProviders_def)

lemma Detect_no_manifest:
  assumes "fs (Join [p, ''package.json'']) = None"
  shows "Detect fs getenv (New parser ParsePackageJSON p) = Inr (None, None)"
  using assms
  by (simp add: Detect_def New_providers nodeProvider_def ProviderDetect_def HasFile_def
      NewContext_def del: Join.simps)

text \<open>
  Claim C8. The orchestrator goes through the providers in registration order: a provider
  whose detection returns an error, or returns false, is passed over, the error aborting
  nothing; the result is the plan of the first provider whose detection returns true without
  error; and when no provider detects, the result is no plan and no error. The detector that
  \<open>New\<close> builds returns no plan and no error on a directory with no \<open>package.json\<close>.
\<close>

theorem orchestrator_first_match:
  "Detect fs getenv d
     = tryProviders fs ((NewContext (path d))\<lparr>Env := loadRelevantEnvVars getenv\<rparr>) (providers d)
   \<and> (provDetect p fs ctx = Inr (detected, Some err) \<longrightarrow>
        tryProviders fs ctx (p # rest) = tryProviders fs ctx rest)
   \<and> ((\<forall>q \<in> set pre. \<exists>d e. provDetect q fs ctx = Inr (d, e) \<and> (e \<noteq> None \<or> \<not> d))
        \<and> provDetect p fs ctx = Inr (True, None) \<longrightarrow>
        tryProviders fs ctx (pre @ p # post) = provPlan p fs ctx)
   \<and> ((\<forall>q \<in> set ps. \<exists>d e. provDetect q fs ctx = Inr (d, e) \<and> (e \<noteq> None \<or> \<not> d)) \<longrightarrow>
        tryProviders fs ctx ps = Inr (None, None))
   \<and> (fs (Join [root, ''package.json'']) = None \<longrightarrow>
        Detect fs getenv (New parser ParsePackageJSON root) = Inr (None, None))"
proof (intro conjI impI)
  show "Detect fs getenv d
     = tryProviders fs ((NewContext (path d))\<lparr>Env := loadRelevantEnvVars getenv\<rparr>) (providers d)"
    by (simp add: Detect_def)
next
  assume "provDetect p fs ctx = Inr (detected, Some err)"
  then show "tryProviders fs ctx (p # rest) = tryProviders fs ctx rest" by simp
next
  assume "(\<forall>q \<in> set pre. \<exists>d e. provDetect q fs ctx = Inr (d, e) \<and> (e \<noteq> None \<or> \<not> d))
        \<and> provDetect p fs ctx = Inr (True, None)"
  then show "tryProviders fs ctx (pre @ p # post) = provPlan p fs ctx"
    using tryProviders_first [of pre fs ctx p post] by blast
next
  assume "\<forall>q \<in> set ps. \<exists>d e. provDetect q fs ctx = Inr (d, e) \<and> (e \<noteq> None \<or> \<not> d)"
  then show "tryProviders fs ctx ps = Inr (None, None)" by (rule tryProviders_none)
next
  assume "fs (Join [root, ''package.json'']) = None"
  then show "Detect fs getenv (New parser ParsePackageJSON root) = Inr (None, None)"
    by (rule Detect_no_manifest)
qed

theorem orchestrator_first_match_witness:
  "tryProviders Map.empty ctxApp (failingProvider # [silentProvider])
     = tryProviders Map.empty ctxApp [silentProvider]
   \<and> tryProviders [''/app/package.json'' \<mapsto> File emptyManifest] ctxApp
        ([failingProvider, silentProvider]
         @ nodeProvider exampleParser exampleParsePackageJSON # [failingProvider])
       = ProviderPlan [''/app/package.json'' \<mapsto> File emptyManifest] exampleParser
           exampleParsePackageJSON ctxApp
   \<and> tryProviders Map.empty ctxApp [failingProvider, silentProvider] = Inr (None, None)
   \<and> Detect [''/app/README.md'' \<mapsto> File []] (\<lambda>v. [])
        (New exampleParser exampleParsePackageJSON ''/app'') = Inr (None, None)"
proof -
  have f: "provDetect failingProvider fs ctx = Inr (True, Some ReadError)" for fs ctx
    by (simp add: failingProvider_def)
  have s: "provDetect silentProvider fs ctx = Inr (False, None)" for fs ctx
    by (simp add: silentProvider_def)
  have n: "provDetect (nodeProvider exampleParser exampleParsePackageJSON)
             [''/app/package.json'' \<mapsto> File emptyManifest] ctxApp = Inr (True, None)"
    by (simp add: nodeProvider_def ProviderDetect_def HasFile_def ctxApp_def Clean_def)
  have pl: "provPlan (nodeProvider exampleParser exampleParsePackageJSON) fs ctx
              = ProviderPlan fs exampleParser exampleParsePackageJSON ctx" for fs ctx
    by (simp add: nodeProvider_def)
  have skipped: "\<forall>q \<in> set [failingProvider, silentProvider].
      \<exists>d e. provDetect q fs ctx = Inr (d, e) \<and> (e \<noteq> None \<or> \<not> d)" for fs ctx
    by (auto simp: f s)
  have j: "[''/app/README.md'' \<mapsto> File []] (Join [''/app'', ''package.json'']) = None"
    by (simp add: Clean_def)
  note t = orchestrator_first_match
  have a: "tryProviders Map.empty ctxApp (failingProvider # [silentProvider])
     = tryProviders Map.empty ctxApp [silentProvider]"
    using t [where p = failingProvider and fs = Map.empty and ctx = ctxApp
        and rest = "[silentProvider]"] f by blast
  have b: "tryProviders [''/app/package.json'' \<mapsto> File emptyManifest] ctxApp
        ([failingProvider, silentProvider]
         @ nodeProvider exampleParser exampleParsePackageJSON # [failingProvider])
       = ProviderPlan [''/app/package.json'' \<mapsto> File emptyManifest] exampleParser
           exampleParsePackageJSON ctxApp"
    using t [where pre = "[failingProvider, silentProvider]"
        and p = "nodeProvider exampleParser exampleParsePackageJSON"
        and fs = "[''/app/package.json'' \<mapsto> File emptyManifest]" and ctx = ctxApp
        and post = "[failingProvider]"] skipped n pl by metis
  have c: "tryProviders Map.empty ctxApp [failingProvider, silentProvider] = Inr (None, None)"
    using t [where ps = "[failingProvider, silentProvider]" and fs = Map.empty and ctx = ctxApp]
      skipped by blast
  have d: "Detect [''/app/README.md'' \<mapsto> File []] (\<lambda>v. [])
        (New exampleParser exampleParsePackageJSON ''/app'') = Inr (None, None)"
    using t [where fs = "[''/app/README.md'' \<mapsto> File []]" and root = "''/app''"] j by blast
  from a b c d show ?thesis by simp
qed

lemma probe_without_main: "Main pkg = [] \<Longrightarrow> probeEntryPoints pkg entryPoints = []"
  by (simp add: entryPoints_def hasEntryPoint_def)

text \<open>
  Claim C9, as amended. The start command is the start script's command when the manifest
  has a start script; otherwise the serve script's; otherwise the framework default when
  there is one; otherwise \<open>node\<close> followed by the manifest's main field when that field is not
  empty, whatever file it names; otherwise it is empty. (The probe of the candidate entry
  points compares them with a main field that is empty by then, and reads no file.)
\<close>

theorem start_command_precedence:
  "determineStartCommand pkg pm fw =
     (if HasScript pkg ''start'' then GetRunCommand pm @ '' start''
      else if HasScript pkg ''serve'' then GetRunCommand pm @ '' serve''
      else if GetDefaultStartCommand fw pm \<noteq> [] then GetDefaultStartCommand fw pm
      else if Main pkg \<noteq> [] then ''node '' @ Main pkg
      else [])"
  by (simp add: determineStartCommand_def Let_def probe_without_main)

theorem start_command_precedence_witness:
  "determineStartCommand pkgMainLib npmInfo noFramework = ''node lib/server.js''
   \<and> determineStartCommand (emptyPackageJSON\<lparr>Scripts := [''serve'' \<mapsto> ''vite preview'']\<rparr>)
        npmInfo \<lparr>fwName = FrameworkNextJS, fwVersion = [], fwOutputType = OutputTypeServer\<rparr>
       = ''npm run serve''"
proof -
  have "determineStartCommand pkgMainLib npmInfo noFramework = ''node lib/server.js''"
    unfolding start_command_precedence [of pkgMainLib npmInfo noFramework]
    by (simp add: pkgMainLib_def emptyPackageJSON_def HasScript_def GetDefaultStartCommand_def
        noFramework_def)
  moreover have
    "determineStartCommand (emptyPackageJSON\<lparr>Scripts := [''serve'' \<mapsto> ''vite preview'']\<rparr>)
        npmInfo \<lparr>fwName = FrameworkNextJS, fwVersion = [], fwOutputType = OutputTypeServer\<rparr>
       = ''npm run serve''"
    unfolding start_command_precedence [of
          "emptyPackageJSON\<lparr>Scripts := [''serve'' \<mapsto> ''vite preview'']\<rparr>" npmInfo
          "\<lparr>fwName = FrameworkNextJS, fwVersion = [], fwOutputType = OutputTypeServer\<rparr>"]
    by (simp add: HasScript_def npmInfo_def emptyPackageJSON_def)
  ultimately show ?thesis by simp
qed

text \<open>
  The claim as the specification states it fails on two inputs. A manifest whose main field
  names a file outside the candidate list gets \<open>node\<close> and that file, where the stated rule
  finds no candidate and leaves the command empty. And with no script, no framework and no
  main field, a project whose \<open>index.js\<close> is present gets an empty command, where the stated
  rule picks \<open>node index.js\<close>.
\<close>

theorem start_command_counterexample:
  "determineStartCommand pkgMainLib npmInfo noFramework = ''node lib/server.js''
   \<and> specStartCommand (HasFile Map.empty ctxApp) pkgMainLib npmInfo noFramework = []
   \<and> determineStartCommand emptyPackageJSON npmInfo noFramework = []
   \<and> specStartCommand (HasFile [''/app/index.js'' \<mapsto> File []] ctxApp) emptyPackageJSON npmInfo
        noFramework = ''node index.js''"
proof -
  have s: "\<not> HasScript pkgMainLib ''start''" "\<not> HasScript pkgMainLib ''serve''"
    "\<not> HasScript emptyPackageJSON ''start''" "\<not> HasScript emptyPackageJSON ''serve''"
    by (simp_all add: pkgMainLib_def emptyPackageJSON_def HasScript_def)
  have d: "GetDefaultStartCommand noFramework npmInfo = []"
    by (simp add: GetDefaultStartCommand_def noFramework_def)
  have m: "Main pkgMainLib = ''lib/server.js''" "Main emptyPackageJSON = []"
    by (simp_all add: pkgMainLib_def emptyPackageJSON_def)
  have a: "determineStartCommand pkgMainLib npmInfo noFramework = ''node lib/server.js''"
    using s d m by (simp add: determineStartCommand_def)
  have b: "specStartCommand (HasFile Map.empty ctxApp) pkgMainLib npmInfo noFramework = []"
    using s d m by (simp add: specStartCommand_def entryPoints_def HasFile_def)
  have c: "determineStartCommand emptyPackageJSON npmInfo noFramework = []"
    using s d m by (simp add: determineStartCommand_def probe_without_main)
  have j: "Join [Path ctxApp, ''dist/index.js''] = ''/app/dist/index.js''"
    "Join [Path ctxApp, ''build/index.js''] = ''/app/build/index.js''"
    "Join [Path ctxApp, ''index.js''] = ''/app/index.js''"
    by (simp_all add: ctxApp_def Clean_def)
  have e: "specStartCommand (HasFile [''/app/index.js'' \<mapsto> File []] ctxApp) emptyPackageJSON
        npmInfo noFramework = ''node index.js''"
    using s d m j by (simp add: specStartCommand_def entryPoints_def HasFile_def)
  from a b c e show ?thesis by simp
qed

lemma setMeta_keeps_language:
  "Language (setMeta c k v plan) = Language plan"
  "LanguageVersion (setMeta c k v plan) = LanguageVersion plan"
  by (simp_all add: setMeta_def)

lemma assemblePlan_language:
  "Language (assemblePlan fs ctx pkg pmInfo nodeVersion fwInfo)
     = (if pmName pmInfo = PackageManagerBun then ''bun'' else ''nodejs'')"
  "LanguageVersion (assemblePlan fs ctx pkg pmInfo nodeVersion fwInfo)
     = (if pmName pmInfo = PackageManagerBun
        then (if pmVersion pmInfo \<noteq> [] then pmVersion pmInfo else ''latest'')
        else nodeVersion)"
  by (simp_all add: assemblePlan_def Let_def setMeta_keeps_language)

lemma ProviderPlan_returns:
  assumes "ReadFile fs ctx ''package.json'' = Inr data"
    and "ParsePackageJSON data = Inr pkg"
    and "DetectFramework fs parser ctx (Some pkg) = Inr fwInfo"
  shows "ProviderPlan fs parser ParsePackageJSON ctx
           = Inr (Some (assemblePlan fs ctx pkg (DetectPackageManager fs ctx pkg)
                          (DetectNodeVersion fs ctx (Some pkg)) fwInfo), None)"
  using assms by (simp add: ProviderPlan_def)

text \<open>
  Claim C10. When \<open>package.json\<close> is read and parsed and the framework is classified, the
  provider returns a plan. If the detected package manager is bun, its language is \<open>bun\<close> and
  its language version is the version of the package-manager info, or \<open>latest\<close> when that is
  empty, whatever the Node version resolver gives; for every other package manager the
  language is \<open>nodejs\<close> and the language version is the resolved Node version.
\<close>

theorem plan_language:
  "ReadFile fs ctx ''package.json'' = Inr data
   \<and> ParsePackageJSON data = Inr pkg
   \<and> DetectFramework fs parser ctx (Some pkg) = Inr fwInfo
   \<longrightarrow> (\<exists>plan. ProviderPlan fs parser ParsePackageJSON ctx = Inr (Some plan, None)
          \<and> (pmName (DetectPackageManager fs ctx pkg) = PackageManagerBun \<longrightarrow>
               Language plan = ''bun''
               \<and> LanguageVersion plan =
                   (if pmVersion (DetectPackageManager fs ctx pkg) \<noteq> []
                    then pmVersion (DetectPackageManager fs ctx pkg) else ''latest''))
          \<and> (pmName (DetectPackageManager fs ctx pkg) \<noteq> PackageManagerBun \<longrightarrow>
               Language plan = ''nodejs''
               \<and> LanguageVersion plan = DetectNodeVersion fs ctx (Some pkg)))"
proof
  assume h: "ReadFile fs ctx ''package.json'' = Inr data
   \<and> ParsePackageJSON data = Inr pkg
   \<and> DetectFramework fs parser ctx (Some pkg) = Inr fwInfo"
  then have "ProviderPlan fs parser ParsePackageJSON ctx
           = Inr (Some (assemblePlan fs ctx pkg (DetectPackageManager fs ctx pkg)
                          (DetectNodeVersion fs ctx (Some pkg)) fwInfo), None)"
    by (simp add: ProviderPlan_returns [of fs ctx data ParsePackageJSON pkg parser fwInfo])
  then show "\<exists>plan. ProviderPlan fs parser ParsePackageJSON ctx = Inr (Some plan, None)
          \<and> (pmName (DetectPackageManager fs ctx pkg) = PackageManagerBun \<longrightarrow>
               Language plan = ''bun''
               \<and> LanguageVersion plan =
                   (if pmVersion (DetectPackageManager fs ctx pkg) \<noteq> []
                    then pmVersion (DetectPackageManager fs ctx pkg) else ''latest''))
          \<and> (pmName (DetectPackageManager fs ctx pkg) \<noteq> PackageManagerBun \<longrightarrow>
               Language plan = ''nodejs''
               \<and> LanguageVersion plan = DetectNodeVersion fs ctx (Some pkg))"
    by (simp add: assemblePlan_language)
qed

theorem plan_language_witness:
  "(\<exists>plan. ProviderPlan [''/app/package.json'' \<mapsto> File bunManifest] exampleParser
             exampleParsePackageJSON ctxApp = Inr (Some plan, None)
          \<and> Language plan = ''bun'' \<and> LanguageVersion plan = ''1.1.0'')
   \<and> (\<exists>plan. ProviderPlan [''/app/package.json'' \<mapsto> File emptyManifest] exampleParser
             exampleParsePackageJSON ctxApp = Inr (Some plan, None)
          \<and> Language plan = ''nodejs'' \<and> LanguageVersion plan = ''24'')"
proof -
  have j: "Join [Path ctxApp, ''package.json''] = ''/app/package.json''"
    by (simp add: ctxApp_def Clean_def)
  have r1: "ReadFile [''/app/package.json'' \<mapsto> File bunManifest] ctxApp ''package.json''
              = Inr bunManifest"
    and r2: "ReadFile [''/app/package.json'' \<mapsto> File emptyManifest] ctxApp ''package.json''
              = Inr emptyManifest"
    unfolding ReadFile_def j by simp_all
  have u1: "exampleParsePackageJSON bunManifest
              = Inr (emptyPackageJSON\<lparr>PackageManager := ''bun@1.1.0''\<rparr>)"
    and u2: "exampleParsePackageJSON emptyManifest = Inr emptyPackageJSON"
    by (simp_all add: exampleParsePackageJSON_def bunManifest_def emptyManifest_def)
  have f1: "DetectFramework [''/app/package.json'' \<mapsto> File bunManifest] exampleParser ctxApp
              (Some (emptyPackageJSON\<lparr>PackageManager := ''bun@1.1.0''\<rparr>)) = Inr noFramework"
    and f2: "DetectFramework [''/app/package.json'' \<mapsto> File emptyManifest] exampleParser ctxApp
              (Some emptyPackageJSON) = Inr noFramework"
    by (simp_all add: DetectFramework_def HasDependency_def emptyPackageJSON_def HasFile_def
        ctxApp_def Clean_def noFramework_def)
  have pm1: "DetectPackageManager [''/app/package.json'' \<mapsto> File bunManifest] ctxApp
               (emptyPackageJSON\<lparr>PackageManager := ''bun@1.1.0''\<rparr>)
             = \<lparr>pmName = PackageManagerBun, pmVersion = ''1.1.0''\<rparr>"
    by (simp add: DetectPackageManager_def GetPackageManagerInfo_def SplitN2_def)
  have pm2: "DetectPackageManager [''/app/package.json'' \<mapsto> File emptyManifest] ctxApp
               emptyPackageJSON = \<lparr>pmName = PackageManagerNPM, pmVersion = []\<rparr>"
    by (simp add: detect_refines_table resolveByPriority_def ruleFromField_def
        ruleFromLockFiles_chain ruleFromEngines_chain GetPackageManagerInfo_def
        emptyPackageJSON_def emptyEngines_def HasFile_def ctxApp_def Clean_def)
  have nv: "DetectNodeVersion [''/app/package.json'' \<mapsto> File emptyManifest] ctxApp
              (Some emptyPackageJSON) = ''24''"
    by (simp add: DetectNodeVersion_def versionFromFile_def HasFile_def ctxApp_def Clean_def
        mapGet_def emptyPackageJSON_def emptyEngines_def DefaultNodeVersion_def)
  from plan_language [where fs = "[''/app/package.json'' \<mapsto> File bunManifest]"
      and ctx = ctxApp and data = bunManifest and ParsePackageJSON = exampleParsePackageJSON
      and pkg = "emptyPackageJSON\<lparr>PackageManager := ''bun@1.1.0''\<rparr>"
      and parser = exampleParser and fwInfo = noFramework] r1 u1 f1 pm1
  have a: "\<exists>plan. ProviderPlan [''/app/package.json'' \<mapsto> File bunManifest] exampleParser
             exampleParsePackageJSON ctxApp = Inr (Some plan, None)
          \<and> Language plan = ''bun'' \<and> LanguageVersion plan = ''1.1.0''"
    by simp
  from plan_language [where fs = "[''/app/package.json'' \<mapsto> File emptyManifest]"
      and ctx = ctxApp and data = emptyManifest and ParsePackageJSON = exampleParsePackageJSON
      and pkg = emptyPackageJSON and parser = exampleParser and fwInfo = noFramework]
    r2 u2 f2 pm2 nv
  have b: "\<exists>plan. ProviderPlan [''/app/package.json'' \<mapsto> File emptyManifest] exampleParser
             exampleParsePackageJSON ctxApp = Inr (Some plan, None)
          \<and> Language plan = ''nodejs'' \<and> LanguageVersion plan = ''24''"
    by simp
  from a b show ?thesis by simp
qed

lemma Split_nonempty: "Split s sep \<noteq> []"
  by (induction s) (auto split: list.splits)

lemma Split_append_sep: "Split (a @ sep # b) sep = Split a sep @ Split b sep"
proof (induction a)
  case Nil
  then show ?case by simp
next
  case (Cons c a)
  obtain y ys where "Split a sep = y # ys"
    using Split_nonempty [of a sep] by (cases "Split a sep") auto
  with Cons show ?case by simp
qed

lemma cleanComps_append:
  "cleanComps r out (A @ B) = cleanComps r (cleanComps r out A) B"
  by (induction A arbitrary: out) auto

lemma cleanComps_no_dotdot:
  "''..'' \<notin> set B \<Longrightarrow> cleanComps r out B = out @ filter (\<lambda>c. c \<noteq> [] \<and> c \<noteq> ''.'') B"
  by (induction B arbitrary: out) auto

lemma joinSlash_append:
  "xs \<noteq> [] \<Longrightarrow> ys \<noteq> [] \<Longrightarrow> joinSlash (xs @ ys) = joinSlash xs @ ''/'' @ joinSlash ys"
proof (induction xs rule: joinSlash.induct)
  case 1
  then show ?case by simp
next
  case (2 x)
  then show ?case by (cases ys) auto
next
  case (3 x y zs)
  then show ?case by simp
qed

lemma Join_no_dotdot:
  assumes root: "cleanRoot root"
    and nd: "''..'' \<notin> set (Split name (CHR ''/''))"
  shows "within root (Join [root, name])"
proof -
  define rcs where "rcs = cleanComps True [] (Split root (CHR ''/''))"
  define extra where "extra = filter (\<lambda>c. c \<noteq> [] \<and> c \<noteq> ''.'') (Split name (CHR ''/''))"
  from root have ne: "root \<noteq> []" and rooted: "hd root = CHR ''/''" and cl: "Clean root = root"
    by (simp_all add: cleanRoot_def)
  from cl ne rooted have r: "root = ''/'' @ joinSlash rcs"
    by (simp add: Clean_def rcs_def)
  have "Join [root, name] = Clean (root @ CHR ''/'' # name)"
    using ne by simp
  also have "\<dots> = ''/'' @ joinSlash (cleanComps True [] (Split (root @ CHR ''/'' # name) (CHR ''/'')))"
    using ne rooted by (simp add: Clean_def)
  also have "cleanComps True [] (Split (root @ CHR ''/'' # name) (CHR ''/'')) = rcs @ extra"
    by (simp add: Split_append_sep cleanComps_append cleanComps_no_dotdot [OF nd] rcs_def extra_def)
  finally have j: "Join [root, name] = ''/'' @ joinSlash (rcs @ extra)" .
  show ?thesis
  proof (cases "extra = []")
    case True
    with j r show ?thesis by (simp add: within_def)
  next
    case False
    show ?thesis
    proof (cases "rcs = []")
      case True
      with r have "root = ''/''" by simp
      with j True show ?thesis by (simp add: within_def)
    next
      case rne: False
      have "Join [root, name] = root @ ''/'' @ joinSlash extra"
        using j r joinSlash_append [OF rne False] by simp
      then show ?thesis by (simp add: within_def)
    qed
  qed
qed

text \<open>
  Claim C2, as amended. The evidence operations join the argument with the root, clean the
  result and access that path; they make no check of their own. For a root that is a clean
  absolute path and an argument with no \<open>..\<close> component, the path they access lies within
  the root: \<open>HasFile\<close> and \<open>ReadFile\<close> give the same result on two file systems that agree
  within the root, and \<open>ListFiles\<close> the same result with two globbing functions that agree
  on the patterns within the root.
\<close>

theorem evidence_within_root:
  "cleanRoot (Path ctx) \<and> ''..'' \<notin> set (Split name (CHR ''/'')) \<longrightarrow>
     within (Path ctx) (Join [Path ctx, name])
     \<and> ((\<forall>p. within (Path ctx) p \<longrightarrow> fs p = fs' p) \<longrightarrow>
          HasFile fs ctx name = HasFile fs' ctx name
          \<and> ReadFile fs ctx name = ReadFile fs' ctx name)
     \<and> ((\<forall>p. within (Path ctx) p \<longrightarrow> G p = G' p) \<longrightarrow>
          ListFiles G Rel ctx name = ListFiles G' Rel ctx name)"
proof
  assume "cleanRoot (Path ctx) \<and> ''..'' \<notin> set (Split name (CHR ''/''))"
  then have w: "within (Path ctx) (Join [Path ctx, name])"
    using Join_no_dotdot [of "Path ctx" name] by simp
  have "HasFile fs ctx name = HasFile fs' ctx name \<and> ReadFile fs ctx name = ReadFile fs' ctx name"
    if "\<forall>p. within (Path ctx) p \<longrightarrow> fs p = fs' p"
  proof -
    from that w have "fs (Join [Path ctx, name]) = fs' (Join [Path ctx, name])" by blast
    then show ?thesis by (simp add: HasFile_def ReadFile_def del: Join.simps)
  qed
  moreover have "ListFiles G Rel ctx name = ListFiles G' Rel ctx name"
    if "\<forall>p. within (Path ctx) p \<longrightarrow> G p = G' p"
  proof -
    from that w have "G (Join [Path ctx, name]) = G' (Join [Path ctx, name])" by blast
    then show ?thesis by (simp add: ListFiles_def del: Join.simps)
  qed
  ultimately show "within (Path ctx) (Join [Path ctx, name])
     \<and> ((\<forall>p. within (Path ctx) p \<longrightarrow> fs p = fs' p) \<longrightarrow>
          HasFile fs ctx name = HasFile fs' ctx name
          \<and> ReadFile fs ctx name = ReadFile fs' ctx name)
     \<and> ((\<forall>p. within (Path ctx) p \<longrightarrow> G p = G' p) \<longrightarrow>
          ListFiles G Rel ctx name = ListFiles G' Rel ctx name)"
    using w by blast
qed

lemma example_root: "cleanRoot (Path ctxApp)"
  by (simp add: cleanRoot_def ctxApp_def Clean_def)

lemma outside_not_within: "\<not> within ''/app'' ''/etc/passwd''"
  by (simp add: within_def)

lemma examples_agree_within:
  "\<forall>p. within (Path ctxApp) p \<longrightarrow> fsWithOutside p = fsProjectOnly p"
proof (intro allI impI)
  fix p assume "within (Path ctxApp) p"
  then have "p \<noteq> ''/etc/passwd''"
    using outside_not_within by (auto simp: ctxApp_def)
  then show "fsWithOutside p = fsProjectOnly p"
    by (simp add: fsWithOutside_def fsProjectOnly_def)
qed

theorem evidence_within_root_witness:
  "cleanRoot (Path ctxApp) \<and> ''..'' \<notin> set (Split ''src/./index.js'' (CHR ''/''))
   \<and> fsWithOutside \<noteq> fsProjectOnly
   \<and> within (Path ctxApp) (Join [Path ctxApp, ''src/./index.js''])
   \<and> HasFile fsWithOutside ctxApp ''src/./index.js'' = HasFile fsProjectOnly ctxApp ''src/./index.js''
   \<and> ReadFile fsWithOutside ctxApp ''src/./index.js'' = ReadFile fsProjectOnly ctxApp ''src/./index.js''
   \<and> ListFiles (literalGlob fsWithOutside) exampleRel ctxApp ''src/./index.js''
       = ListFiles (literalGlob fsProjectOnly) exampleRel ctxApp ''src/./index.js''"
proof -
  have nd: "''..'' \<notin> set (Split ''src/./index.js'' (CHR ''/''))" by simp
  have g: "\<forall>p. within (Path ctxApp) p \<longrightarrow> literalGlob fsWithOutside p = literalGlob fsProjectOnly p"
    using examples_agree_within by (simp add: literalGlob_def)
  note t = evidence_within_root [where ctx = ctxApp and name = "''src/./index.js''"
      and fs = fsWithOutside and fs' = fsProjectOnly and G = "literalGlob fsWithOutside"
      and G' = "literalGlob fsProjectOnly" and Rel = exampleRel]
  have ne: "fsWithOutside \<noteq> fsProjectOnly"
  proof
    assume "fsWithOutside = fsProjectOnly"
    then have "fsWithOutside ''/etc/passwd'' = fsProjectOnly ''/etc/passwd''" by simp
    then show False by (simp add: fsWithOutside_def fsProjectOnly_def)
  qed
  from t example_root nd examples_agree_within g ne show ?thesis by blast
qed

text \<open>
  The claim as the specification states it fails: with the root \<open>/app\<close>, the argument
  \<open>../etc/passwd\<close> has a \<open>..\<close> component and resolves to \<open>/etc/passwd\<close>, outside the root,
  and none of the three operations rejects it. \<open>HasFile\<close> reports the outside file,
  \<open>ReadFile\<close> returns its content, and \<open>ListFiles\<close> lists it.
\<close>

theorem evidence_traversal_counterexample:
  "''..'' \<in> set (Split ''../etc/passwd'' (CHR ''/''))
   \<and> Join [Path ctxApp, ''../etc/passwd''] = ''/etc/passwd''
   \<and> \<not> within (Path ctxApp) ''/etc/passwd''
   \<and> HasFile fsWithOutside ctxApp ''../etc/passwd''
   \<and> ReadFile fsWithOutside ctxApp ''../etc/passwd'' = Inr ''root:x:0:0''
   \<and> ListFiles (literalGlob fsWithOutside) exampleRel ctxApp ''../etc/passwd''
       = Inr [''../etc/passwd'']"
proof -
  have j: "Join [Path ctxApp, ''../etc/passwd''] = ''/etc/passwd''"
    by (simp add: ctxApp_def Clean_def)
  have f: "fsWithOutside ''/etc/passwd'' = Some (File ''root:x:0:0'')"
    by (simp add: fsWithOutside_def)
  have h: "HasFile fsWithOutside ctxApp ''../etc/passwd''"
    unfolding HasFile_def j using f by simp
  have r: "ReadFile fsWithOutside ctxApp ''../etc/passwd'' = Inr ''root:x:0:0''"
    unfolding ReadFile_def j using f by simp
  have l: "ListFiles (literalGlob fsWithOutside) exampleRel ctxApp ''../etc/passwd''
       = Inr [''../etc/passwd'']"
    unfolding ListFiles_def j using f by (simp add: literalGlob_def exampleRel_def ctxApp_def)
  have w: "\<not> within (Path ctxApp) ''/etc/passwd''"
    using outside_not_within by (simp add: ctxApp_def)
  from j h r l w show ?thesis by simp
qed

lemma update_fresh: "k \<notin> fst ` set acc \<Longrightarrow> AList.update k v acc = acc @ [(k, v)]"
  by (induction acc) auto

lemma fold_update_distinct:
  "distinct (map fst (acc @ ms)) \<Longrightarrow>
     fold (\<lambda>(k, v) acc. AList.update k v acc) ms acc = acc @ ms"
proof (induction ms arbitrary: acc)
  case Nil
  then show ?case by simp
next
  case (Cons m ms)
  obtain k v where m: "m = (k, v)" by (cases m)
  from Cons.prems m have fresh: "k \<notin> fst ` set acc" by auto
  from Cons.prems m have "distinct (map fst ((acc @ [(k, v)]) @ ms))" by auto
  from Cons.IH [OF this] show ?case by (simp add: m update_fresh [OF fresh])
qed

lemma dedupLast_distinct: "distinct (map fst ms) \<Longrightarrow> dedupLast ms = ms"
  using fold_update_distinct [of "[]" ms] by (simp add: dedupLast_def)

lemma map_fst_map_prod: "map fst (map (map_prod id f) kvs) = map fst kvs"
  by (induction kvs) auto

lemma replaceInvalid_valid: "validUTF8 s \<Longrightarrow> replaceInvalid s = s"
proof (induction s rule: replaceInvalid.induct)
  case 1
  show ?case by simp
next
  case (2 c cs)
  show ?case
  proof (cases "runeWidth (c # cs)")
    case 0
    with "2.prems" show ?thesis by (simp del: runeWidth.simps)
  next
    case (Suc k)
    with "2.prems" have "validUTF8 (drop k cs)" by (simp del: runeWidth.simps)
    with "2.IH"(2) [OF Suc] have "replaceInvalid (drop k cs) = drop k cs" .
    with Suc show ?thesis by (simp del: runeWidth.simps)
  qed
qed

lemma encode_strings_valid:
  "list_all validUTF8 xs \<Longrightarrow> map (\<lambda>x. JString (replaceInvalid x)) xs = map JString xs"
  by (induction xs) (auto simp: replaceInvalid_valid)

lemma encode_string_map_valid:
  "list_all (\<lambda>m. validUTF8 (fst m) \<and> validUTF8 (snd m)) m \<Longrightarrow>
     map (map_prod replaceInvalid (\<lambda>v. JString (replaceInvalid v))) m
       = map (map_prod id JString) m"
  by (induction m) (auto simp: replaceInvalid_valid)

lemma roundtrip_value:
  "distinctKeys v \<Longrightarrow> validValue v \<Longrightarrow> decodeValue (encodeValue v) = canonValue v"
proof (induction v)
  case (GString s)
  then show ?case by (simp add: replaceInvalid_valid)
next
  case (GBool b)
  then show ?case by simp
next
  case (GStrings xs)
  then have "map (\<lambda>x. JString (replaceInvalid x)) xs = map JString xs"
    by (simp add: encode_strings_valid)
  then show ?case by (simp add: comp_def)
next
  case (GSlice vs)
  then have "\<forall>v \<in> set vs. decodeValue (encodeValue v) = canonValue v"
    by (auto simp: list_all_iff)
  then show ?case by simp
next
  case (GMap kvs)
  from GMap.prems have d: "distinct (map fst kvs)"
    and w: "\<forall>kv \<in> set kvs. distinctKeys (snd kv)"
    and u: "\<forall>kv \<in> set kvs. validUTF8 (fst kv) \<and> validValue (snd kv)"
    by (auto simp: list_all_iff)
  have "map (map_prod id decodeValue) (map (map_prod replaceInvalid encodeValue) kvs)
          = map (map_prod id canonValue) kvs"
  proof (rule nth_equalityI)
    show "length (map (map_prod id decodeValue) (map (map_prod replaceInvalid encodeValue) kvs))
            = length (map (map_prod id canonValue) kvs)" by simp
  next
    fix i
    assume "i < length (map (map_prod id decodeValue)
                          (map (map_prod replaceInvalid encodeValue) kvs))"
    then have i: "i < length kvs" by simp
    obtain k v where kv: "kvs ! i = (k, v)" by (cases "kvs ! i")
    from i kv have mem: "(k, v) \<in> set kvs" by (metis nth_mem)
    with w have dv: "distinctKeys v" by fastforce
    from mem u have uk: "validUTF8 k" and uv: "validValue v" by fastforce+
    from GMap.IH [OF mem, of v] dv uv have "decodeValue (encodeValue v) = canonValue v" by simp
    with i kv uk
    show "map (map_prod id decodeValue) (map (map_prod replaceInvalid encodeValue) kvs) ! i
            = map (map_prod id canonValue) kvs ! i"
      by (simp add: replaceInvalid_valid)
  qed
  then have eq: "map (map_prod id decodeValue) (map (map_prod replaceInvalid encodeValue) kvs)
          = map (map_prod id canonValue) kvs" .
  have "distinct (map fst (map (map_prod id canonValue) kvs))"
    using d by (simp only: map_fst_map_prod)
  then have "dedupLast (map (map_prod id canonValue) kvs) = map (map_prod id canonValue) kvs"
    by (rule dedupLast_distinct)
  then show ?case
    unfolding encodeValue.simps decodeValue.simps canonValue.simps eq by simp
qed

lemma roundtrip_metadata:
  assumes "distinct (map fst m)" and "list_all (\<lambda>kv. distinctKeys (snd kv)) m"
    and "list_all (\<lambda>kv. validUTF8 (fst kv) \<and> validValue (snd kv)) m"
  shows "dedupLast (map (map_prod id decodeValue \<circ> map_prod replaceInvalid encodeValue) m)
           = map (map_prod id canonValue) m"
proof -
  have eq: "map (map_prod id decodeValue \<circ> map_prod replaceInvalid encodeValue) m
          = map (map_prod id canonValue) m"
    using assms(2,3) by (induction m) (auto simp: roundtrip_value replaceInvalid_valid)
  have "distinct (map fst (map (map_prod id canonValue) m))"
    using assms(1) by (simp only: map_fst_map_prod)
  then show ?thesis unfolding eq by (rule dedupLast_distinct)
qed

lemma allSome_replaced:
  "allSome (map (asString \<circ> (\<lambda>x. JString (replaceInvalid x))) xs) = Some (map replaceInvalid xs)"
  by (induction xs) auto

lemma allSome_string_members:
  "allSome (map ((\<lambda>m. asString (snd m)) \<circ> map_prod id JString) m) = Some (map snd m)"
  by (induction m) auto

lemma zip_fst_snd: "zip (map (fst \<circ> map_prod id f) m) (map snd m) = m"
  by (induction m) auto

lemma roundtrip_string_map:
  assumes "distinct (map fst m)"
    and "list_all (\<lambda>m. validUTF8 (fst m) \<and> validUTF8 (snd m)) m"
  shows "asStringMap (JObject (map (map_prod replaceInvalid (\<lambda>v. JString (replaceInvalid v))) m))
           = Some m"
  unfolding encode_string_map_valid [OF assms(2)] using assms(1)
  by (simp add: allSome_string_members zip_fst_snd zip_map_fst_snd dedupLast_distinct)

lemma membersNamed_append: "membersNamed k (a @ b) = membersNamed k a @ membersNamed k b"
  by (simp add: membersNamed_def)

lemma membersNamed_Cons:
  "membersNamed k ((k', v) # ms) = (if k' = k then v # membersNamed k ms else membersNamed k ms)"
  by (simp add: membersNamed_def)

lemma membersNamed_Nil: "membersNamed k [] = []"
  by (simp add: membersNamed_def)

lemma membersNamed_omit:
  "membersNamed k (omitString k' s)
     = (if k' = k \<and> s \<noteq> [] then [JString (replaceInvalid s)] else [])"
  "membersNamed k (omitStrings k' xs)
     = (if k' = k \<and> xs \<noteq> [] then [JArray (map (\<lambda>x. JString (replaceInvalid x)) xs)] else [])"
  "membersNamed k (omitStringMap k' sm)
     = (if k' = k \<and> sm \<noteq> []
        then [JObject (map (map_prod replaceInvalid (\<lambda>v. JString (replaceInvalid v))) sm)]
        else [])"
  "membersNamed k (omitValueMap k' vm)
     = (if k' = k \<and> vm \<noteq> [] then [JObject (map (map_prod replaceInvalid encodeValue) vm)]
        else [])"
  by (simp_all add: membersNamed_def omitString_def omitStrings_def omitStringMap_def
      omitValueMap_def)

lemmas membersNamed_simps =
  membersNamed_append membersNamed_Cons membersNamed_Nil membersNamed_omit

lemma read_required:
  "readField asString [] ''provider'' (marshalPlan p) = Some (replaceInvalid (Provider p))"
  "readField asString [] ''language'' (marshalPlan p) = Some (replaceInvalid (Language p))"
  by (simp_all add: readField_def marshalPlan_def membersNamed_simps)

lemma read_optional:
  "readField asString [] ''language_version'' (marshalPlan p)
     = Some (replaceInvalid (LanguageVersion p))"
  "readField asString [] ''framework'' (marshalPlan p) = Some (replaceInvalid (Framework p))"
  "readField asString [] ''framework_version'' (marshalPlan p)
     = Some (replaceInvalid (FrameworkVersion p))"
  "readField asString [] ''package_manager'' (marshalPlan p)
     = Some (replaceInvalid (Plan.PackageManager p))"
  "readField asString [] ''package_manager_version'' (marshalPlan p)
     = Some (replaceInvalid (PackageManagerVersion p))"
  "readField asString [] ''install_command'' (marshalPlan p)
     = Some (replaceInvalid (InstallCommand p))"
  "readField asString [] ''build_command'' (marshalPlan p)
     = Some (replaceInvalid (BuildCommand p))"
  "readField asString [] ''start_command'' (marshalPlan p)
     = Some (replaceInvalid (StartCommand p))"
  by (simp_all add: readField_def marshalPlan_def membersNamed_simps)

lemma read_files:
  "readField asStrings [] ''detected_files'' (marshalPlan p)
     = Some (map replaceInvalid (DetectedFiles p))"
  by (simp add: readField_def marshalPlan_def membersNamed_simps allSome_replaced)

lemma read_metadata:
  assumes "wfPlan p" and "validPlan p"
  shows "readField asValueMap [] ''metadata'' (marshalPlan p)
           = Some (map (map_prod id canonValue) (Metadata p))"
  using assms
  by (simp add: readField_def marshalPlan_def membersNamed_simps wfPlan_def validPlan_def
      roundtrip_metadata)

lemma read_envs:
  assumes "wfPlan p" and "validPlan p"
  shows "readField asStringMap [] ''build_env'' (marshalPlan p) = Some (BuildEnv p)"
    and "readField asStringMap [] ''env'' (marshalPlan p) = Some (Plan.Env p)"
  using assms
  by (simp_all add: readField_def marshalPlan_def membersNamed_simps wfPlan_def validPlan_def
      roundtrip_string_map del: asStringMap.simps)

lemma valid_strings:
  assumes "validPlan p"
  shows "replaceInvalid (Provider p) = Provider p"
    "replaceInvalid (Language p) = Language p"
    "replaceInvalid (LanguageVersion p) = LanguageVersion p"
    "replaceInvalid (Framework p) = Framework p"
    "replaceInvalid (FrameworkVersion p) = FrameworkVersion p"
    "replaceInvalid (Plan.PackageManager p) = Plan.PackageManager p"
    "replaceInvalid (PackageManagerVersion p) = PackageManagerVersion p"
    "replaceInvalid (InstallCommand p) = InstallCommand p"
    "replaceInvalid (BuildCommand p) = BuildCommand p"
    "replaceInvalid (StartCommand p) = StartCommand p"
    "map replaceInvalid (DetectedFiles p) = DetectedFiles p"
proof -
  from assms have "list_all validUTF8 (DetectedFiles p)" by (simp add: validPlan_def)
  then show "map replaceInvalid (DetectedFiles p) = DetectedFiles p"
    by (induction "DetectedFiles p" arbitrary: p) (auto simp: replaceInvalid_valid map_idI list_all_iff)
qed (use assms in \<open>simp_all add: validPlan_def stringFields_def optionalStrings_def
      replaceInvalid_valid\<close>)

lemma roundtrip_plan:
  assumes "wfPlan p" and "validPlan p"
  shows "unmarshalPlan (marshalPlan p)
           = Some (p\<lparr>Metadata := map (map_prod id canonValue) (Metadata p)\<rparr>)"
  unfolding unmarshalPlan_def read_required read_optional read_files
    read_metadata [OF assms] read_envs [OF assms] valid_strings [OF assms(2)]
  by (cases p) simp

lemma optional_members:
  "\<forall>(k, s) \<in> set (optionalStrings p).
     membersNamed k (marshalPlan p) = (if s = [] then [] else [JString (replaceInvalid s)])"
  by (simp add: optionalStrings_def marshalPlan_def membersNamed_simps)

lemma string_fields_read:
  "\<forall>(k, s) \<in> set (stringFields p).
     readField asString [] k (marshalPlan p) = Some (replaceInvalid s)"
  by (simp add: stringFields_def optionalStrings_def read_required read_optional)

text \<open>
  Claim C6, as amended. For every plan whose strings are valid UTF-8 and whose maps have
  distinct keys, as Go maps have, writing it to the wire format and reading it back gives
  every field back, the metadata values in the generic form of the decoder (a string slice
  comes back as a generic slice of strings). An optional string field is a member of the
  wire form only when it is not empty, so an empty field is written as an absent one and
  read back as empty: the wire form does not tell an absent optional field from an empty
  one. For every plan, a string field is read back with every byte that is not part of
  valid UTF-8 replaced by U+FFFD.
\<close>

theorem plan_wire_round_trip:
  "(wfPlan p \<and> validPlan p \<longrightarrow>
      unmarshalPlan (marshalPlan p)
        = Some (p\<lparr>Metadata := map (map_prod id canonValue) (Metadata p)\<rparr>))
   \<and> (\<forall>(k, s) \<in> set (optionalStrings p).
        membersNamed k (marshalPlan p) = (if s = [] then [] else [JString (replaceInvalid s)]))
   \<and> (\<forall>(k, s) \<in> set (stringFields p).
        readField asString [] k (marshalPlan p) = Some (replaceInvalid s))"
  using roundtrip_plan [of p] optional_members [of p] string_fields_read [of p] by blast

theorem plan_wire_round_trip_witness:
  "wfPlan planWorkspaces \<and> validPlan planWorkspaces
   \<and> unmarshalPlan (marshalPlan planWorkspaces)
       = Some (planWorkspaces\<lparr>Metadata := [(''is_monorepo'', GBool True),
                                            (''workspaces'', GSlice [GString ''packages/a''])]\<rparr>)
   \<and> (''start_command'', []) \<in> set (optionalStrings planWorkspaces)
   \<and> membersNamed ''start_command'' (marshalPlan planWorkspaces) = []
   \<and> (''language_version'', ''24'') \<in> set (optionalStrings planWorkspaces)
   \<and> membersNamed ''language_version'' (marshalPlan planWorkspaces) = [JString ''24'']
   \<and> (''language_version'', [CHR 0xFF]) \<in> set (stringFields planInvalidVersion)
   \<and> readField asString [] ''language_version'' (marshalPlan planInvalidVersion)
       = Some [CHR 0xEF, CHR 0xBF, CHR 0xBD]"
proof -
  note t = plan_wire_round_trip [of planWorkspaces]
  note t' = plan_wire_round_trip [of planInvalidVersion, THEN conjunct2, THEN conjunct2]
  have w: "wfPlan planWorkspaces"
    by (simp add: wfPlan_def planWorkspaces_def planMinimal_def)
  have u: "validPlan planWorkspaces"
    by (simp add: validPlan_def stringFields_def optionalStrings_def planWorkspaces_def
        planMinimal_def byteIn_def)
  have m: "map (map_prod id canonValue) (Metadata planWorkspaces)
             = [(''is_monorepo'', GBool True), (''workspaces'', GSlice [GString ''packages/a''])]"
    by (simp add: planWorkspaces_def)
  have o1: "(''start_command'', []) \<in> set (optionalStrings planWorkspaces)"
    and o2: "(''language_version'', ''24'') \<in> set (optionalStrings planWorkspaces)"
    by (simp_all add: optionalStrings_def planWorkspaces_def planMinimal_def)
  have o3: "(''language_version'', [CHR 0xFF]) \<in> set (stringFields planInvalidVersion)"
    by (simp add: stringFields_def optionalStrings_def planInvalidVersion_def planMinimal_def)
  have r24: "replaceInvalid ''24'' = ''24''"
    by (simp add: byteIn_def)
  have rff: "replaceInvalid [CHR 0xFF] = [CHR 0xEF, CHR 0xBF, CHR 0xBD]"
    by (simp add: byteIn_def acceptRange_def replacementChar_def)
  from t w u m have a: "unmarshalPlan (marshalPlan planWorkspaces)
       = Some (planWorkspaces\<lparr>Metadata := [(''is_monorepo'', GBool True),
                                            (''workspaces'', GSlice [GString ''packages/a''])]\<rparr>)"
    by simp
  from t o1 have b: "membersNamed ''start_command'' (marshalPlan planWorkspaces) = []"
    by fastforce
  from t o2 r24 have c: "membersNamed ''language_version'' (marshalPlan planWorkspaces)
                       = [JString ''24'']"
    by fastforce
  from t' o3 rff have d: "readField asString [] ''language_version''
        (marshalPlan planInvalidVersion) = Some [CHR 0xEF, CHR 0xBF, CHR 0xBD]"
    by fastforce
  from w u a o1 b o2 c o3 d show ?thesis by simp
qed

text \<open>
  The claim as the specification states it fails. The plan \<open>planMinimal\<close> has an empty start
  command, and its wire form has no \<open>start_command\<close> member; the document that sets
  \<open>start_command\<close> to the empty string and the document without the member are different and
  read back as the same plan, which is written as the document without the member. A plan
  whose metadata holds a string slice does not come back equal to itself, and neither does a
  plan whose language version is the byte \<open>FF\<close>, which is not valid UTF-8: it comes back as
  U+FFFD.
\<close>

theorem plan_wire_counterexample:
  "StartCommand planMinimal = []
   \<and> membersNamed ''start_command'' (marshalPlan planMinimal) = []
   \<and> wireEmptyStart \<noteq> wireNoStart
   \<and> unmarshalPlan wireEmptyStart = Some planMinimal
   \<and> unmarshalPlan wireNoStart = Some planMinimal
   \<and> marshalPlan planMinimal = wireNoStart
   \<and> unmarshalPlan (marshalPlan planWorkspaces) \<noteq> Some planWorkspaces
   \<and> unmarshalPlan (marshalPlan planInvalidVersion)
       = Some (planMinimal\<lparr>LanguageVersion := [CHR 0xEF, CHR 0xBF, CHR 0xBD]\<rparr>)
   \<and> unmarshalPlan (marshalPlan planInvalidVersion) \<noteq> Some planInvalidVersion"
proof -
  have a: "StartCommand planMinimal = []" by (simp add: planMinimal_def)
  have rn: "replaceInvalid ''node'' = ''node''" "replaceInvalid ''nodejs'' = ''nodejs''"
    by (simp_all add: byteIn_def)
  have rff: "replaceInvalid [CHR 0xFF] = [CHR 0xEF, CHR 0xBF, CHR 0xBD]"
    by (simp add: byteIn_def acceptRange_def replacementChar_def)
  have m: "marshalPlan planMinimal = wireNoStart"
    using rn by (simp add: marshalPlan_def planMinimal_def wireNoStart_def omitString_def
        omitStrings_def omitStringMap_def omitValueMap_def)
  have b: "membersNamed ''start_command'' (marshalPlan planMinimal) = []"
    unfolding m by (simp add: wireNoStart_def membersNamed_def)
  have c: "wireEmptyStart \<noteq> wireNoStart"
    by (simp add: wireEmptyStart_def wireNoStart_def)
  have d: "unmarshalPlan wireEmptyStart = Some planMinimal"
    by (simp add: unmarshalPlan_def readField_def membersNamed_def wireEmptyStart_def
        planMinimal_def)
  have e: "unmarshalPlan wireNoStart = Some planMinimal"
    by (simp add: unmarshalPlan_def readField_def membersNamed_def wireNoStart_def
        planMinimal_def)
  have w: "wfPlan planWorkspaces"
    by (simp add: wfPlan_def planWorkspaces_def planMinimal_def)
  have u: "validPlan planWorkspaces"
    by (simp add: validPlan_def stringFields_def optionalStrings_def planWorkspaces_def
        planMinimal_def byteIn_def)
  have "Metadata (planWorkspaces\<lparr>Metadata := map (map_prod id canonValue) (Metadata planWorkspaces)\<rparr>)
          \<noteq> Metadata planWorkspaces"
    by (simp add: planWorkspaces_def)
  then have "planWorkspaces\<lparr>Metadata := map (map_prod id canonValue) (Metadata planWorkspaces)\<rparr>
          \<noteq> planWorkspaces"
    by metis
  then have f: "unmarshalPlan (marshalPlan planWorkspaces) \<noteq> Some planWorkspaces"
    by (simp add: roundtrip_plan [OF w u])
  have mi: "marshalPlan planInvalidVersion
              = wireNoStart @ [(''language_version'', JString [CHR 0xEF, CHR 0xBF, CHR 0xBD])]"
    using rn rff by (simp add: marshalPlan_def planInvalidVersion_def planMinimal_def
        wireNoStart_def omitString_def omitStrings_def omitStringMap_def omitValueMap_def)
  have g: "unmarshalPlan (marshalPlan planInvalidVersion)
       = Some (planMinimal\<lparr>LanguageVersion := [CHR 0xEF, CHR 0xBF, CHR 0xBD]\<rparr>)"
    unfolding mi
    by (simp add: unmarshalPlan_def readField_def membersNamed_def wireNoStart_def
        planMinimal_def)
  have "LanguageVersion (planMinimal\<lparr>LanguageVersion := [CHR 0xEF, CHR 0xBF, CHR 0xBD]\<rparr>)
          \<noteq> LanguageVersion planInvalidVersion"
    by (simp add: planInvalidVersion_def)
  then have "planMinimal\<lparr>LanguageVersion := [CHR 0xEF, CHR 0xBF, CHR 0xBD]\<rparr> \<noteq> planInvalidVersion"
    by metis
  with g have h: "unmarshalPlan (marshalPlan planInvalidVersion) \<noteq> Some planInvalidVersion"
    by simp
  from a b c d e m f g h show ?thesis by simp
qed

end
